theory Spec2Isabelle
  imports Main
begin

section \<open>JavaScript strings\<close>

text \<open>
  A JavaScript string is a sequence of UTF-16 code units. The model uses \<open>string\<close>
  (a list of 8-bit characters): one \<open>char\<close> is one code unit in the range 0..255, so
  the strings of the model are the JavaScript strings whose code units all lie below 256.
  Positions and lengths count code units, as \<open>indexOf\<close> and \<open>substring\<close> do.
\<close>

definition startsWith :: "string \<Rightarrow> string \<Rightarrow> bool" where
  "startsWith s p = (take (length p) s = p)"

text \<open>\<open>occursAt s pat i\<close>: the pattern is found in \<open>s\<close> at position \<open>i\<close>.\<close>

definition occursAt :: "string \<Rightarrow> string \<Rightarrow> nat \<Rightarrow> bool" where
  "occursAt s pat i = (i + length pat \<le> length s \<and> take (length pat) (drop i s) = pat)"

text \<open>
  \<open>s.indexOf(pat, from)\<close>: the least position at or after \<open>from\<close> (clamped to the
  length) where \<open>pat\<close> occurs; \<open>None\<close> stands for the result -1. The scan walks the
  string from the start position, carrying the current index.
\<close>

fun indexOf_scan :: "string \<Rightarrow> string \<Rightarrow> nat \<Rightarrow> nat option" where
  "indexOf_scan pat [] i = (if pat = [] then Some i else None)"
| "indexOf_scan pat (c # cs) i =
     (if take (length pat) (c # cs) = pat then Some i else indexOf_scan pat cs (Suc i))"

definition indexOf :: "string \<Rightarrow> string \<Rightarrow> nat \<Rightarrow> nat option" where
  "indexOf s pat from = (let k = min from (length s) in indexOf_scan pat (drop k s) k)"

text \<open>
  \<open>s.substring(a, b)\<close>: both indices are clamped to the length and swapped when
  \<open>a > b\<close>; \<open>s.substring(a)\<close> runs to the end.
\<close>

definition substring :: "string \<Rightarrow> nat \<Rightarrow> nat \<Rightarrow> string" where
  "substring s a b =
     (let a' = min a (length s); b' = min b (length s);
          lo = min a' b'; hi = max a' b'
      in take (hi - lo) (drop lo s))"

definition substringFrom :: "string \<Rightarrow> nat \<Rightarrow> string" where
  "substringFrom s a = drop a s"

text \<open>
  White space as \<open>trim\<close> sees it (ECMAScript WhiteSpace and LineTerminator), for the
  code units below 256: TAB, LF, VT, FF, CR, SPACE and NO-BREAK SPACE.
\<close>

definition isWhiteSpace :: "char \<Rightarrow> bool" where
  "isWhiteSpace c = (c \<in> set [CHR 0x09, CHR 0x0A, CHR 0x0B, CHR 0x0C, CHR 0x0D, CHR 0x20, CHR 0xA0])"

definition trimStart :: "string \<Rightarrow> string" where
  "trimStart s = dropWhile isWhiteSpace s"

definition trimEnd :: "string \<Rightarrow> string" where
  "trimEnd s = rev (dropWhile isWhiteSpace (rev s))"

definition trim :: "string \<Rightarrow> string" where
  "trim s = trimEnd (trimStart s)"

text \<open>
  \<open>toLowerCase\<close> on code units below 256: A..Z and the Latin-1 capitals 0xC0..0xDE
  (without the multiplication sign 0xD7) move up by 0x20; everything else stays.
\<close>

definition lowerChar :: "char \<Rightarrow> char" where
  "lowerChar c =
     (let n = (of_char c :: nat)
      in if (0x41 \<le> n \<and> n \<le> 0x5A) \<or> (0xC0 \<le> n \<and> n \<le> 0xDE \<and> n \<noteq> 0xD7)
         then char_of (n + 0x20) else c)"

definition toLowerCase :: "string \<Rightarrow> string" where
  "toLowerCase s = map lowerChar s"

text \<open>
  \<open>toUpperCase\<close> on code units below 256: a..z and the Latin-1 small letters
  0xE0..0xFE (without the division sign 0xF7) move down by 0x20, and the sharp s 0xDF
  becomes \<open>SS\<close>. JavaScript maps the micro sign 0xB5 and the y with diaeresis 0xFF to
  code units above 255, which \<open>string\<close> cannot hold; the model leaves these two as
  they are. In both readings the result is not an ASCII letter, so a comparison of the
  upper-case form with an ASCII literal comes out the same.
\<close>

definition upperChar :: "char \<Rightarrow> string" where
  "upperChar c =
     (let n = (of_char c :: nat)
      in if (0x61 \<le> n \<and> n \<le> 0x7A) \<or> (0xE0 \<le> n \<and> n \<le> 0xFE \<and> n \<noteq> 0xF7)
         then [char_of (n - 0x20)]
         else if n = 0xDF then ''SS'' else [c])"

definition toUpperCase :: "string \<Rightarrow> string" where
  "toUpperCase s = concat (map upperChar s)"

text \<open>\<open>xs.join(sep)\<close> on a list of strings.\<close>

fun join :: "string \<Rightarrow> string list \<Rightarrow> string" where
  "join sep [] = []"
| "join sep [x] = x"
| "join sep (x # y # ys) = x @ sep @ join sep (y # ys)"

section \<open>JavaScript data values\<close>

text \<open>
  The values that \<open>JSON.parse\<close> and \<open>YAML.parse\<close> return. A number is kept as its
  literal (no claim reads one). An object is the list of its properties in insertion
  order; \<open>getProp\<close> is property lookup, where a later entry for a key overrides an
  earlier one.
\<close>

datatype jsvalue =
    JNull
  | JBool bool
  | JNum string
  | JStr string
  | JArr "jsvalue list"
  | JObj "(string \<times> jsvalue) list"

definition getProp :: "(string \<times> jsvalue) list \<Rightarrow> string \<Rightarrow> jsvalue option" where
  "getProp props k = map_of (rev props) k"

section \<open>JSON\<close>

text \<open>
  \<open>JSON.stringify\<close> and \<open>JSON.parse\<close> belong to the JavaScript runtime. They are
  modelled after ECMA-262 (sections 25.5.1 and 25.5.2) and the JSON grammar of ECMA-404.
  \<open>JSON.stringify\<close> without an indent argument emits no white space; a string is
  quoted by \<open>QuoteJSONString\<close>, which escapes the quotation mark, the backslash and
  the code units below 0x20.

  \<open>JSON.parse\<close> either returns a value or throws a SyntaxError. The model has a third
  outcome, \<open>Unrepresentable\<close>: the text holds a four-digit \<open>u\<close> escape for a code unit
  above 0xFF, which \<open>string\<close> cannot hold, so the model gives no answer. The parser
  is a recursive descent on the text with a recursion budget (the first argument), which
  each call passes on reduced by one; a call without budget gives \<open>OutOfBudget\<close>. Of two
  calls in a row, at most one (the call of \<open>parse_value\<close> for an element, made by
  \<open>parse_elems\<close>) comes without a consumed character, so the budget above twice the
  length of the text, with which \<open>JSON_parse\<close> starts, is never used up (lemma
  \<open>JSON_parse_budget\<close>).
\<close>

datatype parse_error = SyntaxError | Unrepresentable | OutOfBudget

definition hexDigit :: "nat \<Rightarrow> char" where
  "hexDigit n = ''0123456789abcdef'' ! n"

definition quoteChar :: "char \<Rightarrow> string" where
  "quoteChar c =
     (if c = CHR 0x08 then [CHR 0x5C, CHR ''b'']
      else if c = CHR 0x09 then [CHR 0x5C, CHR ''t'']
      else if c = CHR 0x0A then [CHR 0x5C, CHR ''n'']
      else if c = CHR 0x0C then [CHR 0x5C, CHR ''f'']
      else if c = CHR 0x0D then [CHR 0x5C, CHR ''r'']
      else if c = CHR 0x22 then [CHR 0x5C, CHR 0x22]
      else if c = CHR 0x5C then [CHR 0x5C, CHR 0x5C]
      else if (of_char c :: nat) < 0x20
        then [CHR 0x5C, CHR ''u'', CHR ''0'', CHR ''0'',
              hexDigit ((of_char c :: nat) div 16), hexDigit ((of_char c :: nat) mod 16)]
      else [c])"

definition quoteJSONString :: "string \<Rightarrow> string" where
  "quoteJSONString s = [CHR 0x22] @ concat (map quoteChar s) @ [CHR 0x22]"

fun JSON_stringify :: "jsvalue \<Rightarrow> string"
and stringify_members :: "(string \<times> jsvalue) list \<Rightarrow> string list"
and stringify_elems :: "jsvalue list \<Rightarrow> string list" where
  "JSON_stringify JNull = ''null''"
| "JSON_stringify (JBool b) = (if b then ''true'' else ''false'')"
| "JSON_stringify (JNum lit) = lit"
| "JSON_stringify (JStr s) = quoteJSONString s"
| "JSON_stringify (JArr vs) = ''['' @ join '','' (stringify_elems vs) @ '']''"
| "JSON_stringify (JObj ms) = ''{'' @ join '','' (stringify_members ms) @ ''}''"
| "stringify_members [] = []"
| "stringify_members ((k, v) # ms) = (quoteJSONString k @ '':'' @ JSON_stringify v) # stringify_members ms"
| "stringify_elems [] = []"
| "stringify_elems (v # vs) = JSON_stringify v # stringify_elems vs"


definition isJsonWs :: "char \<Rightarrow> bool" where
  "isJsonWs c = (c \<in> set [CHR 0x20, CHR 0x09, CHR 0x0A, CHR 0x0D])"

definition skipWs :: "string \<Rightarrow> string" where
  "skipWs cs = dropWhile isJsonWs cs"

definition isDigit :: "char \<Rightarrow> bool" where
  "isDigit c = (c \<in> set ''0123456789'')"

definition hexVal :: "char \<Rightarrow> nat option" where
  "hexVal c = map_of (zip ''0123456789abcdefABCDEF''
                 [0, 1, 2, 3, 4, 5, 6, 7, 8, 9, 10, 11, 12, 13, 14, 15, 10, 11, 12, 13, 14, 15]) c"

definition simpleEscape :: "char \<Rightarrow> char option" where
  "simpleEscape e = map_of (zip [CHR 0x22, CHR 0x5C, CHR ''/'', CHR ''b'', CHR ''f'', CHR ''n'', CHR ''r'', CHR ''t'']
                       [CHR 0x22, CHR 0x5C, CHR ''/'', CHR 0x08, CHR 0x0C, CHR 0x0A, CHR 0x0D, CHR 0x09]) e"

definition unicodeEscape :: "char \<Rightarrow> char \<Rightarrow> char \<Rightarrow> char \<Rightarrow> parse_error + char" where
  "unicodeEscape a b c d =
     (case (hexVal a, hexVal b, hexVal c, hexVal d) of
        (Some h3, Some h2, Some h1, Some h0) \<Rightarrow>
          if h3 = 0 \<and> h2 = 0 then Inr (char_of (16 * h1 + h0)) else Inl Unrepresentable
      | _ \<Rightarrow> Inl SyntaxError)"

fun parse_string :: "string \<Rightarrow> parse_error + (string \<times> string)" where
  "parse_string [] = Inl SyntaxError"
| "parse_string (c # cs) =
     (if c = CHR 0x22 then Inr ([], cs)
      else if c = CHR 0x5C then
        (case cs of
           [] \<Rightarrow> Inl SyntaxError
         | e # r \<Rightarrow>
             if e = CHR ''u'' then
               (case r of
                  h3 # h2 # h1 # h0 # r' \<Rightarrow>
                    (case unicodeEscape h3 h2 h1 h0 of
                       Inl err \<Rightarrow> Inl err
                     | Inr u \<Rightarrow>
                         (case parse_string r' of
                            Inl err \<Rightarrow> Inl err
                          | Inr (s, rest) \<Rightarrow> Inr (u # s, rest)))
                | _ \<Rightarrow> Inl SyntaxError)
             else
               (case simpleEscape e of
                  None \<Rightarrow> Inl SyntaxError
                | Some u \<Rightarrow>
                    (case parse_string r of
                       Inl err \<Rightarrow> Inl err
                     | Inr (s, rest) \<Rightarrow> Inr (u # s, rest))))
      else if (of_char c :: nat) < 0x20 then Inl SyntaxError
      else (case parse_string cs of
              Inl err \<Rightarrow> Inl err
            | Inr (s, rest) \<Rightarrow> Inr (c # s, rest)))"

definition parse_digits :: "string \<Rightarrow> (string \<times> string) option" where
  "parse_digits cs =
     (let ds = takeWhile isDigit cs in if ds = [] then None else Some (ds, dropWhile isDigit cs))"

definition parse_int_part :: "string \<Rightarrow> (string \<times> string) option" where
  "parse_int_part cs =
     (case cs of
        [] \<Rightarrow> None
      | c # r \<Rightarrow> if c = CHR ''0'' then Some (''0'', r)
                 else if isDigit c then Some (c # takeWhile isDigit r, dropWhile isDigit r)
                 else None)"

definition parse_frac :: "string \<Rightarrow> (string \<times> string) option" where
  "parse_frac cs =
     (case cs of
        c # r \<Rightarrow> if c = CHR ''.'' then
                   (case parse_digits r of None \<Rightarrow> None | Some (ds, r') \<Rightarrow> Some (c # ds, r'))
                 else Some ([], cs)
      | [] \<Rightarrow> Some ([], cs))"

definition parse_exp :: "string \<Rightarrow> (string \<times> string) option" where
  "parse_exp cs =
     (case cs of
        c # r \<Rightarrow>
          if c = CHR ''e'' \<or> c = CHR ''E'' then
            (let (sg, r1) = (case r of s # r' \<Rightarrow> if s = CHR ''+'' \<or> s = CHR ''-'' then ([s], r') else ([], r)
                                     | [] \<Rightarrow> ([], r))
             in case parse_digits r1 of None \<Rightarrow> None | Some (ds, r2) \<Rightarrow> Some (c # sg @ ds, r2))
          else Some ([], cs)
      | [] \<Rightarrow> Some ([], cs))"

definition parse_number :: "string \<Rightarrow> parse_error + (string \<times> string)" where
  "parse_number cs =
     (let (sg, r0) = (case cs of c # r \<Rightarrow> if c = CHR ''-'' then ([c], r) else ([], cs) | [] \<Rightarrow> ([], cs))
      in case parse_int_part r0 of
           None \<Rightarrow> Inl SyntaxError
         | Some (ip, r1) \<Rightarrow>
             (case parse_frac r1 of
                None \<Rightarrow> Inl SyntaxError
              | Some (fp, r2) \<Rightarrow>
                  (case parse_exp r2 of
                     None \<Rightarrow> Inl SyntaxError
                   | Some (ep, r3) \<Rightarrow> Inr (sg @ ip @ fp @ ep, r3))))"

fun parse_value :: "nat \<Rightarrow> string \<Rightarrow> parse_error + (jsvalue \<times> string)"
and parse_elems :: "nat \<Rightarrow> string \<Rightarrow> parse_error + (jsvalue list \<times> string)"
and parse_members :: "nat \<Rightarrow> string \<Rightarrow> parse_error + ((string \<times> jsvalue) list \<times> string)" where
  "parse_value 0 cs = Inl OutOfBudget"
| "parse_value (Suc n) cs =
     (case skipWs cs of
        [] \<Rightarrow> Inl SyntaxError
      | c # r \<Rightarrow>
          if c = CHR 0x22 then
            (case parse_string r of Inl err \<Rightarrow> Inl err | Inr (s, rest) \<Rightarrow> Inr (JStr s, rest))
          else if c = CHR ''['' then
            (case skipWs r of
               [] \<Rightarrow> Inl SyntaxError
             | d # r' \<Rightarrow>
                 if d = CHR '']'' then Inr (JArr [], r')
                 else (case parse_elems n r of
                         Inl err \<Rightarrow> Inl err
                       | Inr (vs, rest) \<Rightarrow> Inr (JArr vs, rest)))
          else if c = CHR ''{'' then
            (case skipWs r of
               [] \<Rightarrow> Inl SyntaxError
             | d # r' \<Rightarrow>
                 if d = CHR ''}'' then Inr (JObj [], r')
                 else (case parse_members n r of
                         Inl err \<Rightarrow> Inl err
                       | Inr (ms, rest) \<Rightarrow> Inr (JObj ms, rest)))
          else if take 4 (c # r) = ''true'' then Inr (JBool True, drop 4 (c # r))
          else if take 5 (c # r) = ''false'' then Inr (JBool False, drop 5 (c # r))
          else if take 4 (c # r) = ''null'' then Inr (JNull, drop 4 (c # r))
          else (case parse_number (c # r) of
                  Inl err \<Rightarrow> Inl err
                | Inr (lit, rest) \<Rightarrow> Inr (JNum lit, rest)))"
| "parse_elems 0 cs = Inl OutOfBudget"
| "parse_elems (Suc n) cs =
     (case parse_value n cs of
        Inl err \<Rightarrow> Inl err
      | Inr (v, r) \<Rightarrow>
          (case skipWs r of
             [] \<Rightarrow> Inl SyntaxError
           | d # r' \<Rightarrow>
               if d = CHR '','' then
                 (case parse_elems n r' of
                    Inl err \<Rightarrow> Inl err
                  | Inr (vs, rest) \<Rightarrow> Inr (v # vs, rest))
               else if d = CHR '']'' then Inr ([v], r')
               else Inl SyntaxError))"
| "parse_members 0 cs = Inl OutOfBudget"
| "parse_members (Suc n) cs =
     (case skipWs cs of
        [] \<Rightarrow> Inl SyntaxError
      | q # r \<Rightarrow>
          if q \<noteq> CHR 0x22 then Inl SyntaxError
          else (case parse_string r of
                  Inl err \<Rightarrow> Inl err
                | Inr (k, r1) \<Rightarrow>
                    (case skipWs r1 of
                       [] \<Rightarrow> Inl SyntaxError
                     | col # r2 \<Rightarrow>
                         if col \<noteq> CHR '':'' then Inl SyntaxError
                         else (case parse_value n r2 of
                                 Inl err \<Rightarrow> Inl err
                               | Inr (v, r3) \<Rightarrow>
                                   (case skipWs r3 of
                                      [] \<Rightarrow> Inl SyntaxError
                                    | d # r4 \<Rightarrow>
                                        if d = CHR '','' then
                                          (case parse_members n r4 of
                                             Inl err \<Rightarrow> Inl err
                                           | Inr (ms, rest) \<Rightarrow> Inr ((k, v) # ms, rest))
                                        else if d = CHR ''}'' then Inr ([(k, v)], r4)
                                        else Inl SyntaxError)))))"

definition JSON_parse :: "string \<Rightarrow> parse_error + jsvalue" where
  "JSON_parse text =
     (case parse_value (Suc (Suc (2 * length text))) text of
        Inl err \<Rightarrow> Inl err
      | Inr (v, rest) \<Rightarrow> if skipWs rest = [] then Inr v else Inl SyntaxError)"

section \<open>storage.ts: the SKILL.md format\<close>

record SkillFrontmatter =
  fm_name :: string
  fm_description :: string

record ParsedSkill =
  p_metadata :: SkillFrontmatter
  p_content :: string

text \<open>
  \<open>parseSkillMarkdown\<close> (storage.ts, lines 23-56). \<open>YAML.parse\<close> belongs to the
  external package \<open>yaml\<close> and is a parameter of the model: it maps a text to the parsed
  value, or to \<open>None\<close> when it throws. \<open>None\<close> as the result of
  \<open>parseSkillMarkdown\<close> is the source's \<open>null\<close>.

  The source tests \<open>!parsed || typeof parsed !== "object"\<close>: only arrays and objects
  pass. Reading \<open>record["name"]\<close> of an array gives \<open>undefined\<close>, which is not a
  string, so an array ends in \<open>null\<close> as well.
\<close>

definition isObjectValue :: "jsvalue \<Rightarrow> bool" where
  "isObjectValue v = (case v of JArr _ \<Rightarrow> True | JObj _ \<Rightarrow> True | _ \<Rightarrow> False)"

definition recordGet :: "jsvalue \<Rightarrow> string \<Rightarrow> jsvalue option" where
  "recordGet v k = (case v of JObj props \<Rightarrow> getProp props k | _ \<Rightarrow> None)"

definition parseSkillMarkdown :: "(string \<Rightarrow> jsvalue option) \<Rightarrow> string \<Rightarrow> ParsedSkill option" where
  "parseSkillMarkdown YAML_parse content =
     (if \<not> startsWith content ''---'' then None
      else case indexOf content ''---'' 3 of
        None \<Rightarrow> None
      | Some frontmatterEnd \<Rightarrow>
          (let frontmatterText = trim (substring content 3 frontmatterEnd);
               markdownContent = trim (substringFrom content (frontmatterEnd + 3))
           in case YAML_parse frontmatterText of
                None \<Rightarrow> None
              | Some parsed \<Rightarrow>
                  if \<not> isObjectValue parsed then None
                  else (case (recordGet parsed ''name'', recordGet parsed ''description'') of
                          (Some (JStr name), Some (JStr description)) \<Rightarrow>
                            Some \<lparr>p_metadata = \<lparr>fm_name = name, fm_description = description\<rparr>,
                                  p_content = markdownContent\<rparr>
                        | _ \<Rightarrow> None)))"

section \<open>Node path functions (POSIX)\<close>

text \<open>
  \<open>path.normalize\<close>, \<open>path.join\<close> and \<open>path.dirname\<close> of Node, POSIX variant,
  after \<open>lib/path.js\<close>. \<open>splitOn\<close> is \<open>String.prototype.split\<close> with a one-character
  separator.
\<close>

fun splitOn :: "char \<Rightarrow> string \<Rightarrow> string list" where
  "splitOn sep [] = [[]]"
| "splitOn sep (c # cs) =
     (if c = sep then [] # splitOn sep cs
      else (case splitOn sep cs of w # ws \<Rightarrow> (c # w) # ws | [] \<Rightarrow> [[c]]))"

text \<open>
  \<open>normalizeString\<close>: empty segments and \<open>.\<close> are dropped; \<open>..\<close> removes the
  segment before it, unless there is none or it is \<open>..\<close> itself, in which case \<open>..\<close>
  is kept when the path is relative (\<open>allowAboveRoot\<close>) and dropped otherwise.
\<close>

fun normalizeSegments :: "bool \<Rightarrow> string list \<Rightarrow> string list \<Rightarrow> string list" where
  "normalizeSegments allowAboveRoot res [] = res"
| "normalizeSegments allowAboveRoot res (seg # segs) =
     (if seg = [] \<or> seg = ''.'' then normalizeSegments allowAboveRoot res segs
      else if seg = ''..'' then
        (if res \<noteq> [] \<and> last res \<noteq> ''..'' then normalizeSegments allowAboveRoot (butlast res) segs
         else if allowAboveRoot then normalizeSegments allowAboveRoot (res @ [''..'']) segs
         else normalizeSegments allowAboveRoot res segs)
      else normalizeSegments allowAboveRoot (res @ [seg]) segs)"

definition normalize :: "string \<Rightarrow> string" where
  "normalize p =
     (if p = [] then ''.''
      else
        (let isAbsolute = (hd p = CHR ''/'');
             trailingSeparator = (last p = CHR ''/'');
             q = join ''/'' (normalizeSegments (\<not> isAbsolute) [] (splitOn (CHR ''/'') p))
         in if q = [] then (if isAbsolute then ''/'' else if trailingSeparator then ''./'' else ''.'')
            else (let q' = (if trailingSeparator then q @ ''/'' else q)
                  in if isAbsolute then ''/'' @ q' else q')))"

definition pathJoin :: "string list \<Rightarrow> string" where
  "pathJoin args =
     (let parts = filter (\<lambda>a. a \<noteq> []) args
      in if parts = [] then ''.'' else normalize (join ''/'' parts))"

definition dirname :: "string \<Rightarrow> string" where
  "dirname p =
     (if p = [] then ''.''
      else
        (let hasRoot = (hd p = CHR ''/'');
             r = dropWhile (\<lambda>c. c = CHR ''/'') (rev (tl p));
             r' = dropWhile (\<lambda>c. c \<noteq> CHR ''/'') r
         in if r' = [] then (if hasRoot then ''/'' else ''.'')
            else if hasRoot \<and> length r' = 1 then ''//''
            else hd p # rev (tl r')))"

section \<open>The host: key-value store, environment, external services\<close>

text \<open>
  \<open>LocalStorage\<close> of the host application maps a key to the stored text.
\<close>

type_synonym LocalStorage = "string \<Rightarrow> string option"

definition getItem :: "LocalStorage \<Rightarrow> string \<Rightarrow> string option" where
  "getItem st k = st k"

definition setItem :: "string \<Rightarrow> string \<Rightarrow> LocalStorage \<Rightarrow> LocalStorage" where
  "setItem k v st = st(k \<mapsto> v)"

definition removeItem :: "string \<Rightarrow> LocalStorage \<Rightarrow> LocalStorage" where
  "removeItem k st = st(k := None)"

definition SKILLS_FOLDER_KEY :: string where
  "SKILLS_FOLDER_KEY = ''skills-folder-paths''"

definition ENABLED_SKILLS_KEY :: string where
  "ENABLED_SKILLS_KEY = ''enabled_skills''"

definition ROUTING_MODEL_KEY :: string where
  "ROUTING_MODEL_KEY = ''routing_model''"

text \<open>
  What the code takes from outside the repository: the environment variables \<open>HOME\<close> and
  \<open>USERPROFILE\<close> (\<open>None\<close> when unset), the two entry points of the package \<open>yaml\<close>, and
  \<open>AI.ask\<close> of the host, an oracle from the prompt and the model key to the reply, with
  \<open>None\<close> when the request fails. \<open>YAML_parse\<close> is \<open>YAML.parse\<close>, with \<open>None\<close> when it
  throws. \<open>YAML_stringify name description\<close> is \<open>YAML.stringify\<close> applied to the object
  \<open>{ name, description }\<close>, where the description may be \<open>undefined\<close> (\<open>None\<close>); the
  package returns a text for every such object, and the result \<open>None\<close> is for a host
  description that covers only a part of the package and has no answer for the object.
\<close>

record Host =
  env_HOME :: "string option"
  env_USERPROFILE :: "string option"
  YAML_parse :: "string \<Rightarrow> jsvalue option"
  YAML_stringify :: "string \<Rightarrow> string option \<Rightarrow> string option"
  AI_ask :: "string \<Rightarrow> string \<Rightarrow> string option"

text \<open>
  The outcomes of the model that are not a normal return. \<open>OutsideModel\<close>: the stored
  text is JSON that the model cannot represent, or its value does not have the shape of
  the TypeScript type the source declares for it (\<open>string[]\<close>, \<open>SkillsFolder[]\<close>);
  the source has no run-time check there and the model says nothing about what follows.
  \<open>NoSkillsFolder\<close> is the Error that \<open>createSkill\<close> throws, \<open>FsError\<close> a rejected call
  of the \<open>fs\<close> module.
\<close>

datatype error = OutsideModel | NoSkillsFolder | FsError

section \<open>types.ts and storage.ts: skills folders\<close>

record SkillsFolder =
  f_path :: string
  f_label :: "string option"

text \<open>
  The JSON value of a folder object: \<open>JSON.stringify\<close> leaves out a property whose
  value is \<open>undefined\<close>.
\<close>

definition folderValue :: "SkillsFolder \<Rightarrow> jsvalue" where
  "folderValue f =
     JObj ((''path'', JStr (f_path f)) #
           (case f_label f of None \<Rightarrow> [] | Some l \<Rightarrow> [(''label'', JStr l)]))"

text \<open>
  A stored value is read as a folder when it is an object with the properties that
  \<open>storage.ts\<close> writes, in the order in which it writes them: \<open>path\<close>, or \<open>path\<close> and
  \<open>label\<close>, both strings.
\<close>

fun asFolder :: "jsvalue \<Rightarrow> SkillsFolder option" where
  "asFolder (JObj [(k, JStr p)]) =
     (if k = ''path'' then Some \<lparr>f_path = p, f_label = None\<rparr> else None)"
| "asFolder (JObj [(k, JStr p), (k', JStr l)]) =
     (if k = ''path'' \<and> k' = ''label'' then Some \<lparr>f_path = p, f_label = Some l\<rparr> else None)"
| "asFolder _ = None"

fun asFolders :: "jsvalue list \<Rightarrow> SkillsFolder list option" where
  "asFolders [] = Some []"
| "asFolders (v # vs) =
     (case asFolder v of
        None \<Rightarrow> None
      | Some f \<Rightarrow> (case asFolders vs of None \<Rightarrow> None | Some fs \<Rightarrow> Some (f # fs)))"

definition homeDir :: "Host \<Rightarrow> string" where
  "homeDir h =
     (case env_HOME h of
        Some x \<Rightarrow> x
      | None \<Rightarrow> (case env_USERPROFILE h of Some y \<Rightarrow> y | None \<Rightarrow> []))"

definition defaultFolders :: "Host \<Rightarrow> SkillsFolder list" where
  "defaultFolders h =
     (if homeDir h \<noteq> []
      then [\<lparr>f_path = pathJoin [homeDir h, ''.claude'', ''skills''], f_label = None\<rparr>]
      else [])"

definition getSkillsFolders :: "Host \<Rightarrow> LocalStorage \<Rightarrow> error + SkillsFolder list" where
  "getSkillsFolders h st =
     (case getItem st SKILLS_FOLDER_KEY of
        None \<Rightarrow> Inr (defaultFolders h)
      | Some storedPaths \<Rightarrow>
          if storedPaths = [] then Inr (defaultFolders h)
          else (case JSON_parse storedPaths of
                  Inl SyntaxError \<Rightarrow> Inr [\<lparr>f_path = storedPaths, f_label = None\<rparr>]
                | Inl Unrepresentable \<Rightarrow> Inl OutsideModel
                | Inl OutOfBudget \<Rightarrow> Inl OutsideModel
                | Inr parsed \<Rightarrow>
                    (case parsed of
                       JArr vs \<Rightarrow>
                         (case asFolders vs of None \<Rightarrow> Inl OutsideModel | Some folders \<Rightarrow> Inr folders)
                     | _ \<Rightarrow> Inr (defaultFolders h))))"

definition getSkillsFolderPaths :: "Host \<Rightarrow> LocalStorage \<Rightarrow> error + string list" where
  "getSkillsFolderPaths h st =
     (case getSkillsFolders h st of Inl e \<Rightarrow> Inl e | Inr folders \<Rightarrow> Inr (map f_path folders))"

definition getSkillsFolderPath :: "Host \<Rightarrow> LocalStorage \<Rightarrow> error + string" where
  "getSkillsFolderPath h st =
     (case getSkillsFolderPaths h st of
        Inl e \<Rightarrow> Inl e
      | Inr paths \<Rightarrow>
          (case paths of
             firstPath # _ \<Rightarrow>
               if firstPath \<noteq> [] then Inr firstPath
               else if homeDir h \<noteq> [] then Inr (pathJoin [homeDir h, ''.claude'', ''skills''])
               else Inr []
           | [] \<Rightarrow>
               if homeDir h \<noteq> [] then Inr (pathJoin [homeDir h, ''.claude'', ''skills''])
               else Inr []))"

definition foldersText :: "SkillsFolder list \<Rightarrow> string" where
  "foldersText folders = JSON_stringify (JArr (map folderValue folders))"

definition addSkillsFolderPath ::
  "Host \<Rightarrow> string \<Rightarrow> string option \<Rightarrow> LocalStorage \<Rightarrow> error + LocalStorage" where
  "addSkillsFolderPath h folderPath label st =
     (case getSkillsFolders h st of
        Inl e \<Rightarrow> Inl e
      | Inr folders \<Rightarrow>
          if find (\<lambda>f. toLowerCase (f_path f) = toLowerCase folderPath) folders = None
          then Inr (setItem SKILLS_FOLDER_KEY
                      (foldersText (folders @ [\<lparr>f_path = folderPath, f_label = label\<rparr>])) st)
          else Inr st)"

definition removeSkillsFolderPath :: "Host \<Rightarrow> string \<Rightarrow> LocalStorage \<Rightarrow> error + LocalStorage" where
  "removeSkillsFolderPath h folderPath st =
     (case getSkillsFolders h st of
        Inl e \<Rightarrow> Inl e
      | Inr folders \<Rightarrow>
          (let filtered = filter (\<lambda>f. toLowerCase (f_path f) \<noteq> toLowerCase folderPath) folders
           in Inr (setItem SKILLS_FOLDER_KEY (foldersText filtered) st)))"

text \<open>\<open>findIndex\<close>: the position of the first element that satisfies the test.\<close>

fun findIndex :: "('a \<Rightarrow> bool) \<Rightarrow> 'a list \<Rightarrow> nat option" where
  "findIndex P [] = None"
| "findIndex P (x # xs) =
     (if P x then Some 0 else (case findIndex P xs of None \<Rightarrow> None | Some i \<Rightarrow> Some (Suc i)))"

definition updateSkillsFolderPath ::
  "Host \<Rightarrow> string \<Rightarrow> string \<Rightarrow> string option \<Rightarrow> LocalStorage \<Rightarrow> error + (LocalStorage \<times> bool)" where
  "updateSkillsFolderPath h oldPath newPath label st =
     (case getSkillsFolders h st of
        Inl e \<Rightarrow> Inl e
      | Inr folders \<Rightarrow>
          (case findIndex (\<lambda>f. toLowerCase (f_path f) = toLowerCase oldPath) folders of
             None \<Rightarrow> Inr (st, False)
           | Some index \<Rightarrow>
               Inr (setItem SKILLS_FOLDER_KEY
                      (foldersText (folders[index := \<lparr>f_path = newPath, f_label = label\<rparr>])) st,
                    True)))"

definition setSkillsFolderPath :: "string \<Rightarrow> LocalStorage \<Rightarrow> LocalStorage" where
  "setSkillsFolderPath folderPath st =
     setItem SKILLS_FOLDER_KEY (foldersText [\<lparr>f_path = folderPath, f_label = None\<rparr>]) st"

section \<open>storage.ts: the enabled skills and the routing model\<close>

fun asString :: "jsvalue \<Rightarrow> string option" where
  "asString (JStr s) = Some s"
| "asString _ = None"

fun asStrings :: "jsvalue list \<Rightarrow> string list option" where
  "asStrings [] = Some []"
| "asStrings (v # vs) =
     (case asString v of
        None \<Rightarrow> None
      | Some s \<Rightarrow> (case asStrings vs of None \<Rightarrow> None | Some ss \<Rightarrow> Some (s # ss)))"

definition namesText :: "string list \<Rightarrow> string" where
  "namesText names = JSON_stringify (JArr (map JStr names))"

definition getEnabledSkills :: "LocalStorage \<Rightarrow> error + string list" where
  "getEnabledSkills st =
     (case getItem st ENABLED_SKILLS_KEY of
        None \<Rightarrow> Inr []
      | Some enabled \<Rightarrow>
          if enabled = [] then Inr []
          else (case JSON_parse enabled of
                  Inl SyntaxError \<Rightarrow> Inr []
                | Inl Unrepresentable \<Rightarrow> Inl OutsideModel
                | Inl OutOfBudget \<Rightarrow> Inl OutsideModel
                | Inr parsed \<Rightarrow>
                    (case parsed of
                       JArr vs \<Rightarrow> (case asStrings vs of None \<Rightarrow> Inl OutsideModel | Some names \<Rightarrow> Inr names)
                     | _ \<Rightarrow> Inl OutsideModel)))"

definition isSkillEnabled :: "string \<Rightarrow> LocalStorage \<Rightarrow> error + bool" where
  "isSkillEnabled skillName st =
     (case getEnabledSkills st of Inl e \<Rightarrow> Inl e | Inr enabled \<Rightarrow> Inr (skillName \<in> set enabled))"

definition enableSkill :: "string \<Rightarrow> LocalStorage \<Rightarrow> error + LocalStorage" where
  "enableSkill skillName st =
     (case getEnabledSkills st of
        Inl e \<Rightarrow> Inl e
      | Inr enabled \<Rightarrow>
          if skillName \<notin> set enabled
          then Inr (setItem ENABLED_SKILLS_KEY (namesText (enabled @ [skillName])) st)
          else Inr st)"

definition disableSkill :: "string \<Rightarrow> LocalStorage \<Rightarrow> error + LocalStorage" where
  "disableSkill skillName st =
     (case getEnabledSkills st of
        Inl e \<Rightarrow> Inl e
      | Inr enabled \<Rightarrow>
          (let filtered = filter (\<lambda>name. name \<noteq> skillName) enabled
           in Inr (setItem ENABLED_SKILLS_KEY (namesText filtered) st)))"

text \<open>
  \<open>Array.from(new Set(skillNames))\<close>: the elements in the order of their first
  occurrence.
\<close>

fun setFromArray :: "'a list \<Rightarrow> 'a list \<Rightarrow> 'a list" where
  "setFromArray seen [] = seen"
| "setFromArray seen (x # xs) = setFromArray (if x \<in> set seen then seen else seen @ [x]) xs"

definition setEnabledSkillNames :: "string list \<Rightarrow> LocalStorage \<Rightarrow> LocalStorage" where
  "setEnabledSkillNames skillNames st =
     (let unique = setFromArray [] skillNames
      in setItem ENABLED_SKILLS_KEY (namesText unique) st)"

definition getRoutingModel :: "LocalStorage \<Rightarrow> string option" where
  "getRoutingModel st =
     (case getItem st ROUTING_MODEL_KEY of
        None \<Rightarrow> None
      | Some saved \<Rightarrow> if saved \<noteq> [] then Some saved else None)"

definition setRoutingModel :: "string \<Rightarrow> LocalStorage \<Rightarrow> LocalStorage" where
  "setRoutingModel model st = setItem ROUTING_MODEL_KEY model st"

definition clearRoutingModel :: "LocalStorage \<Rightarrow> LocalStorage" where
  "clearRoutingModel st = removeItem ROUTING_MODEL_KEY st"

text \<open>
  \<open>parsesBack k v\<close>: with a budget of at least \<open>k\<close>, the parser reads the text of \<open>v\<close>
  back as \<open>v\<close> and leaves what follows it.
\<close>

definition parsesBack :: "nat \<Rightarrow> jsvalue \<Rightarrow> bool" where
  "parsesBack k v = (\<forall>n r. k \<le> n \<longrightarrow> parse_value n (JSON_stringify v @ r) = Inr (v, r))"


section \<open>The file system\<close>

text \<open>
  The calls of Node's \<open>fs\<close> module that the code makes, on a POSIX file system without
  symbolic links and without access rights, with case-sensitive names. The state is the
  absolute path of the working directory and a list of nodes, each a directory or a file
  with its text, keyed by its absolute path (the names from the root, each after one
  separator); the root always exists.

  A path is resolved as the operating system resolves it, segment by segment from the
  root or from the working directory: what a segment is looked up in must be a directory
  (also for \<open>.\<close>, \<open>..\<close> and the empty segment that a trailing separator leaves), and
  the empty path resolves to nothing. A call that rejects or throws returns \<open>None\<close>.

  The order of the node list is the order in which \<open>readdir\<close> lists the entries of a
  directory. A node that an operation creates is put last, one of the orders that a file
  system may give; a file that is overwritten and a node that is renamed keep their
  places. The theorems below that list a directory after a node was created in it state
  results that are the same for every order of the listing.
\<close>

datatype node = File string | Dir

datatype errno = ENOENT | ENOTDIR

record FileSystem =
  fs_cwd :: string
  fs_nodes :: "(string \<times> node) list"

definition nodeAt :: "FileSystem \<Rightarrow> string \<Rightarrow> node option" where
  "nodeAt fs k = (if k = ''/'' then Some Dir else map_of (fs_nodes fs) k)"

definition childKey :: "string \<Rightarrow> string \<Rightarrow> string" where
  "childKey k name = (if k = ''/'' then ''/'' @ name else k @ ''/'' @ name)"

definition parentKey :: "string \<Rightarrow> string" where
  "parentKey k =
     (let r = dropWhile (\<lambda>c. c \<noteq> CHR ''/'') (rev k)
      in if length r \<le> 1 then ''/'' else rev (tl r))"

definition basename :: "string \<Rightarrow> string" where
  "basename k = rev (takeWhile (\<lambda>c. c \<noteq> CHR ''/'') (rev k))"

definition isBelow :: "string \<Rightarrow> string \<Rightarrow> bool" where
  "isBelow k k' =
     (if k = ''/'' then k' \<noteq> ''/'' \<and> take 1 k' = ''/''
      else take (Suc (length k)) k' = k @ ''/'')"

text \<open>
  \<open>walk fs cur segments\<close> goes from the node with key \<open>cur\<close> along the segments and
  gives the key of the node it arrives at, or the error of the system call.
\<close>

fun walk :: "FileSystem \<Rightarrow> string \<Rightarrow> string list \<Rightarrow> errno + string" where
  "walk fs cur [] = (case nodeAt fs cur of None \<Rightarrow> Inl ENOENT | Some n \<Rightarrow> Inr cur)"
| "walk fs cur (c # cs) =
     (case nodeAt fs cur of
        None \<Rightarrow> Inl ENOENT
      | Some (File text) \<Rightarrow> Inl ENOTDIR
      | Some Dir \<Rightarrow>
          if c = [] \<or> c = ''.'' then walk fs cur cs
          else if c = ''..'' then walk fs (parentKey cur) cs
          else walk fs (childKey cur c) cs)"

definition startKey :: "FileSystem \<Rightarrow> string \<Rightarrow> string" where
  "startKey fs p = (if take 1 p = ''/'' then ''/'' else fs_cwd fs)"

definition resolve :: "FileSystem \<Rightarrow> string \<Rightarrow> errno + string" where
  "resolve fs p =
     (if p = [] then Inl ENOENT else walk fs (startKey fs p) (splitOn (CHR ''/'') p))"

definition lookupNode :: "FileSystem \<Rightarrow> string \<Rightarrow> node option" where
  "lookupNode fs p = (case resolve fs p of Inl e \<Rightarrow> None | Inr k \<Rightarrow> nodeAt fs k)"

text \<open>
  The place that a path names for a node to be written or moved there: the segments
  before the last one are resolved to a directory, and the last one is the name in it.
  The result is the key of that place, and whether the path ended in a separator (it then
  names a directory only). The source hands to \<open>writeFile\<close>, \<open>rename\<close> and \<open>rm\<close> only
  results of \<open>path.join\<close>, whose last segment is a name; where the last segment is \<open>.\<close>
  or \<open>..\<close>, or the path is the root, the model rejects the call.
\<close>

definition resolveNew :: "FileSystem \<Rightarrow> string \<Rightarrow> (string \<times> bool) option" where
  "resolveNew fs p =
     (let segments = splitOn (CHR ''/'') p;
          named = rev (dropWhile (\<lambda>c. c = []) (rev segments))
      in if p = [] \<or> named = [] \<or> last named = ''.'' \<or> last named = ''..'' then None
         else (case walk fs (startKey fs p) (butlast named) of
                 Inl e \<Rightarrow> None
               | Inr parent \<Rightarrow>
                   if nodeAt fs parent = Some Dir
                   then Some (childKey parent (last named), named \<noteq> segments)
                   else None))"

definition fs_access :: "FileSystem \<Rightarrow> string \<Rightarrow> bool" where
  "fs_access fs p = (lookupNode fs p \<noteq> None)"



definition fs_isFile :: "FileSystem \<Rightarrow> string \<Rightarrow> bool option" where
  "fs_isFile fs p = map_option (\<lambda>n. n \<noteq> Dir) (lookupNode fs p)"

definition fs_readFile :: "FileSystem \<Rightarrow> string \<Rightarrow> string option" where
  "fs_readFile fs p = (case lookupNode fs p of Some (File text) \<Rightarrow> Some text | _ \<Rightarrow> None)"

text \<open>
  The names that \<open>readdir\<close> lists in the directory with key \<open>k\<close>: the nodes whose key
  is \<open>k\<close> followed by one name, each name once.
\<close>

definition childNames :: "FileSystem \<Rightarrow> string \<Rightarrow> string list" where
  "childNames fs k =
     remdups
       (map basename
          (filter (\<lambda>k'. basename k' \<noteq> [] \<and> basename k' \<noteq> ''.'' \<and> basename k' \<noteq> ''..'' \<and>
                        childKey k (basename k') = k')
             (map fst (fs_nodes fs))))"

definition fs_readdir :: "FileSystem \<Rightarrow> string \<Rightarrow> string list option" where
  "fs_readdir fs p =
     (case resolve fs p of
        Inl e \<Rightarrow> None
      | Inr k \<Rightarrow> if nodeAt fs k = Some Dir then Some (childNames fs k) else None)"

record Dirent =
  d_name :: string
  d_isDirectory :: bool

definition fs_readdirWithFileTypes :: "FileSystem \<Rightarrow> string \<Rightarrow> Dirent list option" where
  "fs_readdirWithFileTypes fs p =
     (case resolve fs p of
        Inl e \<Rightarrow> None
      | Inr k \<Rightarrow>
          if nodeAt fs k = Some Dir
          then Some (map (\<lambda>name. \<lparr>d_name = name,
                                    d_isDirectory = (nodeAt fs (childKey k name) = Some Dir)\<rparr>)
                       (childNames fs k))
          else None)"

text \<open>
  \<open>fs.mkdir(p, { recursive: true })\<close>: the directories along the path that are missing
  are created; an existing directory is no error, a file on the way is.
\<close>

fun mkdirWalk :: "FileSystem \<Rightarrow> string \<Rightarrow> string list \<Rightarrow> FileSystem option" where
  "mkdirWalk fs cur [] = (if nodeAt fs cur = Some Dir then Some fs else None)"
| "mkdirWalk fs cur (c # cs) =
     (if nodeAt fs cur \<noteq> Some Dir then None
      else if c = [] \<or> c = ''.'' then mkdirWalk fs cur cs
      else if c = ''..'' then mkdirWalk fs (parentKey cur) cs
      else if nodeAt fs (childKey cur c) = None
        then mkdirWalk (fs\<lparr>fs_nodes := fs_nodes fs @ [(childKey cur c, Dir)]\<rparr>) (childKey cur c) cs
      else mkdirWalk fs (childKey cur c) cs)"

definition fs_mkdirRecursive :: "FileSystem \<Rightarrow> string \<Rightarrow> FileSystem option" where
  "fs_mkdirRecursive fs p =
     (if p = [] then None else mkdirWalk fs (startKey fs p) (splitOn (CHR ''/'') p))"

definition fs_writeFile :: "FileSystem \<Rightarrow> string \<Rightarrow> string \<Rightarrow> FileSystem option" where
  "fs_writeFile fs p text =
     (case resolveNew fs p of
        None \<Rightarrow> None
      | Some (k, asDirectory) \<Rightarrow>
          if asDirectory \<or> nodeAt fs k = Some Dir then None
          else if nodeAt fs k = None then Some (fs\<lparr>fs_nodes := fs_nodes fs @ [(k, File text)]\<rparr>)
          else Some (fs\<lparr>fs_nodes := map (\<lambda>e. if fst e = k then (k, File text) else e) (fs_nodes fs)\<rparr>))"

text \<open>
  \<open>fs.rename(oldPath, newPath)\<close>, the system call \<open>rename\<close>: a directory moves with
  all that is below it, onto a free place or an empty directory; a file moves onto a free
  place or another file. A directory does not move below itself, and the root does not
  move. When the working directory is the moved directory or below it, it moves along.
\<close>

definition moveKey :: "string \<Rightarrow> string \<Rightarrow> string \<Rightarrow> string" where
  "moveKey ko kn k =
     (if k = ko then kn else if isBelow ko k then kn @ drop (length ko) k else k)"

definition fs_rename :: "FileSystem \<Rightarrow> string \<Rightarrow> string \<Rightarrow> FileSystem option" where
  "fs_rename fs oldPath newPath =
     (case (resolveNew fs oldPath, resolveNew fs newPath) of
        (Some (ko, oldAsDirectory), Some (kn, newAsDirectory)) \<Rightarrow>
          (let moved =
                 \<lparr>fs_cwd = moveKey ko kn (fs_cwd fs),
                  fs_nodes = map (\<lambda>e. (moveKey ko kn (fst e), snd e))
                               (filter (\<lambda>e. fst e \<noteq> kn \<and> \<not> isBelow kn (fst e)) (fs_nodes fs))\<rparr>
           in case nodeAt fs ko of
                None \<Rightarrow> None
              | Some Dir \<Rightarrow>
                  if kn = ko then Some fs
                  else if isBelow ko kn then None
                  else (case nodeAt fs kn of
                          None \<Rightarrow> Some moved
                        | Some Dir \<Rightarrow> if childNames fs kn = [] then Some moved else None
                        | Some (File text) \<Rightarrow> None)
              | Some (File text) \<Rightarrow>
                  if oldAsDirectory \<or> newAsDirectory then None
                  else if kn = ko then Some fs
                  else (case nodeAt fs kn of
                          None \<Rightarrow> Some moved
                        | Some Dir \<Rightarrow> None
                        | Some (File text') \<Rightarrow> Some moved))
      | _ \<Rightarrow> None)"

text \<open>
  \<open>fs.rm(p, { recursive: true, force: true })\<close>: the node and all below it are removed;
  with \<open>force\<close>, a path that names nothing is no error, while a file on the way to it is.
\<close>

definition fs_rmRecursiveForce :: "FileSystem \<Rightarrow> string \<Rightarrow> FileSystem option" where
  "fs_rmRecursiveForce fs p =
     (case resolve fs p of
        Inl ENOENT \<Rightarrow> Some fs
      | Inl ENOTDIR \<Rightarrow> None
      | Inr k' \<Rightarrow>
          (case resolveNew fs p of
             None \<Rightarrow> None
           | Some (k, asDirectory) \<Rightarrow>
               Some (fs\<lparr>fs_nodes := filter (\<lambda>e. fst e \<noteq> k \<and> \<not> isBelow k (fst e)) (fs_nodes fs)\<rparr>)))"


section \<open>types.ts and storage.ts: skills\<close>

record ClaudeSkill =
  sk_name :: string
  sk_path :: string
  sk_metadata :: SkillFrontmatter
  sk_content :: string
  sk_supportingFiles :: "string list"
  sk_skillMdPath :: string

text \<open>
  \<open>getAllSkills\<close> (storage.ts, lines 161-240). The two loops are \<open>loadEntries\<close> (the
  entries of one folder) and \<open>loadFolders\<close>. A rejected \<open>fs\<close> call that the source does
  not catch inside the loops (\<open>readdir\<close>, \<open>readFile\<close>) ends in the outer \<open>catch\<close>, which
  returns the empty list: \<open>None\<close> in the loops.
\<close>

fun loadEntries :: "Host \<Rightarrow> FileSystem \<Rightarrow> string \<Rightarrow> Dirent list \<Rightarrow> ClaudeSkill list option" where
  "loadEntries h fs skillsFolder [] = Some []"
| "loadEntries h fs skillsFolder (entry # entries) =
     (if \<not> d_isDirectory entry then loadEntries h fs skillsFolder entries
      else
        (let skillPath = pathJoin [skillsFolder, d_name entry];
             skillMdPath = pathJoin [skillPath, ''SKILL.md'']
         in if \<not> fs_access fs skillMdPath then loadEntries h fs skillsFolder entries
            else
              (case fs_readFile fs skillMdPath of
                 None \<Rightarrow> None
               | Some content \<Rightarrow>
                   (case parseSkillMarkdown (YAML_parse h) content of
                      None \<Rightarrow> loadEntries h fs skillsFolder entries
                    | Some parsed \<Rightarrow>
                        if fm_name (p_metadata parsed) = [] \<or> fm_description (p_metadata parsed) = []
                        then loadEntries h fs skillsFolder entries
                        else
                          (case fs_readdir fs skillPath of
                             None \<Rightarrow> None
                           | Some allFiles \<Rightarrow>
                               (let supportingFiles =
                                      filter (\<lambda>f. f \<noteq> ''SKILL.md'' \<and>
                                                  fs_isFile fs (pathJoin [skillPath, f]) = Some True)
                                        allFiles;
                                    skill = \<lparr>sk_name = d_name entry,
                                             sk_path = skillPath,
                                             sk_metadata = \<lparr>fm_name = fm_name (p_metadata parsed),
                                                            fm_description = fm_description (p_metadata parsed)\<rparr>,
                                             sk_content = p_content parsed,
                                             sk_supportingFiles = supportingFiles,
                                             sk_skillMdPath = skillMdPath\<rparr>
                                in case loadEntries h fs skillsFolder entries of
                                     None \<Rightarrow> None
                                   | Some skills \<Rightarrow> Some (skill # skills)))))))"

fun loadFolders :: "Host \<Rightarrow> FileSystem \<Rightarrow> string list \<Rightarrow> ClaudeSkill list option" where
  "loadFolders h fs [] = Some []"
| "loadFolders h fs (skillsFolder # skillsFolders) =
     (if \<not> fs_access fs skillsFolder then loadFolders h fs skillsFolders
      else
        (case fs_readdirWithFileTypes fs skillsFolder of
           None \<Rightarrow> None
         | Some entries \<Rightarrow>
             (case loadEntries h fs skillsFolder entries of
                None \<Rightarrow> None
              | Some skills \<Rightarrow>
                  (case loadFolders h fs skillsFolders of
                     None \<Rightarrow> None
                   | Some others \<Rightarrow> Some (skills @ others)))))"

definition getAllSkills :: "Host \<Rightarrow> LocalStorage \<Rightarrow> FileSystem \<Rightarrow> error + ClaudeSkill list" where
  "getAllSkills h st fs =
     (case getSkillsFolderPaths h st of
        Inl e \<Rightarrow> Inl e
      | Inr skillsFolders \<Rightarrow>
          (case loadFolders h fs skillsFolders of None \<Rightarrow> Inr [] | Some skills \<Rightarrow> Inr skills))"

definition findSkill :: "Host \<Rightarrow> LocalStorage \<Rightarrow> FileSystem \<Rightarrow> string \<Rightarrow> error + ClaudeSkill option" where
  "findSkill h st fs name =
     (case getAllSkills h st fs of
        Inl e \<Rightarrow> Inl e
      | Inr skills \<Rightarrow> Inr (find (\<lambda>s. sk_name s = name \<or> fm_name (sk_metadata s) = name) skills))"

definition getEnabledSkillObjects :: "Host \<Rightarrow> LocalStorage \<Rightarrow> FileSystem \<Rightarrow> error + ClaudeSkill list" where
  "getEnabledSkillObjects h st fs =
     (case getEnabledSkills st of
        Inl e \<Rightarrow> Inl e
      | Inr enabledNames \<Rightarrow>
          (case getAllSkills h st fs of
             Inl e \<Rightarrow> Inl e
           | Inr allSkills \<Rightarrow> Inr (filter (\<lambda>skill. sk_name skill \<in> set enabledNames) allSkills)))"

text \<open>
  The state that the writing operations change: the key-value store and the file system.
  An operation returns the state it leaves behind together with its result; after an
  error the state holds the writes made before it.
\<close>

record World =
  storage :: LocalStorage
  files :: FileSystem

text \<open>
  \<open>frontmatterText\<close> is the front matter that \<open>createSkill\<close> and \<open>updateSkill\<close> put
  before the content (the template of lines 290 and 356); it is \<open>None\<close> when the host has
  no answer for \<open>YAML.stringify\<close>, and the operation then ends with \<open>OutsideModel\<close>.
\<close>

definition frontmatterText :: "Host \<Rightarrow> string \<Rightarrow> string option \<Rightarrow> string option" where
  "frontmatterText h name description =
     map_option (\<lambda>yaml. ''---\<newline>'' @ trimEnd yaml @ ''\<newline>---\<newline>\<newline>'')
       (YAML_stringify h name description)"

definition createSkill ::
  "Host \<Rightarrow> string \<Rightarrow> string \<Rightarrow> string \<Rightarrow> string option \<Rightarrow> World \<Rightarrow> World \<times> (error + ClaudeSkill)" where
  "createSkill h name description content folderPath w =
     (case (case folderPath of
              Some p \<Rightarrow> if p \<noteq> [] then Inr p else getSkillsFolderPath h (storage w)
            | None \<Rightarrow> getSkillsFolderPath h (storage w)) of
        Inl e \<Rightarrow> (w, Inl e)
      | Inr skillsFolder \<Rightarrow>
          if skillsFolder = [] then (w, Inl NoSkillsFolder)
          else
            (let skillPath = pathJoin [skillsFolder, name]
             in case fs_mkdirRecursive (files w) skillPath of
                  None \<Rightarrow> (w, Inl FsError)
                | Some fs1 \<Rightarrow>
                    (case frontmatterText h name (Some description) of
                       None \<Rightarrow> (w\<lparr>files := fs1\<rparr>, Inl OutsideModel)
                     | Some frontmatter \<Rightarrow>
                         (let skillMdPath = pathJoin [skillPath, ''SKILL.md'']
                          in case fs_writeFile fs1 skillMdPath (frontmatter @ content) of
                               None \<Rightarrow> (w\<lparr>files := fs1\<rparr>, Inl FsError)
                             | Some fs2 \<Rightarrow>
                                 (case enableSkill name (storage w) of
                                    Inl e \<Rightarrow> (w\<lparr>files := fs2\<rparr>, Inl e)
                                  | Inr st' \<Rightarrow>
                                      (\<lparr>storage = st', files = fs2\<rparr>,
                                       Inr \<lparr>sk_name = name,
                                            sk_path = skillPath,
                                            sk_metadata = \<lparr>fm_name = name, fm_description = description\<rparr>,
                                            sk_content = content,
                                            sk_supportingFiles = [],
                                            sk_skillMdPath = skillMdPath\<rparr>))))))"

text \<open>
  \<open>updateSkill\<close> (storage.ts, lines 313-366). A property of \<open>updates\<close> is absent, present
  with the value \<open>undefined\<close>, or present with a string: the object spread
  \<open>{ ...skill.metadata, ...updates }\<close> copies a present property also when its value is
  \<open>undefined\<close>, so the description handed to \<open>YAML.stringify\<close> may be \<open>undefined\<close>
  (\<open>None\<close>). The result is the returned object, with the name and the description of
  its \<open>metadata\<close>.
\<close>

datatype optional = Absent | Undefined | Given string

record SkillUpdates =
  u_newName :: optional
  u_description :: optional
  u_content :: optional

definition propValue :: "optional \<Rightarrow> string option" where
  "propValue p = (case p of Given s \<Rightarrow> Some s | _ \<Rightarrow> None)"

record UpdatedSkill =
  us_name :: string
  us_path :: string
  us_metadataName :: string
  us_metadataDescription :: "string option"
  us_content :: string
  us_supportingFiles :: "string list"
  us_skillMdPath :: string

definition updateSkill ::
  "Host \<Rightarrow> string \<Rightarrow> SkillUpdates \<Rightarrow> World \<Rightarrow> World \<times> (error + UpdatedSkill option)" where
  "updateSkill h name updates w =
     (case findSkill h (storage w) (files w) name of
        Inl e \<Rightarrow> (w, Inl e)
      | Inr None \<Rightarrow> (w, Inr None)
      | Inr (Some skill) \<Rightarrow>
          (let renamed =
             (case propValue (u_newName updates) of
                None \<Rightarrow> (w, Inr skill)
              | Some newName \<Rightarrow>
                  if newName = [] \<or> newName = name then (w, Inr skill)
                  else
                    (case getEnabledSkills (storage w) of
                       Inl e \<Rightarrow> (w, Inl e)
                     | Inr enabledSkills \<Rightarrow>
                         (let st' = (if name \<in> set enabledSkills
                                     then setItem ENABLED_SKILLS_KEY
                                            (namesText (filter (\<lambda>n. n \<noteq> name) enabledSkills @ [newName]))
                                            (storage w)
                                     else storage w);
                              newSkillPath = pathJoin [dirname (sk_path skill), newName]
                          in case fs_rename (files w) (sk_path skill) newSkillPath of
                               None \<Rightarrow> (w\<lparr>storage := st'\<rparr>, Inl FsError)
                             | Some fs' \<Rightarrow>
                                 (\<lparr>storage = st', files = fs'\<rparr>,
                                  Inr (skill\<lparr>sk_path := newSkillPath,
                                             sk_skillMdPath := pathJoin [newSkillPath, ''SKILL.md''],
                                             sk_name := newName,
                                             sk_metadata := (sk_metadata skill)\<lparr>fm_name := newName\<rparr>\<rparr>)))))
           in case renamed of
                (w1, Inl e) \<Rightarrow> (w1, Inl e)
              | (w1, Inr skill1) \<Rightarrow>
                  (case fs_readFile (files w1) (sk_skillMdPath skill1) of
                     None \<Rightarrow> (w1, Inl FsError)
                   | Some currentContent \<Rightarrow>
                       (case parseSkillMarkdown (YAML_parse h) currentContent of
                          None \<Rightarrow> (w1, Inr None)
                        | Some parsed \<Rightarrow>
                            (let description =
                                   (case u_description updates of
                                      Absent \<Rightarrow> Some (fm_description (sk_metadata skill1))
                                    | Undefined \<Rightarrow> None
                                    | Given d \<Rightarrow> Some d);
                                 newContent = (case propValue (u_content updates) of
                                                 Some c \<Rightarrow> c
                                               | None \<Rightarrow> p_content parsed)
                             in case frontmatterText h (fm_name (sk_metadata skill1)) description of
                                  None \<Rightarrow> (w1, Inl OutsideModel)
                                | Some frontmatter \<Rightarrow>
                                    (case fs_writeFile (files w1) (sk_skillMdPath skill1)
                                            (frontmatter @ newContent) of
                                       None \<Rightarrow> (w1, Inl FsError)
                                     | Some fs2 \<Rightarrow>
                                         (w1\<lparr>files := fs2\<rparr>,
                                          Inr (Some \<lparr>us_name = sk_name skill1,
                                                     us_path = sk_path skill1,
                                                     us_metadataName = fm_name (sk_metadata skill1),
                                                     us_metadataDescription = description,
                                                     us_content = newContent,
                                                     us_supportingFiles = sk_supportingFiles skill1,
                                                     us_skillMdPath = sk_skillMdPath skill1\<rparr>))))))))"

definition deleteSkill :: "Host \<Rightarrow> string \<Rightarrow> World \<Rightarrow> World \<times> (error + bool)" where
  "deleteSkill h name w =
     (case findSkill h (storage w) (files w) name of
        Inl e \<Rightarrow> (w, Inl e)
      | Inr None \<Rightarrow> (w, Inr False)
      | Inr (Some skill) \<Rightarrow>
          (case fs_rmRecursiveForce (files w) (sk_path skill) of
             None \<Rightarrow> (w, Inl FsError)
           | Some fs' \<Rightarrow> (w\<lparr>files := fs'\<rparr>, Inr True)))"

section \<open>tools/use-skills.ts\<close>

text \<open>Decimal digits of a number, as the template literal \<open>${index + 1}\<close> prints it.\<close>

fun showNat :: "nat \<Rightarrow> string" where
  "showNat n =
     (if n < 10 then [''0123456789'' ! n]
      else showNat (n div 10) @ [''0123456789'' ! (n mod 10)])"

declare showNat.simps [simp del]

text \<open>The fixed texts of the tool, as the source has them.\<close>

definition setupRequiredMessage :: string where
  "setupRequiredMessage =
     ''# Setup Required\<newline>'' @
     ''\<newline>'' @
     ''Before using AI Skills, you need to configure your routing model preference.\<newline>'' @
     ''\<newline>'' @
     ''## What is a Routing Model?\<newline>'' @
     ''\<newline>'' @
     ''The routing model is a fast AI model that intelligently selects which skill to use based on your request.\<newline>'' @
     ''\<newline>'' @
     ''## How to Setup\<newline>'' @
     ''\<newline>'' @
     ''1. Open '' @
     [CHR 0x22] @
     ''Manage Skills'' @
     [CHR 0x22] @
     '' command in Raycast\<newline>'' @
     ''2. Click '' @
     [CHR 0x22] @
     ''Setup Preferences'' @
     [CHR 0x22] @
     '' (gear icon)\<newline>'' @
     ''3. Select your preferred routing model (we recommend **Gemini 2.5 Flash Lite**)\<newline>'' @
     ''4. The selection is saved automatically\<newline>'' @
     ''\<newline>'' @
     ''Once configured, you can use AI Skills to help with various tasks!''"

definition noSkillsEnabledMessage :: string where
  "noSkillsEnabledMessage =
     ''No AI Skills are currently enabled.\<newline>'' @
     ''\<newline>'' @
     ''To enable skills:\<newline>'' @
     ''1. Open '' @
     [CHR 0x22] @
     ''Manage Skills'' @
     [CHR 0x22] @
     '' command\<newline>'' @
     ''2. Use Cmd+T to toggle skills on/off\<newline>'' @
     ''3. Once enabled, skills will be available here\<newline>'' @
     ''\<newline>'' @
     ''Skills must be enabled before they can be used by the AI.''"

definition promptBeforeRequest :: string where
  "promptBeforeRequest =
     ''You are a skill router. Select the best skill for the user'' @
     [CHR 0x27] @
     ''s request.\<newline>'' @
     ''\<newline>'' @
     ''User Request: '' @
     [CHR 0x22]"

definition promptBeforeSkills :: string where
  "promptBeforeSkills =
     [CHR 0x22] @
     ''\<newline>'' @
     ''\<newline>'' @
     ''Available Skills:\<newline>''"

definition promptAfterSkills :: string where
  "promptAfterSkills =
     ''\<newline>'' @
     ''\<newline>'' @
     ''Selection rules:\<newline>'' @
     ''1. Pick the skill whose purpose best matches what the user wants to accomplish\<newline>'' @
     ''2. Consider the entire description, not just keywords\<newline>'' @
     ''3. If multiple skills match, choose the most specific one\<newline>'' @
     ''4. Only return '' @
     [CHR 0x22] @
     ''NONE'' @
     [CHR 0x22] @
     '' if the request is completely unrelated to all skills (e.g., '' @
     [CHR 0x22] @
     ''hello'' @
     [CHR 0x22] @
     '', '' @
     [CHR 0x22] @
     ''how are you'' @
     [CHR 0x22] @
     '')\<newline>'' @
     ''\<newline>'' @
     ''Output: ONLY the skill name from the list above, or '' @
     [CHR 0x22] @
     ''NONE'' @
     [CHR 0x22] @
     '' if no match.\<newline>'' @
     ''\<newline>'' @
     ''Selected skill name:''"

definition noMatchBeforeSkills :: string where
  "noMatchBeforeSkills =
     ''# General Response Required\<newline>'' @
     ''\<newline>'' @
     ''No enabled skill matches this request. Use your general capabilities to help the user.\<newline>'' @
     ''\<newline>'' @
     ''Do NOT use any of the following skills:\<newline>''"

definition noMatchAfterSkills :: string where
  "noMatchAfterSkills =
     ''\<newline>'' @
     ''\<newline>'' @
     ''If the user explicitly mentions a skill name, inform them it'' @
     [CHR 0x27] @
     ''s not available.''"

text \<open>
  \<open>response.trim().replace(/^["']|["']$/g, "")\<close>: after trimming, one quote character
  at the start is removed, and then one at the end of what remains.
\<close>

definition isQuote :: "char \<Rightarrow> bool" where
  "isQuote c = (c = CHR 0x22 \<or> c = CHR 0x27)"

definition stripQuotes :: "string \<Rightarrow> string" where
  "stripQuotes s =
     (let s1 = (case s of c # r \<Rightarrow> if isQuote c then r else s | [] \<Rightarrow> s)
      in if s1 \<noteq> [] \<and> isQuote (last s1) then butlast s1 else s1)"

definition formatSkillResponse :: "ClaudeSkill \<Rightarrow> string" where
  "formatSkillResponse skill =
     ''# Skill: '' @ fm_name (sk_metadata skill) @ ''\<newline>\<newline>'' @
     fm_description (sk_metadata skill) @ ''\<newline>\<newline>## Instructions\<newline>\<newline>'' @
     sk_content skill"

definition formatNoMatchMessage :: "ClaudeSkill list \<Rightarrow> string" where
  "formatNoMatchMessage skills =
     (let skillsList =
            join ''\<newline>''
              (map (\<lambda>(index, skill).
                      showNat (index + 1) @ ''. **'' @ fm_name (sk_metadata skill) @ ''** - '' @
                      fm_description (sk_metadata skill))
                 (enumerate 0 skills))
      in noMatchBeforeSkills @ skillsList @ noMatchAfterSkills)"

definition routingPrompt :: "ClaudeSkill list \<Rightarrow> string \<Rightarrow> string" where
  "routingPrompt skills request =
     (let skillsList =
            join ''\<newline>''
              (map (\<lambda>(index, skill).
                      showNat (index + 1) @ ''. Name: '' @ fm_name (sk_metadata skill) @
                      ''\<newline>   Description: '' @ fm_description (sk_metadata skill))
                 (enumerate 0 skills))
      in promptBeforeRequest @ request @ promptBeforeSkills @ skillsList @ promptAfterSkills)"

text \<open>
  \<open>selectSkillWithAI\<close> (lines 312-355) and \<open>tool\<close> (lines 249-307). Both return,
  next to their result, the requests they sent to \<open>AI.ask\<close>, each as the prompt and the
  model key. \<open>None\<close> is the source's \<open>null\<close>. The test \<open>!selectedSkillName\<close> holds
  for \<open>null\<close> and for the empty string.
\<close>

type_synonym AIRequest = "string \<times> string"

definition selectSkillWithAI ::
  "Host \<Rightarrow> ClaudeSkill list \<Rightarrow> string \<Rightarrow> string \<Rightarrow> string option \<times> AIRequest list" where
  "selectSkillWithAI h skills request routingModel =
     (let prompt = routingPrompt skills request
      in case AI_ask h prompt routingModel of
           None \<Rightarrow> (None, [(prompt, routingModel)])
         | Some response \<Rightarrow>
             (let trimmedResponse = stripQuotes (trim response)
              in if toUpperCase trimmedResponse = ''NONE'' then (None, [(prompt, routingModel)])
                 else (Some trimmedResponse, [(prompt, routingModel)])))"

definition useSkills_tool ::
  "Host \<Rightarrow> LocalStorage \<Rightarrow> FileSystem \<Rightarrow> string \<Rightarrow> (error + string) \<times> AIRequest list" where
  "useSkills_tool h st fs request =
     (case getRoutingModel st of
        None \<Rightarrow> (Inr setupRequiredMessage, [])
      | Some routingModel \<Rightarrow>
          (case getEnabledSkillObjects h st fs of
             Inl e \<Rightarrow> (Inl e, [])
           | Inr enabledSkills \<Rightarrow>
               if length enabledSkills = 0 then (Inr noSkillsEnabledMessage, [])
               else
                 (case selectSkillWithAI h enabledSkills request routingModel of
                    (None, sent) \<Rightarrow> (Inr (formatNoMatchMessage enabledSkills), sent)
                  | (Some selectedSkillName, sent) \<Rightarrow>
                      if selectedSkillName = [] then (Inr (formatNoMatchMessage enabledSkills), sent)
                      else
                        (case find (\<lambda>s. sk_name s = selectedSkillName \<or>
                                         fm_name (sk_metadata s) = selectedSkillName) enabledSkills of
                           Some selectedSkill \<Rightarrow> (Inr (formatSkillResponse selectedSkill), sent)
                         | None \<Rightarrow> (Inr (formatNoMatchMessage enabledSkills), sent)))))"

section \<open>tools/remove-skills-folder.ts and tools/set-skills-folder.ts\<close>

text \<open>
  The texts that these two tools return begin with a code point above 0xFF, which
  \<open>string\<close> cannot hold. The model returns which text it is, with the values that the
  template inserts. In \<open>remove-skills-folder\<close> no call inside the \<open>try\<close> block throws
  in the model, so the text of its \<open>catch\<close> branch does not appear.
\<close>

datatype RemoveFolderResult =
    FolderNotFound string
  | CannotRemoveOnlyFolder
  | FolderRemoved string "string list" nat

definition removeSkillsFolder_tool ::
  "Host \<Rightarrow> string \<Rightarrow> World \<Rightarrow> World \<times> (error + RemoveFolderResult)" where
  "removeSkillsFolder_tool h folderPath w =
     (case getSkillsFolderPaths h (storage w) of
        Inl e \<Rightarrow> (w, Inl e)
      | Inr paths \<Rightarrow>
          if folderPath \<notin> set paths then (w, Inr (FolderNotFound folderPath))
          else if length paths = 1 then (w, Inr CannotRemoveOnlyFolder)
          else
            (case removeSkillsFolderPath h folderPath (storage w) of
               Inl e \<Rightarrow> (w, Inl e)
             | Inr st' \<Rightarrow>
                 (let w' = w\<lparr>storage := st'\<rparr>
                  in case getSkillsFolderPaths h st' of
                       Inl e \<Rightarrow> (w', Inl e)
                     | Inr updatedPaths \<Rightarrow>
                         (case getAllSkills h st' (files w) of
                            Inl e \<Rightarrow> (w', Inl e)
                          | Inr skills \<Rightarrow>
                              (w', Inr (FolderRemoved folderPath updatedPaths (length skills)))))))"




section \<open>The yaml package on plain flat mappings\<close>

text \<open>
  For evaluating the model at concrete inputs, the two entry points of the package
  \<open>yaml\<close> (version 2, YAML 1.2 core schema) on a small fragment: block mappings with one
  entry \<open>key: value\<close> per line, where the value is a plain scalar that starts with a
  lower-case letter, continues with lower-case letters, digits and hyphens, and is not
  \<open>null\<close>, \<open>true\<close> or \<open>false\<close>, and the key is such a scalar made of letters only.
  Such a scalar is read as a string, and \<open>YAML.stringify\<close> writes such a string without
  quotes.

  \<open>yamlPlain\<close> gives what \<open>YAML.parse\<close> does with a text: \<open>YValue v\<close> when it
  returns \<open>v\<close>, \<open>YThrows\<close> when it throws, and \<open>YUnknown\<close> when the text is outside
  the fragment. A text without content is the value \<open>null\<close>. Entries with the same
  indentation and distinct keys are a mapping. The package throws when a key occurs
  twice, and when the first entry is indented deeper than a later one (the later line
  then ends the mapping and is left over).
\<close>

datatype yaml_outcome = YValue jsvalue | YThrows | YUnknown

definition isLower :: "char \<Rightarrow> bool" where
  "isLower c = (c \<in> set ''abcdefghijklmnopqrstuvwxyz'')"

definition isPlainChar :: "char \<Rightarrow> bool" where
  "isPlainChar c = (isLower c \<or> c \<in> set ''0123456789-'')"

definition isPlainScalar :: "string \<Rightarrow> bool" where
  "isPlainScalar s =
     (s \<noteq> [] \<and> isLower (hd s) \<and> list_all isPlainChar s \<and>
      s \<noteq> ''null'' \<and> s \<noteq> ''true'' \<and> s \<noteq> ''false'')"

text \<open>One line as indentation, key and value; \<open>None\<close> when it is not a plain entry.\<close>

definition yamlEntry :: "string \<Rightarrow> (nat \<times> string \<times> string) option" where
  "yamlEntry line =
     (let indent = length (takeWhile (\<lambda>c. c = CHR '' '') line);
          body = drop indent line;
          key = takeWhile (\<lambda>c. c \<noteq> CHR '':'') body;
          after = drop (length key) body
      in if isPlainScalar key \<and> list_all isLower key \<and> take 2 after = '': '' \<and>
            isPlainScalar (drop 2 after)
         then Some (indent, key, drop 2 after) else None)"

definition yamlPlain :: "string \<Rightarrow> yaml_outcome" where
  "yamlPlain text =
     (let lines = filter (\<lambda>l. \<not> list_all (\<lambda>c. c = CHR '' '') l) (splitOn (CHR 0x0A) text);
          entries = map yamlEntry lines
      in if lines = [] then YValue JNull
         else if list_ex (\<lambda>e. e = None) entries then YUnknown
         else
           (let es = map the entries;
                indents = map fst es;
                keys = map (\<lambda>e. fst (snd e)) es
            in if list_all (\<lambda>i. i = hd indents) indents then
                 (if distinct keys then YValue (JObj (map (\<lambda>e. (fst (snd e), JStr (snd (snd e)))) es))
                  else YThrows)
               else if list_ex (\<lambda>i. i < hd indents) indents then YThrows
               else YUnknown))"

text \<open>
  \<open>yamlPlainParse\<close> is the parser in the form in which the code takes it: the value,
  or \<open>None\<close>. It gives a value only where \<open>yamlPlain\<close> gives one.
\<close>

definition yamlPlainParse :: "string \<Rightarrow> jsvalue option" where
  "yamlPlainParse text = (case yamlPlain text of YValue v \<Rightarrow> Some v | _ \<Rightarrow> None)"

text \<open>
  \<open>YAML.stringify({ name, description })\<close> for plain scalars: one line for each
  property, and no line for a description that is \<open>undefined\<close>. Outside the fragment the
  result is \<open>None\<close>: this description of the package has no answer there.
\<close>

definition yamlPlainStringify :: "string \<Rightarrow> string option \<Rightarrow> string option" where
  "yamlPlainStringify name description =
     (case description of
        Some d \<Rightarrow>
          if isPlainScalar name \<and> isPlainScalar d
          then Some (''name: '' @ name @ ''\<newline>description: '' @ d @ ''\<newline>'')
          else None
      | None \<Rightarrow>
          if isPlainScalar name then Some (''name: '' @ name @ ''\<newline>'') else None)"

text \<open>A host for concrete evaluation: a home directory, the plain yaml fragment, and a
  model service that answers every prompt with the given reply.\<close>

definition plainHost :: "string option \<Rightarrow> Host" where
  "plainHost reply =
     \<lparr>env_HOME = Some ''/home/u'', env_USERPROFILE = None,
      YAML_parse = yamlPlainParse, YAML_stringify = yamlPlainStringify,
      AI_ask = (\<lambda>prompt model. reply)\<rparr>"

section \<open>tools/create-skill.ts: the name test\<close>

text \<open>
  The test \<open>/^[a-z0-9-]+$/.test(name)\<close> that the create and edit tools apply to a skill
  name: one or more characters, each a lower-case letter, a digit or a hyphen.
\<close>

definition matchesSkillName :: "string \<Rightarrow> bool" where
  "matchesSkillName name =
     (name \<noteq> [] \<and> list_all (\<lambda>c. c \<in> set ''abcdefghijklmnopqrstuvwxyz0123456789-'') name)"

section \<open>Positions of a pattern\<close>

text \<open>
  \<open>firstOccurrenceFrom s pat from i\<close>: \<open>i\<close> is the first position at or after \<open>from\<close>
  where \<open>pat\<close> occurs in \<open>s\<close>.
\<close>

definition firstOccurrenceFrom :: "string \<Rightarrow> string \<Rightarrow> nat \<Rightarrow> nat \<Rightarrow> bool" where
  "firstOccurrenceFrom s pat from i =
     (from \<le> i \<and> occursAt s pat i \<and> (\<forall>j. from \<le> j \<and> j < i \<longrightarrow> \<not> occursAt s pat j))"

section \<open>The skills that the folders hold\<close>

text \<open>
  What there is to discover in the configured folders, stated on the file system alone.
  \<open>listedDirectories\<close> are the names that \<open>readdir\<close> lists in a folder as directories.
  \<open>frontmatterOk\<close>: the file \<open>SKILL.md\<close> of the directory \<open>d\<close> can be read, and its
  front matter gives a non-empty name and a non-empty description. \<open>holdsSkill\<close>: the
  folder can be accessed and lists \<open>d\<close> as a directory whose \<open>SKILL.md\<close> can be accessed
  and is in order. \<open>entryRejected\<close> and \<open>scanRejected\<close>: the file system rejects a call
  that the scan of the folder makes, which is the case when the folder can be accessed
  but not listed, when a \<open>SKILL.md\<close> can be accessed but not read, or when the directory
  of a skill cannot be listed; \<open>getAllSkills\<close> then ends in its \<open>catch\<close> branch and
  returns no skill at all.
\<close>

definition skillMdOf :: "string \<Rightarrow> string \<Rightarrow> string" where
  "skillMdOf folder d = pathJoin [pathJoin [folder, d], ''SKILL.md'']"

definition listedDirectories :: "FileSystem \<Rightarrow> string \<Rightarrow> string list" where
  "listedDirectories fs folder =
     (case fs_readdirWithFileTypes fs folder of
        None \<Rightarrow> []
      | Some listed \<Rightarrow> map d_name (filter d_isDirectory listed))"

definition frontmatterOk :: "Host \<Rightarrow> FileSystem \<Rightarrow> string \<Rightarrow> string \<Rightarrow> bool" where
  "frontmatterOk h fs folder d =
     (case fs_readFile fs (skillMdOf folder d) of
        None \<Rightarrow> False
      | Some content \<Rightarrow>
          (case parseSkillMarkdown (YAML_parse h) content of
             None \<Rightarrow> False
           | Some parsed \<Rightarrow>
               fm_name (p_metadata parsed) \<noteq> [] \<and> fm_description (p_metadata parsed) \<noteq> []))"

definition holdsSkill :: "Host \<Rightarrow> FileSystem \<Rightarrow> string \<Rightarrow> string \<Rightarrow> bool" where
  "holdsSkill h fs folder d =
     (fs_access fs folder \<and> d \<in> set (listedDirectories fs folder) \<and>
      fs_access fs (skillMdOf folder d) \<and> frontmatterOk h fs folder d)"

definition entryRejected :: "Host \<Rightarrow> FileSystem \<Rightarrow> string \<Rightarrow> string \<Rightarrow> bool" where
  "entryRejected h fs folder d =
     (fs_access fs (skillMdOf folder d) \<and>
      (fs_readFile fs (skillMdOf folder d) = None \<or>
       (frontmatterOk h fs folder d \<and> fs_readdir fs (pathJoin [folder, d]) = None)))"



section \<open>Example states\<close>

text \<open>
  A state for evaluating the tools: the default folder of the home directory holds the
  skills \<open>alpha\<close> and \<open>beta\<close>, both are enabled, and a routing model is set.
  \<open>exampleSkills\<close> are the two skill objects that \<open>getAllSkills\<close> loads from it.
\<close>

definition exampleFiles :: FileSystem where
  "exampleFiles =
     \<lparr>fs_cwd = ''/'',
      fs_nodes =
        [(''/home'', Dir), (''/home/u'', Dir), (''/home/u/.claude'', Dir),
         (''/home/u/.claude/skills'', Dir),
         (''/home/u/.claude/skills/alpha'', Dir),
         (''/home/u/.claude/skills/alpha/SKILL.md'',
          File ''---\<newline>name: alpha\<newline>description: first\<newline>---\<newline>\<newline>one''),
         (''/home/u/.claude/skills/beta'', Dir),
         (''/home/u/.claude/skills/beta/SKILL.md'',
          File ''---\<newline>name: beta\<newline>description: second\<newline>---\<newline>\<newline>two'')]\<rparr>"

definition exampleWorld :: World where
  "exampleWorld =
     \<lparr>storage = setItem ROUTING_MODEL_KEY ''OpenAI_GPT4o-mini''
                  (setItem ENABLED_SKILLS_KEY ''[\"alpha\",\"beta\"]'' (\<lambda>k. None)),
      files = exampleFiles\<rparr>"

definition exampleSkills :: "ClaudeSkill list" where
  "exampleSkills =
     [\<lparr>sk_name = ''alpha'', sk_path = ''/home/u/.claude/skills/alpha'',
       sk_metadata = \<lparr>fm_name = ''alpha'', fm_description = ''first''\<rparr>,
       sk_content = ''one'', sk_supportingFiles = [],
       sk_skillMdPath = ''/home/u/.claude/skills/alpha/SKILL.md''\<rparr>,
      \<lparr>sk_name = ''beta'', sk_path = ''/home/u/.claude/skills/beta'',
       sk_metadata = \<lparr>fm_name = ''beta'', fm_description = ''second''\<rparr>,
       sk_content = ''two'', sk_supportingFiles = [],
       sk_skillMdPath = ''/home/u/.claude/skills/beta/SKILL.md''\<rparr>]"



section \<open>JSON: the recursion budget suffices\<close>

text \<open>
  Every successful call of the parser consumes at least one character, and a call whose
  budget is above twice the length of its text (one more for \<open>parse_elems\<close>) never ends
  in \<open>OutOfBudget\<close>. So \<open>JSON_parse\<close> has the three outcomes value, SyntaxError and
  \<open>Unrepresentable\<close> only.
\<close>

lemma length_skipWs: "length (skipWs cs) \<le> length cs"
  unfolding skipWs_def by (rule length_dropWhile_le)

lemma skipWs_Cons_length: "skipWs cs = c # r \<Longrightarrow> length r < length cs"
  using length_skipWs[of cs] by simp

lemma unicodeEscape_budget: "unicodeEscape a b c d \<noteq> Inl OutOfBudget"
  unfolding unicodeEscape_def by (simp split: option.splits)

lemma parse_number_budget: "parse_number cs \<noteq> Inl OutOfBudget"
  unfolding parse_number_def by (simp split: list.splits option.splits prod.splits)

lemma parse_digits_consumes: "parse_digits cs = Some (ds, r) \<Longrightarrow> length r \<le> length cs"
  unfolding parse_digits_def by (auto simp: Let_def length_dropWhile_le split: if_splits)

lemma parse_int_part_consumes: "parse_int_part cs = Some (ds, r) \<Longrightarrow> length r < length cs"
  unfolding parse_int_part_def
  by (auto simp: length_dropWhile_le less_Suc_eq_le split: list.splits if_splits)

lemma parse_frac_consumes: "parse_frac cs = Some (ds, r) \<Longrightarrow> length r \<le> length cs"
  unfolding parse_frac_def
  by (auto dest!: parse_digits_consumes split: list.splits if_splits option.splits)

lemma parse_exp_consumes: "parse_exp cs = Some (ds, r) \<Longrightarrow> length r \<le> length cs"
  unfolding parse_exp_def
  by (auto dest!: parse_digits_consumes split: list.splits if_splits option.splits)

lemma parse_number_consumes: "parse_number cs = Inr (lit, rest) \<Longrightarrow> length rest < length cs"
  unfolding parse_number_def
  by (auto dest!: parse_int_part_consumes parse_frac_consumes parse_exp_consumes
           split: list.splits if_splits option.splits prod.splits)

lemma parse_string_budget: "parse_string cs \<noteq> Inl OutOfBudget"
proof (induction cs rule: parse_string.induct)
  case 1
  show ?case by simp
next
  case (2 c cs)
  show ?case
  proof (cases "c = CHR 0x22")
    case True
    then show ?thesis by simp
  next
    case nq: False
    show ?thesis
    proof (cases "c = CHR 0x5C")
      case bs: True
      show ?thesis
      proof (cases cs)
        case Nil
        with bs nq show ?thesis by simp
      next
        case (Cons e r)
        show ?thesis
        proof (cases "e = CHR ''u''")
          case u: True
          show ?thesis
          proof (cases "\<exists>h3 h2 h1 h0 r'. r = h3 # h2 # h1 # h0 # r'")
            case True
            then obtain h3 h2 h1 h0 r' where r: "r = h3 # h2 # h1 # h0 # r'" by blast
            show ?thesis
            proof (cases "unicodeEscape h3 h2 h1 h0")
              case (Inl err)
              with unicodeEscape_budget[of h3 h2 h1 h0] have "err \<noteq> OutOfBudget" by auto
              with Inl nq bs Cons u r show ?thesis by simp
            next
              case (Inr uu)
              have "parse_string r' \<noteq> Inl OutOfBudget"
                using "2.IH"(1) nq bs Cons u r Inr by blast
              with Inr nq bs Cons u r show ?thesis by (auto split: sum.splits)
            qed
          next
            case False
            then have "(case r of h3 # h2 # h1 # h0 # r' \<Rightarrow> f h3 h2 h1 h0 r' | _ \<Rightarrow> Inl SyntaxError) = Inl SyntaxError" for f :: "char \<Rightarrow> char \<Rightarrow> char \<Rightarrow> char \<Rightarrow> string \<Rightarrow> parse_error + (string \<times> string)"
              by (simp split: list.splits)
            with nq bs Cons u show ?thesis by simp
          qed
        next
          case nu: False
          show ?thesis
          proof (cases "simpleEscape e")
            case None
            with nq bs Cons nu show ?thesis by simp
          next
            case (Some uu)
            have "parse_string r \<noteq> Inl OutOfBudget"
              using "2.IH"(2)[OF nq bs Cons nu Some] .
            with Some nq bs Cons nu show ?thesis by (auto split: sum.splits)
          qed
        qed
      qed
    next
      case nbs: False
      show ?thesis
      proof (cases "(of_char c :: nat) < 0x20")
        case True
        with nq nbs show ?thesis by simp
      next
        case False
        have "parse_string cs \<noteq> Inl OutOfBudget"
          using "2.IH"(3)[OF nq nbs False] .
        with False nq nbs show ?thesis by (auto split: sum.splits)
      qed
    qed
  qed
qed

lemma parse_string_consumes: "parse_string cs = Inr (s, rest) \<Longrightarrow> length rest < length cs"
proof (induction cs arbitrary: s rest rule: parse_string.induct)
  case 1
  then show ?case by simp
next
  case (2 c cs)
  note res = "2.prems"
  show ?case
  proof (cases "c = CHR 0x22")
    case True
    with res show ?thesis by simp
  next
    case nq: False
    show ?thesis
    proof (cases "c = CHR 0x5C")
      case bs: True
      show ?thesis
      proof (cases cs)
        case Nil
        with bs nq res show ?thesis by simp
      next
        case (Cons e r)
        show ?thesis
        proof (cases "e = CHR ''u''")
          case u: True
          show ?thesis
          proof (cases "\<exists>h3 h2 h1 h0 r'. r = h3 # h2 # h1 # h0 # r'")
            case True
            then obtain h3 h2 h1 h0 r' where r: "r = h3 # h2 # h1 # h0 # r'" by blast
            show ?thesis
            proof (cases "unicodeEscape h3 h2 h1 h0")
              case (Inl err)
              with res nq bs Cons u r show ?thesis by simp
            next
              case (Inr uu)
              from res nq bs Cons u r Inr obtain s' where "parse_string r' = Inr (s', rest)"
                by (auto split: sum.splits)
              with "2.IH"(1) nq bs Cons u r Inr have "length rest < length r'" by blast
              with Cons r show ?thesis by simp
            qed
          next
            case False
            then have "(case r of h3 # h2 # h1 # h0 # r' \<Rightarrow> f h3 h2 h1 h0 r' | _ \<Rightarrow> Inl SyntaxError) = Inl SyntaxError" for f :: "char \<Rightarrow> char \<Rightarrow> char \<Rightarrow> char \<Rightarrow> string \<Rightarrow> parse_error + (string \<times> string)"
              by (simp split: list.splits)
            with res nq bs Cons u show ?thesis by simp
          qed
        next
          case nu: False
          show ?thesis
          proof (cases "simpleEscape e")
            case None
            with res nq bs Cons nu show ?thesis by simp
          next
            case (Some uu)
            from res nq bs Cons nu Some obtain s' where "parse_string r = Inr (s', rest)"
              by (auto split: sum.splits)
            with "2.IH"(2)[OF nq bs Cons nu Some] have "length rest < length r" by blast
            with Cons show ?thesis by simp
          qed
        qed
      qed
    next
      case nbs: False
      show ?thesis
      proof (cases "(of_char c :: nat) < 0x20")
        case True
        with res nq nbs show ?thesis by simp
      next
        case False
        from res nq nbs False obtain s' where "parse_string cs = Inr (s', rest)"
          by (auto split: sum.splits)
        with "2.IH"(3)[OF nq nbs False] have "length rest < length cs" by blast
        then show ?thesis by simp
      qed
    qed
  qed
qed

lemma parse_value_consumes_step:
  assumes E: "\<And>cs vs r. parse_elems n cs = Inr (vs, r) \<Longrightarrow> length r < length cs"
      and M: "\<And>cs ms r. parse_members n cs = Inr (ms, r) \<Longrightarrow> length r < length cs"
      and res: "parse_value (Suc n) cs = Inr (v, rest)"
  shows "length rest < length cs"
proof (cases "skipWs cs")
  case Nil
  with res show ?thesis by simp
next
  case (Cons c r)
  then have len: "Suc (length r) \<le> length cs"
    using length_skipWs[of cs] by simp
  consider (str) "c = CHR 0x22" | (arr) "c \<noteq> CHR 0x22" "c = CHR ''[''"
    | (obj) "c \<noteq> CHR 0x22" "c \<noteq> CHR ''[''" "c = CHR ''{''"
    | (lit) "c \<noteq> CHR 0x22" "c \<noteq> CHR ''[''" "c \<noteq> CHR ''{''"
    by blast
  then show ?thesis
  proof cases
    case str
    with res Cons obtain s where "parse_string r = Inr (s, rest)"
      by (auto split: sum.splits)
    from parse_string_consumes[OF this] len show ?thesis by simp
  next
    case arr
    show ?thesis
    proof (cases "skipWs r")
      case Nil
      with res Cons arr show ?thesis by simp
    next
      case inner: (Cons d r')
      show ?thesis
      proof (cases "d = CHR '']''")
        case True
        with res Cons arr inner have "rest = r'" by simp
        with skipWs_Cons_length[OF inner] len show ?thesis by simp
      next
        case False
        with res Cons arr inner obtain vs where "parse_elems n r = Inr (vs, rest)"
          by (auto split: sum.splits)
        from E[OF this] len show ?thesis by simp
      qed
    qed
  next
    case obj
    show ?thesis
    proof (cases "skipWs r")
      case Nil
      with res Cons obj show ?thesis by simp
    next
      case inner: (Cons d r')
      show ?thesis
      proof (cases "d = CHR ''}''")
        case True
        with res Cons obj inner have "rest = r'" by simp
        with skipWs_Cons_length[OF inner] len show ?thesis by simp
      next
        case False
        with res Cons obj inner obtain ms where "parse_members n r = Inr (ms, rest)"
          by (auto split: sum.splits)
        from M[OF this] len show ?thesis by simp
      qed
    qed
  next
    case lit
    have "rest = drop 4 (c # r) \<or> rest = drop 5 (c # r) \<or> (\<exists>l. parse_number (c # r) = Inr (l, rest))"
      using res Cons lit by (auto split: sum.splits if_splits)
    then show ?thesis
    proof (elim disjE exE)
      assume "rest = drop 4 (c # r)"
      with len show ?thesis by simp
    next
      assume "rest = drop 5 (c # r)"
      with len show ?thesis by simp
    next
      fix l assume "parse_number (c # r) = Inr (l, rest)"
      from parse_number_consumes[OF this] len show ?thesis by simp
    qed
  qed
qed

lemma parse_elems_consumes_step:
  assumes V: "\<And>cs v r. parse_value n cs = Inr (v, r) \<Longrightarrow> length r < length cs"
      and E: "\<And>cs vs r. parse_elems n cs = Inr (vs, r) \<Longrightarrow> length r < length cs"
      and res: "parse_elems (Suc n) cs = Inr (vs, rest)"
  shows "length rest < length cs"
proof -
  from res obtain v r where v: "parse_value n cs = Inr (v, r)"
    by (auto split: sum.splits)
  from V[OF v] have r: "length r < length cs" .
  from res v obtain d r' where d: "skipWs r = d # r'"
    by (auto split: list.splits)
  from skipWs_Cons_length[OF d] r have r': "length r' < length cs" by simp
  show ?thesis
  proof (cases "d = CHR '',''")
    case True
    with res v d obtain vs' where "parse_elems n r' = Inr (vs', rest)"
      by (auto split: sum.splits)
    from E[OF this] r' show ?thesis by simp
  next
    case False
    with res v d have "rest = r'" by (auto split: if_splits)
    with r' show ?thesis by simp
  qed
qed

lemma parse_members_consumes_step:
  assumes V: "\<And>cs v r. parse_value n cs = Inr (v, r) \<Longrightarrow> length r < length cs"
      and M: "\<And>cs ms r. parse_members n cs = Inr (ms, r) \<Longrightarrow> length r < length cs"
      and res: "parse_members (Suc n) cs = Inr (ms, rest)"
  shows "length rest < length cs"
proof -
  from res obtain q r where q: "skipWs cs = q # r"
    by (auto split: list.splits)
  from skipWs_Cons_length[OF q] have r: "length r < length cs" .
  from res q have qq: "q = CHR 0x22" by (auto split: if_splits)
  from res q qq obtain k r1 where k: "parse_string r = Inr (k, r1)"
    by (auto split: sum.splits)
  from parse_string_consumes[OF k] r have r1: "length r1 < length cs" by simp
  from res q qq k obtain col r2 where c: "skipWs r1 = col # r2"
    by (auto split: list.splits)
  from skipWs_Cons_length[OF c] r1 have r2: "length r2 < length cs" by simp
  from res q qq k c have cc: "col = CHR '':''" by (auto split: if_splits)
  from res q qq k c cc obtain v r3 where v: "parse_value n r2 = Inr (v, r3)"
    by (auto split: sum.splits)
  from V[OF v] r2 have r3: "length r3 < length cs" by simp
  from res q qq k c cc v obtain d r4 where d: "skipWs r3 = d # r4"
    by (auto split: list.splits)
  from skipWs_Cons_length[OF d] r3 have r4: "length r4 < length cs" by simp
  show ?thesis
  proof (cases "d = CHR '',''")
    case True
    with res q qq k c cc v d obtain ms' where "parse_members n r4 = Inr (ms', rest)"
      by (auto split: sum.splits)
    from M[OF this] r4 show ?thesis by simp
  next
    case False
    with res q qq k c cc v d have "rest = r4" by (auto split: if_splits)
    with r4 show ?thesis by simp
  qed
qed

lemma parse_consumes:
  "(\<forall>cs v r. parse_value n cs = Inr (v, r) \<longrightarrow> length r < length cs) \<and>
   (\<forall>cs vs r. parse_elems n cs = Inr (vs, r) \<longrightarrow> length r < length cs) \<and>
   (\<forall>cs ms r. parse_members n cs = Inr (ms, r) \<longrightarrow> length r < length cs)"
proof (induction n)
  case 0
  show ?case by simp
next
  case (Suc n)
  then have V: "\<And>cs v r. parse_value n cs = Inr (v, r) \<Longrightarrow> length r < length cs"
    and E: "\<And>cs vs r. parse_elems n cs = Inr (vs, r) \<Longrightarrow> length r < length cs"
    and M: "\<And>cs ms r. parse_members n cs = Inr (ms, r) \<Longrightarrow> length r < length cs"
    by blast+
  have "length r < length cs" if h: "parse_value (Suc n) cs = Inr (v, r)" for cs v r
    by (rule parse_value_consumes_step[OF _ _ h]) (erule E M)+
  moreover have "length r < length cs" if h: "parse_elems (Suc n) cs = Inr (vs, r)" for cs vs r
    by (rule parse_elems_consumes_step[OF _ _ h]) (erule V E)+
  moreover have "length r < length cs" if h: "parse_members (Suc n) cs = Inr (ms, r)" for cs ms r
    by (rule parse_members_consumes_step[OF _ _ h]) (erule V M)+
  ultimately show ?case by blast
qed

lemma parse_value_consumes: "parse_value n cs = Inr (v, r) \<Longrightarrow> length r < length cs"
  using parse_consumes[of n] by blast

lemma parse_value_budget_step:
  assumes E: "\<And>cs. 2 * length cs + 1 < n \<Longrightarrow> parse_elems n cs \<noteq> Inl OutOfBudget"
      and M: "\<And>cs. 2 * length cs < n \<Longrightarrow> parse_members n cs \<noteq> Inl OutOfBudget"
      and b: "2 * length cs < Suc n"
  shows "parse_value (Suc n) cs \<noteq> Inl OutOfBudget"
proof (cases "skipWs cs")
  case Nil
  then show ?thesis by simp
next
  case (Cons c r)
  then have len: "Suc (length r) \<le> length cs"
    using length_skipWs[of cs] by simp
  with b have "2 * length r + 1 < n" and "2 * length r < n" by simp_all
  then have e: "parse_elems n r \<noteq> Inl OutOfBudget" and m: "parse_members n r \<noteq> Inl OutOfBudget"
    using E M by blast+
  note s = parse_string_budget[of r] and nb = parse_number_budget[of "c # r"]
  consider (str) "c = CHR 0x22" | (arr) "c \<noteq> CHR 0x22" "c = CHR ''[''"
    | (obj) "c \<noteq> CHR 0x22" "c \<noteq> CHR ''[''" "c = CHR ''{''"
    | (lit) "c \<noteq> CHR 0x22" "c \<noteq> CHR ''[''" "c \<noteq> CHR ''{''"
    by blast
  then show ?thesis
  proof cases
    case str
    with Cons s show ?thesis by (auto split: sum.splits)
  next
    case arr
    with Cons e show ?thesis by (auto split: sum.splits list.splits)
  next
    case obj
    with Cons m show ?thesis by (auto split: sum.splits list.splits)
  next
    case lit
    with Cons nb show ?thesis by (auto split: sum.splits)
  qed
qed

lemma parse_elems_budget_step:
  assumes V: "\<And>cs. 2 * length cs < n \<Longrightarrow> parse_value n cs \<noteq> Inl OutOfBudget"
      and E: "\<And>cs. 2 * length cs + 1 < n \<Longrightarrow> parse_elems n cs \<noteq> Inl OutOfBudget"
      and b: "2 * length cs + 1 < Suc n"
  shows "parse_elems (Suc n) cs \<noteq> Inl OutOfBudget"
proof (cases "parse_value n cs")
  case (Inl err)
  from b have "2 * length cs < n" by simp
  from V[OF this] Inl have "err \<noteq> OutOfBudget" by auto
  with Inl show ?thesis by simp
next
  case (Inr p)
  obtain v r where p: "p = (v, r)" by (cases p)
  from parse_value_consumes[of n cs v r] Inr p have r: "length r < length cs" by simp
  show ?thesis
  proof (cases "skipWs r")
    case Nil
    with Inr p show ?thesis by simp
  next
    case (Cons d r')
    from skipWs_Cons_length[OF Cons] r b have "2 * length r' + 1 < n" by simp
    from E[OF this] Inr p Cons show ?thesis by (auto split: sum.splits)
  qed
qed

lemma parse_members_budget_step:
  assumes V: "\<And>cs. 2 * length cs < n \<Longrightarrow> parse_value n cs \<noteq> Inl OutOfBudget"
      and M: "\<And>cs. 2 * length cs < n \<Longrightarrow> parse_members n cs \<noteq> Inl OutOfBudget"
      and b: "2 * length cs < Suc n"
  shows "parse_members (Suc n) cs \<noteq> Inl OutOfBudget"
proof (cases "skipWs cs")
  case Nil
  then show ?thesis by simp
next
  case q: (Cons q r)
  from skipWs_Cons_length[OF q] have r: "length r < length cs" .
  show ?thesis
  proof (cases "parse_string r")
    case (Inl err)
    with parse_string_budget[of r] have "err \<noteq> OutOfBudget" by auto
    with q Inl show ?thesis by simp
  next
    case (Inr p)
    obtain k r1 where p: "p = (k, r1)" by (cases p)
    from parse_string_consumes[of r k r1] Inr p r have r1: "length r1 < length cs" by simp
    show ?thesis
    proof (cases "skipWs r1")
      case Nil
      with q Inr p show ?thesis by simp
    next
      case c: (Cons col r2)
      from skipWs_Cons_length[OF c] r1 have r2: "length r2 < length cs" by simp
      show ?thesis
      proof (cases "parse_value n r2")
        case vl: (Inl err)
        from r2 b have "2 * length r2 < n" by simp
        from V[OF this] vl have "err \<noteq> OutOfBudget" by auto
        with q Inr p c vl show ?thesis by simp
      next
        case vr: (Inr pv)
        obtain v r3 where pv: "pv = (v, r3)" by (cases pv)
        from parse_value_consumes[of n r2 v r3] vr pv r2 have r3: "length r3 < length cs" by simp
        show ?thesis
        proof (cases "skipWs r3")
          case Nil
          with q Inr p c vr pv show ?thesis by simp
        next
          case d: (Cons d r4)
          from skipWs_Cons_length[OF d] r3 b have "2 * length r4 < n" by simp
          from M[OF this] q Inr p c vr pv d show ?thesis by (auto split: sum.splits)
        qed
      qed
    qed
  qed
qed

lemma parse_budget:
  "(\<forall>cs. 2 * length cs < n \<longrightarrow> parse_value n cs \<noteq> Inl OutOfBudget) \<and>
   (\<forall>cs. 2 * length cs + 1 < n \<longrightarrow> parse_elems n cs \<noteq> Inl OutOfBudget) \<and>
   (\<forall>cs. 2 * length cs < n \<longrightarrow> parse_members n cs \<noteq> Inl OutOfBudget)"
proof (induction n)
  case 0
  show ?case by simp
next
  case (Suc n)
  then have V: "\<And>cs. 2 * length cs < n \<Longrightarrow> parse_value n cs \<noteq> Inl OutOfBudget"
    and E: "\<And>cs. 2 * length cs + 1 < n \<Longrightarrow> parse_elems n cs \<noteq> Inl OutOfBudget"
    and M: "\<And>cs. 2 * length cs < n \<Longrightarrow> parse_members n cs \<noteq> Inl OutOfBudget"
    by blast+
  have "parse_value (Suc n) cs \<noteq> Inl OutOfBudget" if h: "2 * length cs < Suc n" for cs
    by (rule parse_value_budget_step[OF _ _ h]) (erule E M)+
  moreover have "parse_elems (Suc n) cs \<noteq> Inl OutOfBudget" if h: "2 * length cs + 1 < Suc n" for cs
    by (rule parse_elems_budget_step[OF _ _ h]) (erule V E)+
  moreover have "parse_members (Suc n) cs \<noteq> Inl OutOfBudget" if h: "2 * length cs < Suc n" for cs
    by (rule parse_members_budget_step[OF _ _ h]) (erule V M)+
  ultimately show ?case by blast
qed

lemma JSON_parse_budget: "JSON_parse text \<noteq> Inl OutOfBudget"
proof -
  have "parse_value (Suc (Suc (2 * length text))) text \<noteq> Inl OutOfBudget"
    using parse_budget[of "Suc (Suc (2 * length text))"] by simp
  then show ?thesis
    unfolding JSON_parse_def by (auto simp del: parse_value.simps split: sum.splits)
qed


section \<open>JSON: the stored texts are read back\<close>

lemma hexVal_hexDigit: "k < 16 \<Longrightarrow> hexVal (hexDigit k) = Some k"
proof -
  have "\<forall>k \<in> set [0..<16]. hexVal (hexDigit k) = Some k"
    by (simp add: hexVal_def hexDigit_def upt_rec)
  then show "k < 16 \<Longrightarrow> hexVal (hexDigit k) = Some k" by simp
qed

lemma hexVal_zero: "hexVal (CHR ''0'') = Some 0"
  by (simp add: hexVal_def)

lemma unicodeEscape_low:
  assumes "(of_char c :: nat) < 0x20"
  shows "unicodeEscape (CHR ''0'') (CHR ''0'') (hexDigit ((of_char c :: nat) div 16)) (hexDigit ((of_char c :: nat) mod 16)) = Inr c"
proof -
  let ?n = "of_char c :: nat"
  have d: "?n div 16 < 16" using assms by simp
  have m: "?n mod 16 < 16" by simp
  have "char_of (16 * (?n div 16) + ?n mod 16) = c" by simp
  then show ?thesis
    unfolding unicodeEscape_def using hexVal_hexDigit[OF d] hexVal_hexDigit[OF m]
    by (simp add: hexVal_zero)
qed

lemma parse_string_quoteChar:
  assumes "parse_string rest = Inr (s, r)"
  shows "parse_string (quoteChar c @ rest) = Inr (c # s, r)"
proof -
  consider (b) "c = CHR 0x08" | (t) "c = CHR 0x09" | (n) "c = CHR 0x0A" | (f) "c = CHR 0x0C"
    | (r) "c = CHR 0x0D" | (q) "c = CHR 0x22" | (bs) "c = CHR 0x5C"
    | (low) "c \<notin> set [CHR 0x08, CHR 0x09, CHR 0x0A, CHR 0x0C, CHR 0x0D, CHR 0x22, CHR 0x5C]" "(of_char c :: nat) < 0x20"
    | (plain) "c \<notin> set [CHR 0x08, CHR 0x09, CHR 0x0A, CHR 0x0C, CHR 0x0D, CHR 0x22, CHR 0x5C]" "\<not> (of_char c :: nat) < 0x20"
    by auto
  then show ?thesis
  proof cases
    case low
    then show ?thesis using assms unicodeEscape_low[of c]
      by (simp add: quoteChar_def)
  next
    case plain
    then show ?thesis using assms by (simp add: quoteChar_def)
  qed (use assms in \<open>simp_all add: quoteChar_def simpleEscape_def\<close>)
qed

lemma parse_string_quoted:
  "parse_string (concat (map quoteChar s) @ CHR 0x22 # r) = Inr (s, r)"
  by (induction s) (simp_all add: parse_string_quoteChar)


lemma skipWs_nonws: "\<not> isJsonWs c \<Longrightarrow> skipWs (c # r) = c # r"
  by (simp add: skipWs_def)

lemma join_Cons: "xs \<noteq> [] \<Longrightarrow> join sep (x # xs) = x @ sep @ join sep xs"
  by (cases xs) simp_all

lemma length_join_lower:
  "(\<And>x. x \<in> set xs \<Longrightarrow> m \<le> length x) \<Longrightarrow> m * length xs \<le> length (join sep xs)"
proof (induction sep xs rule: join.induct)
  case (1 sep)
  then show ?case by simp
next
  case (2 sep x)
  then show ?case by simp
next
  case (3 sep x y ys)
  have "m \<le> length x" using 3(2) by simp
  moreover have "m * length (y # ys) \<le> length (join sep (y # ys))"
    using 3 by simp
  ultimately show ?case by simp
qed

lemma parsesBack_string: "parsesBack 1 (JStr s)"
proof -
  have "parse_value n (JSON_stringify (JStr s) @ r) = Inr (JStr s, r)" if h: "1 \<le> n" for n r
  proof -
    obtain m where n: "n = Suc m" using h not0_implies_Suc[of n] by auto
    show ?thesis
      by (simp add: n quoteJSONString_def skipWs_nonws isJsonWs_def parse_string_quoted)
  qed
  then show ?thesis by (simp add: parsesBack_def)
qed

lemma parse_elems_parsesBack:
  assumes "vs \<noteq> []" and "\<And>v. v \<in> set vs \<Longrightarrow> parsesBack k v" and "k + length vs \<le> n"
  shows "parse_elems n (join '','' (stringify_elems vs) @ CHR '']'' # r) = Inr (vs, r)"
  using assms
proof (induction vs arbitrary: n rule: list_nonempty_induct)
  case (single v)
  then obtain m where n: "n = Suc m" and m: "k \<le> m"
    using not0_implies_Suc[of n] by auto
  have "parse_value m (JSON_stringify v @ CHR '']'' # r) = Inr (v, CHR '']'' # r)"
    using single(1)[of v] m by (simp add: parsesBack_def)
  then show ?case by (simp add: n skipWs_nonws isJsonWs_def)
next
  case (cons v vs)
  then obtain m where n: "n = Suc m" and m: "k + length vs \<le> m"
    using not0_implies_Suc[of n] by auto
  have km: "k \<le> m" using m by simp
  let ?rest = "join '','' (stringify_elems vs) @ CHR '']'' # r"
  have head: "parse_value m (JSON_stringify v @ CHR '','' # ?rest) = Inr (v, CHR '','' # ?rest)"
    using cons(3)[of v] km by (simp add: parsesBack_def)
  have tail: "parse_elems m ?rest = Inr (vs, r)"
    using cons(2)[of m] cons(3) m by simp
  have ne: "stringify_elems vs \<noteq> []" using cons(1) by (cases vs) simp_all
  show ?case
    using head tail by (simp add: n join_Cons[OF ne] skipWs_nonws isJsonWs_def)
qed

lemma parse_value_array:
  assumes "skipWs r = d # r'" and "d \<noteq> CHR '']''" and "parse_elems n r = Inr (vs, rest)"
  shows "parse_value (Suc n) (CHR ''['' # r) = Inr (JArr vs, rest)"
  using assms by (simp add: skipWs_nonws isJsonWs_def)

lemma JSON_parse_array:
  assumes pb: "\<And>v. v \<in> set vs \<Longrightarrow> parsesBack k v"
    and len: "\<And>v. v \<in> set vs \<Longrightarrow> k + 1 \<le> length (JSON_stringify v)"
    and first: "\<And>v. v \<in> set vs \<Longrightarrow> hd (JSON_stringify v) = CHR 0x22 \<or> hd (JSON_stringify v) = CHR ''{''"
  shows "JSON_parse (JSON_stringify (JArr vs)) = Inr (JArr vs)"
proof (cases vs)
  case Nil
  have pv: "parse_value (Suc n) ''[]'' = Inr (JArr [], [])" for n
    by (simp add: skipWs_def isJsonWs_def)
  have tx: "JSON_stringify (JArr vs) = ''[]''" using Nil by simp
  show ?thesis
    unfolding JSON_parse_def tx pv using Nil by (simp add: skipWs_def)
next
  case (Cons v0 vs0)
  let ?body = "join '','' (stringify_elems vs)"
  have ne: "vs \<noteq> []" using Cons by simp
  have set_elems: "set (stringify_elems vs) = JSON_stringify ` set vs"
    by (induction vs) simp_all
  have len_elems: "length (stringify_elems vs) = length vs"
    by (induction vs) simp_all
  have "(k + 1) * length (stringify_elems vs) \<le> length ?body"
    by (rule length_join_lower) (use len set_elems in auto)
  then have "k * length vs + length vs \<le> length ?body"
    by (simp add: len_elems)
  moreover have "k \<le> k * length vs" using Cons by simp
  ultimately have "k + length vs \<le> Suc (Suc (length ?body))" by linarith
  then have fuel: "k + length vs \<le> Suc (2 * length (CHR ''['' # ?body @ '']''))" by simp
  have v0: "JSON_stringify v0 \<noteq> []" using len[of v0] Cons by auto
  then obtain c cs where v0_text: "JSON_stringify v0 = c # cs" by (cases "JSON_stringify v0") simp_all
  have c: "c = CHR 0x22 \<or> c = CHR ''{''" using first[of v0] v0_text Cons by simp
  have "?body = c # cs @ (if vs0 = [] then [] else '','' @ join '','' (stringify_elems vs0))"
    using Cons v0_text by (cases vs0) simp_all
  then obtain rest where body: "?body = c # rest" by blast
  have elems: "parse_elems (Suc (2 * length (CHR ''['' # ?body @ '']''))) (?body @ CHR '']'' # [])
                 = Inr (vs, [])"
    by (rule parse_elems_parsesBack[OF ne pb fuel])
  have skip: "skipWs (?body @ '']'') = c # rest @ '']''"
    using c by (auto simp add: body skipWs_nonws isJsonWs_def)
  have cne: "c \<noteq> CHR '']''" using c by auto
  have pv: "parse_value (Suc (Suc (2 * length (CHR ''['' # ?body @ '']''))))
              (CHR ''['' # ?body @ '']'') = Inr (JArr vs, [])"
    by (rule parse_value_array[OF skip cne elems])
  have tx: "JSON_stringify (JArr vs) = CHR ''['' # ?body @ '']''" by simp
  show ?thesis
    unfolding JSON_parse_def tx pv by (simp add: skipWs_def)
qed

lemma asStrings_map: "asStrings (map JStr xs) = Some xs"
  by (induction xs) simp_all

lemma JSON_parse_namesText: "JSON_parse (namesText xs) = Inr (JArr (map JStr xs))"
  unfolding namesText_def
proof (rule JSON_parse_array[where k = 1])
  fix v assume "v \<in> set (map JStr xs)"
  then obtain s where v: "v = JStr s" by auto
  show "parsesBack 1 v" using parsesBack_string by (simp add: v)
  show "1 + 1 \<le> length (JSON_stringify v)" by (simp add: v quoteJSONString_def)
  show "hd (JSON_stringify v) = CHR 0x22 \<or> hd (JSON_stringify v) = CHR ''{''"
    by (simp add: v quoteJSONString_def)
qed

lemma namesText_nonempty: "namesText xs \<noteq> []"
  by (simp add: namesText_def)

lemma getItem_setItem: "getItem (setItem k v st) k' = (if k' = k then Some v else getItem st k')"
  by (simp add: getItem_def setItem_def)

lemma getEnabledSkills_setItem:
  "getEnabledSkills (setItem ENABLED_SKILLS_KEY (namesText xs) st) = Inr xs"
  by (simp add: getEnabledSkills_def getItem_setItem namesText_nonempty JSON_parse_namesText asStrings_map)

lemma parse_value_quoted:
  "parse_value (Suc n) (quoteJSONString s @ r) = Inr (JStr s, r)"
  by (simp add: quoteJSONString_def skipWs_nonws isJsonWs_def parse_string_quoted)

lemma parse_members_last:
  assumes "parse_value n vtext = Inr (v, CHR ''}'' # r)"
  shows "parse_members (Suc n) (quoteJSONString k @ CHR '':'' # vtext) = Inr ([(k, v)], r)"
  using assms
  by (simp add: quoteJSONString_def skipWs_nonws isJsonWs_def parse_string_quoted)

lemma parse_members_more:
  assumes "parse_value n vtext = Inr (v, CHR '','' # tail)"
    and "parse_members n tail = Inr (ms, r)"
  shows "parse_members (Suc n) (quoteJSONString k @ CHR '':'' # vtext) = Inr ((k, v) # ms, r)"
  using assms
  by (simp add: quoteJSONString_def skipWs_nonws isJsonWs_def parse_string_quoted)

lemma parse_members_one:
  "parse_members (Suc (Suc n)) (quoteJSONString k @ CHR '':'' # quoteJSONString s @ CHR ''}'' # r)
     = Inr ([(k, JStr s)], r)"
  by (rule parse_members_last) (rule parse_value_quoted)

lemma parse_members_two:
  "parse_members (Suc (Suc (Suc n)))
     (quoteJSONString k @ CHR '':'' # quoteJSONString s @ CHR '','' #
      quoteJSONString k' @ CHR '':'' # quoteJSONString s' @ CHR ''}'' # r)
     = Inr ([(k, JStr s), (k', JStr s')], r)"
  by (rule parse_members_more) (rule parse_value_quoted, rule parse_members_one)

lemma parse_value_object:
  assumes "skipWs r = d # r'" and "d \<noteq> CHR ''}''" and "parse_members n r = Inr (ms, rest)"
  shows "parse_value (Suc n) (CHR ''{'' # r) = Inr (JObj ms, rest)"
  using assms by (simp add: skipWs_nonws isJsonWs_def)

lemma skipWs_quoted: "skipWs (quoteJSONString k @ r) = CHR 0x22 # concat (map quoteChar k) @ CHR 0x22 # r"
  by (simp add: quoteJSONString_def skipWs_nonws isJsonWs_def)

lemma parsesBack_folder: "parsesBack 4 (folderValue f)"
proof -
  have "parse_value n (JSON_stringify (folderValue f) @ r) = Inr (folderValue f, r)"
    if h: "4 \<le> n" for n r
  proof -
    obtain m where n: "n = Suc (Suc (Suc (Suc m)))"
      using h by (metis add_2_eq_Suc le_Suc_ex numeral_Bit0 add_Suc)
    show ?thesis
    proof (cases "f_label f")
      case None
      have tx: "JSON_stringify (folderValue f) @ r
                  = CHR ''{'' # (quoteJSONString ''path'' @ CHR '':'' # quoteJSONString (f_path f) @ CHR ''}'' # r)"
        by (simp add: folderValue_def None)
      show ?thesis
        unfolding tx n
        by (rule parse_value_object[OF skipWs_quoted _ parse_members_one, THEN trans])
           (simp_all add: folderValue_def None)
    next
      case (Some l)
      have tx: "JSON_stringify (folderValue f) @ r
                  = CHR ''{'' # (quoteJSONString ''path'' @ CHR '':'' # quoteJSONString (f_path f) @ CHR '','' #
                      quoteJSONString ''label'' @ CHR '':'' # quoteJSONString l @ CHR ''}'' # r)"
        by (simp add: folderValue_def Some)
      show ?thesis
        unfolding tx n
        by (rule parse_value_object[OF skipWs_quoted _ parse_members_two, THEN trans])
           (simp_all add: folderValue_def Some)
    qed
  qed
  then show ?thesis by (simp add: parsesBack_def)
qed

lemma asFolder_folderValue: "asFolder (folderValue f) = Some f"
  by (cases "f_label f") (simp_all add: folderValue_def)

lemma asFolders_map: "asFolders (map folderValue fs) = Some fs"
  by (induction fs) (simp_all add: asFolder_folderValue)

lemma JSON_parse_foldersText: "JSON_parse (foldersText fs) = Inr (JArr (map folderValue fs))"
  unfolding foldersText_def
proof (rule JSON_parse_array[where k = 4])
  fix v assume "v \<in> set (map folderValue fs)"
  then obtain f where v: "v = folderValue f" by auto
  show "parsesBack 4 v" using parsesBack_folder by (simp add: v)
  show "4 + 1 \<le> length (JSON_stringify v)"
    by (cases "f_label f") (simp_all add: v folderValue_def quoteJSONString_def)
  show "hd (JSON_stringify v) = CHR 0x22 \<or> hd (JSON_stringify v) = CHR ''{''"
    by (simp add: v folderValue_def)
qed

lemma foldersText_nonempty: "foldersText fs \<noteq> []"
  by (simp add: foldersText_def)

lemma getSkillsFolders_setItem:
  "getSkillsFolders h (setItem SKILLS_FOLDER_KEY (foldersText fs) st) = Inr fs"
  by (simp add: getSkillsFolders_def getItem_setItem foldersText_nonempty JSON_parse_foldersText asFolders_map)





lemma getAllSkills_total:
  "getSkillsFolders h st = Inr folders \<Longrightarrow> \<exists>skills. getAllSkills h st fs = Inr skills"
  by (simp add: getAllSkills_def getSkillsFolderPaths_def split: option.splits)

lemma set_setFromArray: "set (setFromArray seen xs) = set seen \<union> set xs"
  by (induction xs arbitrary: seen) auto

lemma distinct_setFromArray: "distinct seen \<Longrightarrow> distinct (setFromArray seen xs)"
  by (induction xs arbitrary: seen) auto

lemma find_None_list_ex: "(find P xs = None) = (\<not> list_ex P xs)"
  by (auto simp add: find_None_iff list_ex_iff)


section \<open>The scan of the folders\<close>

lemma childNames_nonempty: "name \<in> set (childNames fs k) \<Longrightarrow> name \<noteq> []"
  by (auto simp add: childNames_def)

lemma fs_readdirWithFileTypes_names:
  "fs_readdirWithFileTypes fs p = Some listed \<Longrightarrow> \<forall>e \<in> set listed. d_name e \<noteq> []"
  using childNames_nonempty
  by (auto simp add: fs_readdirWithFileTypes_def split: sum.splits if_splits)

text \<open>
  The scan of one folder, \<open>loadEntries\<close>, in terms of the file system: it is rejected
  when one of the listed directories has a \<open>SKILL.md\<close> that can be accessed but not
  read, or holds a skill and cannot be listed; otherwise it returns, in the order of the
  listing, one skill for each directory whose \<open>SKILL.md\<close> can be accessed and is in
  order.
\<close>

lemma loadEntries_Cons_skip:
  assumes "\<not> d_isDirectory entry \<or> \<not> fs_access fs (skillMdOf folder (d_name entry)) \<or>
           (fs_readFile fs (skillMdOf folder (d_name entry)) \<noteq> None \<and>
            \<not> frontmatterOk h fs folder (d_name entry))"
  shows "loadEntries h fs folder (entry # entries) = loadEntries h fs folder entries"
  using assms
  by (auto simp add: skillMdOf_def frontmatterOk_def Let_def split: option.splits)

lemma loadEntries_Cons_rejected:
  assumes "d_isDirectory entry" and "entryRejected h fs folder (d_name entry)"
  shows "loadEntries h fs folder (entry # entries) = None"
  using assms
  by (auto simp add: entryRejected_def skillMdOf_def frontmatterOk_def Let_def split: option.splits)

lemma loadEntries_Cons_skill:
  assumes "d_isDirectory entry" and "fs_access fs (skillMdOf folder (d_name entry))"
    and "frontmatterOk h fs folder (d_name entry)"
    and "fs_readdir fs (pathJoin [folder, d_name entry]) \<noteq> None"
  shows "(case loadEntries h fs folder entries of
            None \<Rightarrow> loadEntries h fs folder (entry # entries) = None
          | Some skills \<Rightarrow>
              (\<exists>skill. sk_name skill = d_name entry \<and>
                 loadEntries h fs folder (entry # entries) = Some (skill # skills)))"
  using assms
  by (auto simp add: skillMdOf_def frontmatterOk_def Let_def split: option.splits)

lemma loadEntries_rejected:
  "(loadEntries h fs folder entries = None) =
   (\<exists>e \<in> set entries. d_isDirectory e \<and> entryRejected h fs folder (d_name e))"
proof (induction entries)
  case Nil
  show ?case by simp
next
  case (Cons entry entries)
  let ?d = "d_name entry"
  consider (skip) "\<not> d_isDirectory entry \<or> \<not> fs_access fs (skillMdOf folder ?d) \<or>
                    (fs_readFile fs (skillMdOf folder ?d) \<noteq> None \<and> \<not> frontmatterOk h fs folder ?d)"
    | (rejected) "d_isDirectory entry" "entryRejected h fs folder ?d"
    | (skill) "d_isDirectory entry" "fs_access fs (skillMdOf folder ?d)"
        "frontmatterOk h fs folder ?d" "fs_readdir fs (pathJoin [folder, ?d]) \<noteq> None"
    unfolding entryRejected_def
    by (cases "fs_readFile fs (skillMdOf folder ?d) = None";
        cases "fs_readdir fs (pathJoin [folder, ?d]) = None"; blast)
  then show ?case
  proof cases
    case skip
    then have "\<not> (d_isDirectory entry \<and> entryRejected h fs folder ?d)"
      unfolding entryRejected_def frontmatterOk_def by (auto split: option.splits)
    with loadEntries_Cons_skip[OF skip] Cons.IH show ?thesis by auto
  next
    case rejected
    with loadEntries_Cons_rejected[OF rejected] show ?thesis by auto
  next
    case skill
    then have "\<not> entryRejected h fs folder ?d"
      unfolding entryRejected_def frontmatterOk_def by (auto split: option.splits)
    with loadEntries_Cons_skill[OF skill, of entries] Cons.IH show ?thesis
      by (auto split: option.splits)
  qed
qed

lemma loadEntries_names:
  "loadEntries h fs folder entries = Some skills \<Longrightarrow>
   map sk_name skills =
     map d_name (filter (\<lambda>e. d_isDirectory e \<and> fs_access fs (skillMdOf folder (d_name e)) \<and>
                                frontmatterOk h fs folder (d_name e)) entries)"
proof (induction entries arbitrary: skills)
  case Nil
  then show ?case by simp
next
  case (Cons entry entries)
  let ?d = "d_name entry"
  have nr: "\<not> (d_isDirectory entry \<and> entryRejected h fs folder ?d)"
    using Cons.prems loadEntries_rejected[of h fs folder "entry # entries"] by auto
  consider (skip) "\<not> d_isDirectory entry \<or> \<not> fs_access fs (skillMdOf folder ?d) \<or>
                    (fs_readFile fs (skillMdOf folder ?d) \<noteq> None \<and> \<not> frontmatterOk h fs folder ?d)"
    | (skill) "d_isDirectory entry" "fs_access fs (skillMdOf folder ?d)"
        "frontmatterOk h fs folder ?d" "fs_readdir fs (pathJoin [folder, ?d]) \<noteq> None"
    using nr unfolding entryRejected_def
    by (cases "fs_readFile fs (skillMdOf folder ?d) = None";
        cases "fs_readdir fs (pathJoin [folder, ?d]) = None"; blast)
  then show ?case
  proof cases
    case skip
    then have "\<not> (d_isDirectory entry \<and> fs_access fs (skillMdOf folder ?d) \<and> frontmatterOk h fs folder ?d)"
      unfolding frontmatterOk_def by (auto split: option.splits)
    with loadEntries_Cons_skip[OF skip] Cons.prems Cons.IH show ?thesis by auto
  next
    case skill
    from loadEntries_Cons_skill[OF skill, of entries] Cons.prems
    obtain skill' rest where "loadEntries h fs folder entries = Some rest"
        and "sk_name skill' = ?d" and "skills = skill' # rest"
      by (auto split: option.splits)
    with Cons.IH skill show ?thesis by auto
  qed
qed


lemma holdsSkill_listed:
  assumes "fs_access fs folder" and "fs_readdirWithFileTypes fs folder = Some listed"
  shows "holdsSkill h fs folder d =
           (d \<in> d_name ` {e \<in> set listed. d_isDirectory e \<and> fs_access fs (skillMdOf folder (d_name e)) \<and>
                                          frontmatterOk h fs folder (d_name e)})"
  using assms
  by (auto simp add: holdsSkill_def listedDirectories_def)

lemma loadFolders_Cons:
  "loadFolders h fs (folder # folders) =
     (if \<not> fs_access fs folder then loadFolders h fs folders
      else case fs_readdirWithFileTypes fs folder of
             None \<Rightarrow> None
           | Some listed \<Rightarrow>
               (case loadEntries h fs folder listed of
                  None \<Rightarrow> None
                | Some skills \<Rightarrow> map_option ((@) skills) (loadFolders h fs folders)))"
  by (simp split: option.splits)


lemma loadFolders_names:
  "loadFolders h fs paths = Some skills \<Longrightarrow>
   sk_name ` set skills = {d. \<exists>folder \<in> set paths. holdsSkill h fs folder d}"
proof (induction paths arbitrary: skills)
  case Nil
  then show ?case by simp
next
  case (Cons folder folders)
  show ?case
  proof (cases "fs_access fs folder")
    case False
    then have no: "\<And>d. \<not> holdsSkill h fs folder d" by (simp add: holdsSkill_def)
    from False Cons.prems have "loadFolders h fs folders = Some skills"
      by (simp only: loadFolders_Cons) simp
    from Cons.IH[OF this] no show ?thesis by auto
  next
    case True
    from True Cons.prems obtain listed found others
      where listed: "fs_readdirWithFileTypes fs folder = Some listed"
        and found: "loadEntries h fs folder listed = Some found"
        and others: "loadFolders h fs folders = Some others"
        and skills: "skills = found @ others"
      by (simp only: loadFolders_Cons) (auto split: option.splits)
    have "sk_name ` set found = set (map sk_name found)" by simp
    also have "\<dots> = d_name ` {e \<in> set listed. d_isDirectory e \<and>
                          fs_access fs (skillMdOf folder (d_name e)) \<and> frontmatterOk h fs folder (d_name e)}"
      unfolding loadEntries_names[OF found] by auto
    finally have here: "sk_name ` set found = {d. holdsSkill h fs folder d}"
      using holdsSkill_listed[OF True listed, of h] by auto
    from Cons.IH[OF others] here skills show ?thesis by auto
  qed
qed

lemma loadFolders_nonempty_names:
  "loadFolders h fs paths = Some skills \<Longrightarrow> \<forall>s \<in> set skills. sk_name s \<noteq> []"
proof -
  assume a: "loadFolders h fs paths = Some skills"
  have "d \<noteq> []" if "holdsSkill h fs folder d" for folder d
  proof -
    from that have "d \<in> set (listedDirectories fs folder)" by (simp add: holdsSkill_def)
    then obtain listed where "fs_readdirWithFileTypes fs folder = Some listed"
        and "d \<in> d_name ` set listed"
      by (cases "fs_readdirWithFileTypes fs folder") (auto simp add: listedDirectories_def)
    with fs_readdirWithFileTypes_names show ?thesis by auto
  qed
  with loadFolders_names[OF a] show ?thesis by blast
qed

section \<open>The SKILL.md format\<close>

lemma occursAt_Nil: "pat \<noteq> [] \<Longrightarrow> \<not> occursAt [] pat i"
  by (simp add: occursAt_def)

lemma occursAt_Cons_0: "occursAt (c # cs) pat 0 = (take (length pat) (c # cs) = pat)"
proof
  assume "occursAt (c # cs) pat 0"
  then show "take (length pat) (c # cs) = pat" by (simp add: occursAt_def)
next
  assume a: "take (length pat) (c # cs) = pat"
  have "length (take (length pat) (c # cs)) \<le> length (c # cs)" by simp
  then have "length pat \<le> length (c # cs)" using a by simp
  then show "occursAt (c # cs) pat 0" using a by (simp add: occursAt_def)
qed

lemma occursAt_Cons_Suc: "occursAt (c # cs) pat (Suc j) = occursAt cs pat j"
  by (simp add: occursAt_def)

lemma occursAt_drop: "k \<le> length s \<Longrightarrow> occursAt (drop k s) pat j = occursAt s pat (k + j)"
proof -
  assume k: "k \<le> length s"
  have "drop j (drop k s) = drop (k + j) s" by (simp add: add.commute)
  moreover have "(j + length pat \<le> length s - k) = (k + j + length pat \<le> length s)"
    using k by linarith
  ultimately show ?thesis by (simp add: occursAt_def)
qed

lemma indexOf_scan_first:
  assumes "pat \<noteq> []"
  shows "(indexOf_scan pat s i = Some k) =
         (i \<le> k \<and> occursAt s pat (k - i) \<and> (\<forall>j < k - i. \<not> occursAt s pat j))"
  using assms
proof (induction s arbitrary: i)
  case Nil
  then show ?case by (simp add: occursAt_Nil)
next
  case (Cons c cs)
  show ?case
  proof (cases "take (length pat) (c # cs) = pat")
    case True
    then have here: "occursAt (c # cs) pat 0" by (simp add: occursAt_Cons_0)
    have "(i \<le> k \<and> occursAt (c # cs) pat (k - i) \<and> (\<forall>j < k - i. \<not> occursAt (c # cs) pat j)) = (k = i)"
      using here by (cases "k - i") auto
    then show ?thesis using True by auto
  next
    case False
    then have nothere: "\<not> occursAt (c # cs) pat 0" by (simp add: occursAt_Cons_0)
    have step: "(indexOf_scan pat cs (Suc i) = Some k) =
            (Suc i \<le> k \<and> occursAt cs pat (k - Suc i) \<and> (\<forall>j < k - Suc i. \<not> occursAt cs pat j))"
      using Cons by simp
    have "(Suc i \<le> k \<and> occursAt cs pat (k - Suc i) \<and> (\<forall>j < k - Suc i. \<not> occursAt cs pat j)) =
          (i \<le> k \<and> occursAt (c # cs) pat (k - i) \<and> (\<forall>j < k - i. \<not> occursAt (c # cs) pat j))"
    proof (cases "k - i")
      case 0
      then show ?thesis using nothere by auto
    next
      case (Suc m)
      then have ki: "k - Suc i = m" "i \<le> k" "Suc i \<le> k" by auto
      have "(\<forall>j < Suc m. \<not> occursAt (c # cs) pat j) = (\<forall>j < m. \<not> occursAt cs pat j)"
      proof
        assume a: "\<forall>j < Suc m. \<not> occursAt (c # cs) pat j"
        show "\<forall>j < m. \<not> occursAt cs pat j"
        proof (intro allI impI)
          fix j assume "j < m"
          then have "\<not> occursAt (c # cs) pat (Suc j)" using a by simp
          then show "\<not> occursAt cs pat j" by (simp add: occursAt_Cons_Suc)
        qed
      next
        assume a: "\<forall>j < m. \<not> occursAt cs pat j"
        show "\<forall>j < Suc m. \<not> occursAt (c # cs) pat j"
        proof (intro allI impI)
          fix j assume j: "j < Suc m"
          show "\<not> occursAt (c # cs) pat j"
          proof (cases j)
            case 0
            then show ?thesis using nothere by simp
          next
            case (Suc j')
            then show ?thesis using a j by (simp add: occursAt_Cons_Suc)
          qed
        qed
      qed
      then show ?thesis using Suc ki by (simp add: occursAt_Cons_Suc)
    qed
    then show ?thesis using False step by simp
  qed
qed

lemma occursAt_length: "occursAt s pat i \<Longrightarrow> i + length pat \<le> length s"
  by (simp add: occursAt_def)

lemma indexOf_first:
  assumes "pat \<noteq> []"
  shows "(indexOf s pat from = Some i) = firstOccurrenceFrom s pat from i"
proof (cases "from \<le> length s")
  case True
  then have k: "min from (length s) = from" by simp
  have "(indexOf s pat from = Some i) =
        (from \<le> i \<and> occursAt (drop from s) pat (i - from) \<and> (\<forall>j < i - from. \<not> occursAt (drop from s) pat j))"
    using indexOf_scan_first[OF assms] by (simp add: indexOf_def k)
  also have "\<dots> = (from \<le> i \<and> occursAt s pat i \<and> (\<forall>j < i - from. \<not> occursAt s pat (from + j)))"
    using True by (auto simp add: occursAt_drop)
  also have "\<dots> = firstOccurrenceFrom s pat from i"
    unfolding firstOccurrenceFrom_def
  proof (intro conj_cong refl iffI allI impI)
    fix j assume a: "\<forall>j < i - from. \<not> occursAt s pat (from + j)" and j: "from \<le> j \<and> j < i"
    then have "j - from < i - from" by auto
    then have "\<not> occursAt s pat (from + (j - from))" using a by blast
    then show "\<not> occursAt s pat j" using j by simp
  next
    fix j assume a: "\<forall>j. from \<le> j \<and> j < i \<longrightarrow> \<not> occursAt s pat j" and j: "j < i - from"
    then show "\<not> occursAt s pat (from + j)" by auto
  qed
  finally show ?thesis .
next
  case False
  then have k: "min from (length s) = length s" by simp
  have none: "indexOf s pat from = None"
    using assms by (simp add: indexOf_def k)
  have "\<not> occursAt s pat i" if "from \<le> i"
    using that False assms occursAt_length[of s pat i] by (cases pat) auto
  then show ?thesis using none by (auto simp add: firstOccurrenceFrom_def)
qed

lemma indexOf_None:
  assumes "pat \<noteq> []" and "indexOf s pat 0 = None"
  shows "\<forall>i. \<not> occursAt s pat i"
proof (rule ccontr)
  assume "\<not> (\<forall>i. \<not> occursAt s pat i)"
  then obtain i where i: "occursAt s pat i" by blast
  define j where "j = (LEAST j. occursAt s pat j)"
  have here: "occursAt s pat j" unfolding j_def using i by (rule LeastI)
  have before: "\<not> occursAt s pat k" if "k < j" for k
    using that unfolding j_def by (rule not_less_Least)
  have "firstOccurrenceFrom s pat 0 j"
    unfolding firstOccurrenceFrom_def using here before by blast
  then have "indexOf s pat 0 = Some j" by (simp only: indexOf_first[OF assms(1)])
  then show False using assms(2) by simp
qed

text \<open>
  Claim C2, as amended. For every \<open>YAML.parse\<close> and every text \<open>s\<close>,
  \<open>parseSkillMarkdown\<close> returns the result \<open>r\<close> if and only if \<open>s\<close> starts with
  \<open>---\<close>, the pattern \<open>---\<close> occurs again at a position \<open>i \<ge> 3\<close> (the first such
  position), the text strictly between the two delimiters, with surrounding white space
  trimmed, parses as a mapping whose \<open>name\<close> and \<open>description\<close> are strings, and \<open>r\<close>
  holds exactly those two strings and, as body, the text after the second delimiter with
  surrounding white space trimmed. In every other case the result is \<open>null\<close> (\<open>None\<close>).
\<close>

theorem parseSkillMarkdown_result:
  "(parseSkillMarkdown Y s = Some r) =
   (startsWith s ''---'' \<and>
    (\<exists>i props n d.
        firstOccurrenceFrom s ''---'' 3 i \<and>
        Y (trim (substring s 3 i)) = Some (JObj props) \<and>
        getProp props ''name'' = Some (JStr n) \<and>
        getProp props ''description'' = Some (JStr d) \<and>
        r = \<lparr>p_metadata = \<lparr>fm_name = n, fm_description = d\<rparr>,
             p_content = trim (substringFrom s (i + 3))\<rparr>))"
proof (cases "startsWith s ''---''")
  case False
  then show ?thesis by (simp add: parseSkillMarkdown_def)
next
  case True
  have ne: "''---'' \<noteq> []" by simp
  show ?thesis
  proof (cases "indexOf s ''---'' 3")
    case None
    then have "\<not> firstOccurrenceFrom s ''---'' 3 i" for i
      using indexOf_first[OF ne, of s 3 i] by simp
    then show ?thesis using True None by (simp add: parseSkillMarkdown_def)
  next
    case (Some e)
    have uniq: "firstOccurrenceFrom s ''---'' 3 i = (i = e)" for i
      using indexOf_first[OF ne, of s 3 i] Some by auto
    show ?thesis
    proof (cases "Y (trim (substring s 3 e))")
      case None
      then show ?thesis using True Some uniq by (simp add: parseSkillMarkdown_def)
    next
      case (Some parsed)
      note y = this
      show ?thesis
      proof (cases parsed)
        case (JObj props)
        show ?thesis
          using True \<open>indexOf s ''---'' 3 = Some e\<close> y JObj uniq
          by (auto simp add: parseSkillMarkdown_def isObjectValue_def recordGet_def
                split: option.splits jsvalue.splits)
      qed (use True \<open>indexOf s ''---'' 3 = Some e\<close> y uniq in
            \<open>auto simp add: parseSkillMarkdown_def isObjectValue_def recordGet_def\<close>)
    qed
  qed
qed

theorem parseSkillMarkdown_result_witness:
  "startsWith ''---\<newline>name: a\<newline>description: b\<newline>---\<newline>body\<newline>'' ''---'' \<and>
   indexOf ''---\<newline>name: a\<newline>description: b\<newline>---\<newline>body\<newline>'' ''---'' 3 = Some 27 \<and>
   yamlPlainParse (trim (substring ''---\<newline>name: a\<newline>description: b\<newline>---\<newline>body\<newline>'' 3 27))
     = Some (JObj [(''name'', JStr ''a''), (''description'', JStr ''b'')]) \<and>
   parseSkillMarkdown yamlPlainParse ''---\<newline>name: a\<newline>description: b\<newline>---\<newline>body\<newline>''
     = Some \<lparr>p_metadata = \<lparr>fm_name = ''a'', fm_description = ''b''\<rparr>, p_content = ''body''\<rparr>"
proof -
  let ?s = "''---\<newline>name: a\<newline>description: b\<newline>---\<newline>body\<newline>''"
  have a: "startsWith ?s ''---''" by code_simp
  have b: "indexOf ?s ''---'' 3 = Some 27" by code_simp
  have c: "yamlPlainParse (trim (substring ?s 3 27))
             = Some (JObj [(''name'', JStr ''a''), (''description'', JStr ''b'')])"
    by code_simp
  have d: "firstOccurrenceFrom ?s ''---'' 3 27"
    using indexOf_first[of "''---''" ?s 3 27] b by simp
  have e: "getProp [(''name'', JStr ''a''), (''description'', JStr ''b'')] ''name'' = Some (JStr ''a'')"
    by code_simp
  have f: "getProp [(''name'', JStr ''a''), (''description'', JStr ''b'')] ''description'' = Some (JStr ''b'')"
    by code_simp
  have g: "trim (substringFrom ?s (27 + 3)) = ''body''" by code_simp
  have "parseSkillMarkdown yamlPlainParse ?s
          = Some \<lparr>p_metadata = \<lparr>fm_name = ''a'', fm_description = ''b''\<rparr>, p_content = ''body''\<rparr>"
    unfolding parseSkillMarkdown_result
    by (intro conjI exI[of _ 27] exI[of _ "[(''name'', JStr ''a''), (''description'', JStr ''b'')]"]
          exI[of _ "''a''"] exI[of _ "''b''"])
       (simp_all only: a c d e f g)
  then show ?thesis using a b c by blast
qed

text \<open>
  Claim C2 as stated speaks of the text strictly between the delimiters; the source
  trims that text before it is parsed. In the text below the first entry is indented by
  one space and the second is not: the text between the delimiters is one that
  \<open>YAML.parse\<close> throws on, yet \<open>parseSkillMarkdown\<close> returns a result, because the
  trimmed text is a mapping.
\<close>

theorem parseSkillMarkdown_trims_frontmatter:
  "indexOf ''--- name: a\<newline>description: b\<newline>---'' ''---'' 3 = Some 27 \<and>
   substring ''--- name: a\<newline>description: b\<newline>---'' 3 27 = '' name: a\<newline>description: b\<newline>'' \<and>
   yamlPlain '' name: a\<newline>description: b\<newline>'' = YThrows \<and>
   yamlPlainParse '' name: a\<newline>description: b\<newline>'' = None \<and>
   yamlPlain ''name: a\<newline>description: b'' = YValue (JObj [(''name'', JStr ''a''), (''description'', JStr ''b'')]) \<and>
   parseSkillMarkdown yamlPlainParse ''--- name: a\<newline>description: b\<newline>---''
     = Some \<lparr>p_metadata = \<lparr>fm_name = ''a'', fm_description = ''b''\<rparr>, p_content = []\<rparr>"
  by code_simp

section \<open>Writing a skill file and reading it back\<close>

text \<open>
  Claim C3, the skill file of a name with three hyphens is not read back. The name
  \<open>a---b\<close> passes the name test of the create tool; the description \<open>d\<close> and the
  content \<open>c\<close> are non-empty and free of \<open>---\<close>. \<open>createSkill\<close> succeeds and writes
  the file below, whose front matter holds the name. In \<open>parseSkillMarkdown\<close> the scan
  for the closing delimiter stops inside the name, at position 11; the front matter
  handed to \<open>YAML.parse\<close> is \<open>name: a\<close>, a mapping without a description, and the
  result is \<open>null\<close>. So the round trip of the claim fails for this name, and the skill
  that was created is not among those that \<open>getAllSkills\<close> loads.
\<close>

theorem createSkill_name_with_delimiter:
  "(let h = plainHost None;
        w0 = \<lparr>storage = (\<lambda>k. None),
              files = \<lparr>fs_cwd = ''/'', fs_nodes = [(''/home'', Dir), (''/home/u'', Dir)]\<rparr>\<rparr>;
        r = createSkill h ''a---b'' ''d'' ''c'' None w0;
        text = ''---\<newline>name: a---b\<newline>description: d\<newline>---\<newline>\<newline>c''
    in matchesSkillName ''a---b'' \<and>
       indexOf ''d'' ''---'' 0 = None \<and> indexOf ''c'' ''---'' 0 = None \<and>
       yamlPlainStringify ''a---b'' (Some ''d'') = Some ''name: a---b\<newline>description: d\<newline>'' \<and>
       map_sum id sk_skillMdPath (snd r) = Inr ''/home/u/.claude/skills/a---b/SKILL.md'' \<and>
       fs_readFile (files (fst r)) ''/home/u/.claude/skills/a---b/SKILL.md'' = Some text \<and>
       indexOf text ''---'' 3 = Some 11 \<and>
       trim (substring text 3 11) = ''name: a'' \<and>
       yamlPlain ''name: a'' = YValue (JObj [(''name'', JStr ''a'')]) \<and>
       parseSkillMarkdown (YAML_parse h) text = None \<and>
       getAllSkills h (storage (fst r)) (files (fst r)) = Inr [] \<and>
       findSkill h (storage (fst r)) (files (fst r)) ''a---b'' = Inr None)"
proof -
  let ?h = "plainHost None"
  let ?w = "\<lparr>storage = (\<lambda>k. None),
             files = \<lparr>fs_cwd = ''/'', fs_nodes = [(''/home'', Dir), (''/home/u'', Dir)]\<rparr>\<rparr>"
  let ?run = "createSkill ?h ''a---b'' ''d'' ''c'' None ?w"
  let ?text = "''---\<newline>name: a---b\<newline>description: d\<newline>---\<newline>\<newline>c''"
  have c1: "matchesSkillName ''a---b''" by code_simp
  have c2: "indexOf ''d'' ''---'' 0 = None" by code_simp
  have c3: "indexOf ''c'' ''---'' 0 = None" by code_simp
  have c4: "yamlPlainStringify ''a---b'' (Some ''d'') = Some ''name: a---b\<newline>description: d\<newline>''"
    by code_simp
  have c5: "map_sum id sk_skillMdPath (snd ?run) = Inr ''/home/u/.claude/skills/a---b/SKILL.md''"
    by code_simp
  have c6: "fs_readFile (files (fst ?run)) ''/home/u/.claude/skills/a---b/SKILL.md'' = Some ?text"
    by code_simp
  have c7: "indexOf ?text ''---'' 3 = Some 11" by code_simp
  have c8: "trim (substring ?text 3 11) = ''name: a''" by code_simp
  have c9: "yamlPlain ''name: a'' = YValue (JObj [(''name'', JStr ''a'')])" by code_simp
  have c10: "parseSkillMarkdown (YAML_parse ?h) ?text = None" by code_simp
  have c11: "getAllSkills ?h (storage (fst ?run)) (files (fst ?run)) = Inr []" by code_simp
  have c12: "findSkill ?h (storage (fst ?run)) (files (fst ?run)) ''a---b'' = Inr None" by code_simp
  show ?thesis
    unfolding Let_def using c1 c2 c3 c4 c5 c6 c7 c8 c9 c10 c11 c12 by (intro conjI)
qed

section \<open>The use-skills tool\<close>

lemma loadEntries_metadata:
  "loadEntries h fs folder entries = Some skills \<Longrightarrow>
   \<forall>s \<in> set skills. fm_name (sk_metadata s) \<noteq> [] \<and> fm_description (sk_metadata s) \<noteq> []"
proof (induction entries arbitrary: skills)
  case Nil
  then show ?case by simp
next
  case (Cons entry entries)
  show ?case
    using Cons.prems Cons.IH
    by (auto simp add: Let_def split: if_splits option.splits)
qed

lemma loadFolders_metadata:
  "loadFolders h fs folders = Some skills \<Longrightarrow>
   \<forall>s \<in> set skills. fm_name (sk_metadata s) \<noteq> [] \<and> fm_description (sk_metadata s) \<noteq> []"
proof (induction folders arbitrary: skills)
  case Nil
  then show ?case by simp
next
  case (Cons folder folders)
  show ?case
    using Cons.prems Cons.IH loadEntries_metadata
    by (fastforce split: if_splits option.splits)
qed

text \<open>Every skill that \<open>getAllSkills\<close> returns has a non-empty name and description in
  its metadata; so has every enabled skill object.\<close>

lemma getAllSkills_metadata:
  "getAllSkills h st fs = Inr skills \<Longrightarrow>
   \<forall>s \<in> set skills. fm_name (sk_metadata s) \<noteq> [] \<and> fm_description (sk_metadata s) \<noteq> []"
  using loadFolders_metadata
  by (fastforce simp add: getAllSkills_def split: sum.splits option.splits)

lemma getEnabledSkillObjects_metadata:
  "getEnabledSkillObjects h st fs = Inr skills \<Longrightarrow>
   \<forall>s \<in> set skills. fm_name (sk_metadata s) \<noteq> [] \<and> fm_description (sk_metadata s) \<noteq> []"
  using getAllSkills_metadata
  by (fastforce simp add: getEnabledSkillObjects_def split: sum.splits)

lemma example_routing_model: "getRoutingModel (storage exampleWorld) = Some ''OpenAI_GPT4o-mini''"
  by code_simp

lemma getEnabledSkillObjects_names:
  "getEnabledSkillObjects h st fs = Inr skills \<Longrightarrow> \<forall>s \<in> set skills. sk_name s \<noteq> []"
  using loadFolders_nonempty_names
  by (fastforce simp add: getEnabledSkillObjects_def getAllSkills_def split: sum.splits option.splits)

lemma occursAt_middle: "occursAt (u @ pat @ v) pat (length u)"
  by (simp add: occursAt_def)

lemma join_nth:
  "i < length xs \<Longrightarrow> \<exists>u v. join sep xs = u @ xs ! i @ v"
proof (induction xs arbitrary: i)
  case Nil
  then show ?case by simp
next
  case (Cons x xs)
  show ?case
  proof (cases xs)
    case Nil
    with Cons.prems have "join sep (x # xs) = [] @ (x # xs) ! i @ []" by simp
    then show ?thesis by blast
  next
    case (Cons y ys)
    then have j: "join sep (x # xs) = x @ sep @ join sep xs" by simp
    show ?thesis
    proof (cases i)
      case 0
      with j have "join sep (x # xs) = [] @ (x # xs) ! i @ (sep @ join sep xs)" by simp
      then show ?thesis by blast
    next
      case (Suc k)
      with Cons.prems have "k < length xs" by simp
      from Cons.IH[OF this] obtain u v where "join sep xs = u @ xs ! k @ v" by blast
      with j Suc have "join sep (x # xs) = (x @ sep @ u) @ (x # xs) ! i @ v" by simp
      then show ?thesis by blast
    qed
  qed
qed

lemma occursAt_in_join:
  assumes "i < length xs"
  shows "\<exists>j. occursAt (a @ join sep xs @ b) (xs ! i) j"
proof -
  from join_nth[OF assms] obtain u v where "join sep xs = u @ xs ! i @ v" by blast
  then have "a @ join sep xs @ b = (a @ u) @ xs ! i @ (v @ b)" by simp
  then show ?thesis using occursAt_middle[of "a @ u" "xs ! i" "v @ b"] by metis
qed

lemma nth_enumerate_line:
  "i < length xs \<Longrightarrow> map (\<lambda>(k, x). f k x) (enumerate 0 xs) ! i = f i (xs ! i)"
  by (simp add: nth_enumerate_eq)

text \<open>
  Claim C1. Let a routing model be configured, let the list of enabled skills be
  non-empty, and let the model service answer the prompt with the reply \<open>r\<close>. Let \<open>x\<close>
  be \<open>r\<close> trimmed and without one quote character at its start and one at its end. If
  \<open>x\<close> in upper case is \<open>NONE\<close>, or no enabled skill has \<open>x\<close> as its directory name or
  metadata name, the tool returns the no-match message: the heading and the guidance, the
  enabled skills as numbered lines \<open>k. **name** - description\<close> in their order, joined
  by line breaks, and the closing sentence; the line of every enabled skill occurs in
  it. Otherwise the tool returns the formatted instructions of the first enabled skill
  whose directory name or metadata name is \<open>x\<close>: the heading with its metadata name, its
  description, and its content under the heading \<open>Instructions\<close>.
\<close>

theorem useSkills_tool_selects:
  assumes "getRoutingModel st = Some m"
    and "getEnabledSkillObjects h st fs = Inr skills"
    and "skills \<noteq> []"
    and "AI_ask h (routingPrompt skills request) m = Some r"
  shows "(let x = stripQuotes (trim r);
              matching = find (\<lambda>s. sk_name s = x \<or> fm_name (sk_metadata s) = x) skills;
              line = (\<lambda>k s. showNat (k + 1) @ ''. **'' @ fm_name (sk_metadata s) @ ''** - '' @
                               fm_description (sk_metadata s));
              noMatch =
                ''# General Response Required\<newline>\<newline>'' @
                ''No enabled skill matches this request. Use your general capabilities to help the user.'' @
                ''\<newline>\<newline>Do NOT use any of the following skills:\<newline>'' @
                join ''\<newline>'' (map (\<lambda>(k, s). line k s) (enumerate 0 skills)) @
                ''\<newline>\<newline>If the user explicitly mentions a skill name, inform them it'' @ [CHR 0x27] @
                ''s not available.''
          in (\<forall>k < length skills. \<exists>j. occursAt noMatch (line k (skills ! k)) j) \<and>
             (if toUpperCase x = ''NONE'' \<or> matching = None
              then fst (useSkills_tool h st fs request) = Inr noMatch
              else fst (useSkills_tool h st fs request) =
                     Inr (''# Skill: '' @ fm_name (sk_metadata (the matching)) @ ''\<newline>\<newline>'' @
                          fm_description (sk_metadata (the matching)) @
                          ''\<newline>\<newline>## Instructions\<newline>\<newline>'' @ sk_content (the matching))))"
proof -
  let ?x = "stripQuotes (trim r)"
  let ?P = "\<lambda>s. sk_name s = ?x \<or> fm_name (sk_metadata s) = ?x"
  let ?line = "\<lambda>k s. showNat (k + 1) @ ''. **'' @ fm_name (sk_metadata s) @ ''** - '' @
                       fm_description (sk_metadata s)"
  let ?lines = "map (\<lambda>(k, s). ?line k s) (enumerate 0 skills)"
  let ?before = "''# General Response Required\<newline>\<newline>'' @
                ''No enabled skill matches this request. Use your general capabilities to help the user.'' @
                ''\<newline>\<newline>Do NOT use any of the following skills:\<newline>''"
  let ?after = "''\<newline>\<newline>If the user explicitly mentions a skill name, inform them it'' @ [CHR 0x27] @
                ''s not available.''"
  let ?noMatch = "''# General Response Required\<newline>\<newline>'' @
                ''No enabled skill matches this request. Use your general capabilities to help the user.'' @
                ''\<newline>\<newline>Do NOT use any of the following skills:\<newline>'' @
                join ''\<newline>'' ?lines @
                ''\<newline>\<newline>If the user explicitly mentions a skill name, inform them it'' @ [CHR 0x27] @
                ''s not available.''"
  have flat: "?before @ join ''\<newline>'' ?lines @ ?after = ?noMatch"
    by (simp only: append_assoc)
  have msg: "formatNoMatchMessage skills = ?noMatch"
    by (simp add: formatNoMatchMessage_def noMatchBeforeSkills_def noMatchAfterSkills_def Let_def)
  have occurs: "\<forall>k < length skills. \<exists>j. occursAt ?noMatch (?line k (skills ! k)) j"
  proof (intro allI impI)
    fix k assume k: "k < length skills"
    then have "k < length ?lines" by simp
    from occursAt_in_join[OF this, of ?before "''\<newline>''" ?after]
    show "\<exists>j. occursAt ?noMatch (?line k (skills ! k)) j"
      using k by (simp only: nth_enumerate_line flat)
  qed
  have names: "\<forall>s \<in> set skills. sk_name s \<noteq> [] \<and> fm_name (sk_metadata s) \<noteq> []"
    using getEnabledSkillObjects_names[OF assms(2)] getEnabledSkillObjects_metadata[OF assms(2)] by blast
  have empty: "find ?P skills = None" if "?x = []"
    using names that by (auto simp add: find_None_iff)
  have fmt: "formatSkillResponse s =
               ''# Skill: '' @ fm_name (sk_metadata s) @ ''\<newline>\<newline>'' @
               fm_description (sk_metadata s) @
               ''\<newline>\<newline>## Instructions\<newline>\<newline>'' @ sk_content s" for s
    by (simp add: formatSkillResponse_def)
  have core: "if toUpperCase ?x = ''NONE'' \<or> find ?P skills = None
              then fst (useSkills_tool h st fs request) = Inr (formatNoMatchMessage skills)
              else fst (useSkills_tool h st fs request) = Inr (formatSkillResponse (the (find ?P skills)))"
  proof (cases "toUpperCase ?x = ''NONE''")
    case True
    then show ?thesis
      using assms by (simp add: useSkills_tool_def selectSkillWithAI_def Let_def)
  next
    case False
    show ?thesis
    proof (cases "find ?P skills")
      case None
      then show ?thesis
        using assms False by (simp add: useSkills_tool_def selectSkillWithAI_def Let_def)
    next
      case (Some s)
      then have "?x \<noteq> []" using empty by auto
      then show ?thesis
        using assms False Some by (simp add: useSkills_tool_def selectSkillWithAI_def Let_def)
    qed
  qed
  have result: "if toUpperCase ?x = ''NONE'' \<or> find ?P skills = None
                then fst (useSkills_tool h st fs request) = Inr ?noMatch
                else fst (useSkills_tool h st fs request) =
                       Inr (''# Skill: '' @ fm_name (sk_metadata (the (find ?P skills))) @ ''\<newline>\<newline>'' @
                            fm_description (sk_metadata (the (find ?P skills))) @
                            ''\<newline>\<newline>## Instructions\<newline>\<newline>'' @ sk_content (the (find ?P skills)))"
    using core unfolding msg fmt .
  show ?thesis
    unfolding Let_def by (rule conjI[OF occurs result])
qed

theorem useSkills_tool_selects_witness:
  "getRoutingModel (storage exampleWorld) = Some ''OpenAI_GPT4o-mini'' \<and>
   getEnabledSkillObjects (plainHost (Some '' \"beta\"\<newline>'')) (storage exampleWorld) (files exampleWorld)
     = Inr exampleSkills \<and>
   stripQuotes (trim '' \"beta\"\<newline>'') = ''beta'' \<and>
   fst (useSkills_tool (plainHost (Some '' \"beta\"\<newline>'')) (storage exampleWorld) (files exampleWorld) ''write'')
     = Inr ''# Skill: beta\<newline>\<newline>second\<newline>\<newline>## Instructions\<newline>\<newline>two'' \<and>
   fst (useSkills_tool (plainHost (Some ''none'')) (storage exampleWorld) (files exampleWorld) ''write'')
     = Inr (''# General Response Required\<newline>\<newline>'' @
            ''No enabled skill matches this request. Use your general capabilities to help the user.'' @
            ''\<newline>\<newline>Do NOT use any of the following skills:\<newline>'' @
            ''1. **alpha** - first\<newline>2. **beta** - second'' @
            ''\<newline>\<newline>If the user explicitly mentions a skill name, inform them it'' @ [CHR 0x27] @
            ''s not available.'') \<and>
   fst (useSkills_tool (plainHost (Some ''gamma'')) (storage exampleWorld) (files exampleWorld) ''write'')
     = Inr (''# General Response Required\<newline>\<newline>'' @
            ''No enabled skill matches this request. Use your general capabilities to help the user.'' @
            ''\<newline>\<newline>Do NOT use any of the following skills:\<newline>'' @
            ''1. **alpha** - first\<newline>2. **beta** - second'' @
            ''\<newline>\<newline>If the user explicitly mentions a skill name, inform them it'' @ [CHR 0x27] @
            ''s not available.'') \<and>
   (\<exists>j. occursAt
          (''# General Response Required\<newline>\<newline>'' @
           ''No enabled skill matches this request. Use your general capabilities to help the user.'' @
           ''\<newline>\<newline>Do NOT use any of the following skills:\<newline>'' @
           ''1. **alpha** - first\<newline>2. **beta** - second'' @
           ''\<newline>\<newline>If the user explicitly mentions a skill name, inform them it'' @ [CHR 0x27] @
           ''s not available.'')
          ''2. **beta** - second'' j)"
proof -
  let ?st = "storage exampleWorld" and ?fs = "files exampleWorld"
  let ?line = "\<lambda>k s. showNat (k + 1) @ ''. **'' @ fm_name (sk_metadata s) @ ''** - '' @
                       fm_description (sk_metadata s)"
  let ?noMatch = "''# General Response Required\<newline>\<newline>'' @
            ''No enabled skill matches this request. Use your general capabilities to help the user.'' @
            ''\<newline>\<newline>Do NOT use any of the following skills:\<newline>'' @
            join ''\<newline>'' (map (\<lambda>(k, s). ?line k s) (enumerate 0 exampleSkills)) @
            ''\<newline>\<newline>If the user explicitly mentions a skill name, inform them it'' @ [CHR 0x27] @
            ''s not available.''"
  let ?text = "''# General Response Required\<newline>\<newline>'' @
            ''No enabled skill matches this request. Use your general capabilities to help the user.'' @
            ''\<newline>\<newline>Do NOT use any of the following skills:\<newline>'' @
            ''1. **alpha** - first\<newline>2. **beta** - second'' @
            ''\<newline>\<newline>If the user explicitly mentions a skill name, inform them it'' @ [CHR 0x27] @
            ''s not available.''"
  have ne: "exampleSkills \<noteq> []" by (simp add: exampleSkills_def)
  have ask: "AI_ask (plainHost (Some reply)) (routingPrompt exampleSkills ''write'') ''OpenAI_GPT4o-mini'' = Some reply"
    for reply by (simp add: plainHost_def)
  have e1: "getEnabledSkillObjects (plainHost (Some '' \"beta\"\<newline>'')) ?st ?fs = Inr exampleSkills"
    by code_simp
  have e2: "getEnabledSkillObjects (plainHost (Some ''none'')) ?st ?fs = Inr exampleSkills"
    by code_simp
  have e3: "getEnabledSkillObjects (plainHost (Some ''gamma'')) ?st ?fs = Inr exampleSkills"
    by code_simp
  note t1 = useSkills_tool_selects[OF example_routing_model e1 ne ask, unfolded Let_def]
  note t2 = useSkills_tool_selects[OF example_routing_model e2 ne ask, unfolded Let_def]
  note t3 = useSkills_tool_selects[OF example_routing_model e3 ne ask, unfolded Let_def]
  have x1: "stripQuotes (trim '' \"beta\"\<newline>'') = ''beta''" by code_simp
  have x2: "stripQuotes (trim ''none'') = ''none''" by code_simp
  have x3: "stripQuotes (trim ''gamma'') = ''gamma''" by code_simp
  have u1: "toUpperCase ''beta'' \<noteq> ''NONE''" by code_simp
  have u2: "toUpperCase ''none'' = ''NONE''" by code_simp
  have u3: "toUpperCase ''gamma'' \<noteq> ''NONE''" by code_simp
  have f1: "find (\<lambda>s. sk_name s = ''beta'' \<or> fm_name (sk_metadata s) = ''beta'') exampleSkills
              = Some (exampleSkills ! 1)"
    by (simp add: exampleSkills_def)
  have f3: "find (\<lambda>s. sk_name s = ''gamma'' \<or> fm_name (sk_metadata s) = ''gamma'') exampleSkills = None"
    by (simp add: exampleSkills_def)
  have fmt: "''# Skill: '' @ fm_name (sk_metadata (exampleSkills ! 1)) @ ''\<newline>\<newline>'' @
             fm_description (sk_metadata (exampleSkills ! 1)) @
             ''\<newline>\<newline>## Instructions\<newline>\<newline>'' @ sk_content (exampleSkills ! 1)
               = ''# Skill: beta\<newline>\<newline>second\<newline>\<newline>## Instructions\<newline>\<newline>two''"
    by code_simp
  have msg: "?noMatch = ?text" by code_simp
  have line: "?line 1 (exampleSkills ! 1) = ''2. **beta** - second''" by code_simp
  have len: "(1::nat) < length exampleSkills" by (simp add: exampleSkills_def)
  have r1: "fst (useSkills_tool (plainHost (Some '' \"beta\"\<newline>'')) ?st ?fs ''write'')
              = Inr ''# Skill: beta\<newline>\<newline>second\<newline>\<newline>## Instructions\<newline>\<newline>two''"
    using conjunct2[OF t1] by (simp only: x1 u1 f1 fmt option.sel) simp
  have r2: "fst (useSkills_tool (plainHost (Some ''none'')) ?st ?fs ''write'') = Inr ?text"
    using conjunct2[OF t2] by (simp only: x2 u2 msg) simp
  have r3: "fst (useSkills_tool (plainHost (Some ''gamma'')) ?st ?fs ''write'') = Inr ?text"
    using conjunct2[OF t3] by (simp only: x3 u3 f3 msg) simp
  have "\<exists>j. occursAt ?noMatch (?line 1 (exampleSkills ! 1)) j"
    using conjunct1[OF t2] len by blast
  then have r4: "\<exists>j. occursAt ?text ''2. **beta** - second'' j"
    by (simp only: msg line)
  show ?thesis
    using example_routing_model e1 x1 r1 r2 r3 r4 by blast
qed

text \<open>
  Claim C4. One call of the tool sends at most one request to the model service. It
  sends none and returns the setup text when no routing model is configured; it sends
  none and returns the guidance text when no skill is enabled. When the one request it
  sends fails, it returns the no-match message and has sent that one request only.
\<close>

theorem useSkills_tool_requests:
  "length (snd (useSkills_tool h st fs request)) \<le> 1 \<and>
   (getRoutingModel st = None \<longrightarrow>
      useSkills_tool h st fs request = (Inr setupRequiredMessage, [])) \<and>
   (getRoutingModel st \<noteq> None \<longrightarrow> getEnabledSkillObjects h st fs = Inr [] \<longrightarrow>
      useSkills_tool h st fs request = (Inr noSkillsEnabledMessage, [])) \<and>
   (getRoutingModel st = Some m \<longrightarrow> getEnabledSkillObjects h st fs = Inr skills \<longrightarrow> skills \<noteq> [] \<longrightarrow>
    AI_ask h (routingPrompt skills request) m = None \<longrightarrow>
      useSkills_tool h st fs request =
        (Inr (formatNoMatchMessage skills), [(routingPrompt skills request, m)]))"
proof (intro conjI)
  show "length (snd (useSkills_tool h st fs request)) \<le> 1"
    by (simp add: useSkills_tool_def selectSkillWithAI_def Let_def
          split: option.splits sum.splits prod.splits)
  show "getRoutingModel st = None \<longrightarrow>
          useSkills_tool h st fs request = (Inr setupRequiredMessage, [])"
    by (simp add: useSkills_tool_def)
  show "getRoutingModel st \<noteq> None \<longrightarrow> getEnabledSkillObjects h st fs = Inr [] \<longrightarrow>
          useSkills_tool h st fs request = (Inr noSkillsEnabledMessage, [])"
    by (auto simp add: useSkills_tool_def)
  show "getRoutingModel st = Some m \<longrightarrow> getEnabledSkillObjects h st fs = Inr skills \<longrightarrow> skills \<noteq> [] \<longrightarrow>
          AI_ask h (routingPrompt skills request) m = None \<longrightarrow>
          useSkills_tool h st fs request =
            (Inr (formatNoMatchMessage skills), [(routingPrompt skills request, m)])"
    by (simp add: useSkills_tool_def selectSkillWithAI_def Let_def)
qed

theorem useSkills_tool_requests_witness:
  "useSkills_tool (plainHost None) (\<lambda>k. None) \<lparr>fs_cwd = ''/'', fs_nodes = []\<rparr> ''write'' = (Inr setupRequiredMessage, []) \<and>
   useSkills_tool (plainHost None) (setRoutingModel ''OpenAI_GPT4o-mini'' (\<lambda>k. None))
       \<lparr>fs_cwd = ''/'', fs_nodes = []\<rparr> ''write''
     = (Inr noSkillsEnabledMessage, []) \<and>
   useSkills_tool (plainHost None) (storage exampleWorld) (files exampleWorld) ''write''
     = (Inr (formatNoMatchMessage exampleSkills),
        [(routingPrompt exampleSkills ''write'', ''OpenAI_GPT4o-mini'')]) \<and>
   length (snd (useSkills_tool (plainHost (Some ''beta'')) (storage exampleWorld) (files exampleWorld) ''write'')) \<le> 1"
proof -
  have a: "getRoutingModel (\<lambda>k. None) = None" by code_simp
  have b: "getRoutingModel (setRoutingModel ''OpenAI_GPT4o-mini'' (\<lambda>k. None)) \<noteq> None" by code_simp
  have c: "getEnabledSkillObjects (plainHost None) (setRoutingModel ''OpenAI_GPT4o-mini'' (\<lambda>k. None))
             \<lparr>fs_cwd = ''/'', fs_nodes = []\<rparr> = Inr []"
    by code_simp
  have ne: "exampleSkills \<noteq> []" by (simp add: exampleSkills_def)
  have e: "getEnabledSkillObjects (plainHost None) (storage exampleWorld) (files exampleWorld) = Inr exampleSkills"
    by code_simp
  have ask: "AI_ask (plainHost None) (routingPrompt exampleSkills ''write'') ''OpenAI_GPT4o-mini'' = None"
    by (simp add: plainHost_def)
  have r1: "useSkills_tool (plainHost None) (\<lambda>k. None) \<lparr>fs_cwd = ''/'', fs_nodes = []\<rparr> ''write'' = (Inr setupRequiredMessage, [])"
    using useSkills_tool_requests[of "plainHost None" "\<lambda>k. None" "\<lparr>fs_cwd = ''/'', fs_nodes = []\<rparr>" "''write''"] a by blast
  have r2: "useSkills_tool (plainHost None) (setRoutingModel ''OpenAI_GPT4o-mini'' (\<lambda>k. None))
       \<lparr>fs_cwd = ''/'', fs_nodes = []\<rparr> ''write''
              = (Inr noSkillsEnabledMessage, [])"
    using useSkills_tool_requests[of "plainHost None" "setRoutingModel ''OpenAI_GPT4o-mini'' (\<lambda>k. None)"
            "\<lparr>fs_cwd = ''/'', fs_nodes = []\<rparr>" "''write''"]
      b c by blast
  have r3: "useSkills_tool (plainHost None) (storage exampleWorld) (files exampleWorld) ''write''
              = (Inr (formatNoMatchMessage exampleSkills),
                 [(routingPrompt exampleSkills ''write'', ''OpenAI_GPT4o-mini'')])"
    using useSkills_tool_requests[of "plainHost None" "storage exampleWorld" "files exampleWorld" "''write''"
            "''OpenAI_GPT4o-mini''" exampleSkills]
      example_routing_model e ne ask by blast
  have r4: "length (snd (useSkills_tool (plainHost (Some ''beta'')) (storage exampleWorld) (files exampleWorld) ''write'')) \<le> 1"
    using useSkills_tool_requests[of "plainHost (Some ''beta'')" "storage exampleWorld" "files exampleWorld" "''write''"]
    by blast
  show ?thesis using r1 r2 r3 r4 by blast
qed

section \<open>The enabled set\<close>

text \<open>
  Claim C5. Let the store hold an enabled list that \<open>getEnabledSkills\<close> reads (nothing,
  an empty or unparsable text, or a JSON array of strings). Then for every skill name
  \<open>n\<close>: after \<open>enableSkill n\<close>, \<open>isSkillEnabled n\<close> returns true; after
  \<open>disableSkill n\<close>, \<open>isSkillEnabled n\<close> returns false; both leave the enabled status of
  every other name as it was; and \<open>enableSkill\<close> of a name that is already enabled
  leaves the store as it is.
\<close>

theorem enable_disable_isSkillEnabled:
  assumes "getEnabledSkills st = Inr enabled"
  shows "(\<exists>st1. enableSkill n st = Inr st1 \<and> isSkillEnabled n st1 = Inr True \<and>
                (\<forall>m. m \<noteq> n \<longrightarrow> isSkillEnabled m st1 = isSkillEnabled m st)) \<and>
         (\<exists>st2. disableSkill n st = Inr st2 \<and> isSkillEnabled n st2 = Inr False \<and>
                (\<forall>m. m \<noteq> n \<longrightarrow> isSkillEnabled m st2 = isSkillEnabled m st)) \<and>
         (isSkillEnabled n st = Inr True \<longrightarrow> enableSkill n st = Inr st)"
proof (intro conjI)
  show "\<exists>st1. enableSkill n st = Inr st1 \<and> isSkillEnabled n st1 = Inr True \<and>
              (\<forall>m. m \<noteq> n \<longrightarrow> isSkillEnabled m st1 = isSkillEnabled m st)"
  proof (cases "n \<in> set enabled")
    case True
    then show ?thesis using assms by (simp add: enableSkill_def isSkillEnabled_def)
  next
    case False
    then show ?thesis
      using assms by (simp add: enableSkill_def isSkillEnabled_def getEnabledSkills_setItem)
  qed
  show "\<exists>st2. disableSkill n st = Inr st2 \<and> isSkillEnabled n st2 = Inr False \<and>
              (\<forall>m. m \<noteq> n \<longrightarrow> isSkillEnabled m st2 = isSkillEnabled m st)"
    using assms by (simp add: disableSkill_def isSkillEnabled_def getEnabledSkills_setItem)
  show "isSkillEnabled n st = Inr True \<longrightarrow> enableSkill n st = Inr st"
    using assms by (simp add: enableSkill_def isSkillEnabled_def)
qed

theorem enable_disable_isSkillEnabled_witness:
  "getEnabledSkills (setItem ENABLED_SKILLS_KEY ''[\"a\"]'' (\<lambda>k. None)) = Inr [''a''] \<and>
   (\<exists>st1. enableSkill ''b'' (setItem ENABLED_SKILLS_KEY ''[\"a\"]'' (\<lambda>k. None)) = Inr st1 \<and>
          isSkillEnabled ''b'' st1 = Inr True \<and> isSkillEnabled ''a'' st1 = Inr True) \<and>
   (\<exists>st2. disableSkill ''a'' (setItem ENABLED_SKILLS_KEY ''[\"a\"]'' (\<lambda>k. None)) = Inr st2 \<and>
          isSkillEnabled ''a'' st2 = Inr False) \<and>
   enableSkill ''a'' (setItem ENABLED_SKILLS_KEY ''[\"a\"]'' (\<lambda>k. None)) =
     Inr (setItem ENABLED_SKILLS_KEY ''[\"a\"]'' (\<lambda>k. None))"
proof -
  let ?st = "setItem ENABLED_SKILLS_KEY ''[\"a\"]'' (\<lambda>k. None)"
  have h: "getEnabledSkills ?st = Inr [''a'']"
    by code_simp
  have a: "isSkillEnabled ''a'' ?st = Inr True"
    by (simp add: isSkillEnabled_def h)
  note b = enable_disable_isSkillEnabled[OF h, of "''b''"]
  note c = enable_disable_isSkillEnabled[OF h, of "''a''"]
  from b obtain st1 where st1: "enableSkill ''b'' ?st = Inr st1" "isSkillEnabled ''b'' st1 = Inr True"
    "\<forall>m. m \<noteq> ''b'' \<longrightarrow> isSkillEnabled m st1 = isSkillEnabled m ?st"
    by blast
  have "isSkillEnabled ''a'' st1 = Inr True" using st1(3) a by simp
  then have one: "\<exists>st1. enableSkill ''b'' ?st = Inr st1 \<and> isSkillEnabled ''b'' st1 = Inr True \<and>
                   isSkillEnabled ''a'' st1 = Inr True"
    using st1(1,2) by blast
  from c have two: "\<exists>st2. disableSkill ''a'' ?st = Inr st2 \<and> isSkillEnabled ''a'' st2 = Inr False"
    by blast
  from c a have three: "enableSkill ''a'' ?st = Inr ?st" by blast
  show ?thesis using h one two three by blast
qed

section \<open>The folder list\<close>

lemma find_None_iff_lower:
  "(find (\<lambda>f. toLowerCase (f_path f) = toLowerCase p) folders = None) =
   (\<not> list_ex (\<lambda>f. toLowerCase (f_path f) = toLowerCase p) folders)"
  by (auto simp add: find_None_iff list_ex_iff)

text \<open>
  Claim C6. Let \<open>folders\<close> be the folder list that \<open>getSkillsFolders\<close> reads from the
  store. \<open>addSkillsFolderPath p label\<close> leaves the store as it is when the path of some
  folder equals \<open>p\<close> ignoring case (both in lower case are equal); otherwise the list read
  afterwards is \<open>folders\<close> with the entry of path \<open>p\<close> and the given label added at the
  end. After \<open>removeSkillsFolderPath p\<close> the list read is \<open>folders\<close> without the entries
  whose path equals \<open>p\<close> ignoring case, the others in their order.
\<close>

theorem folder_list_add_remove:
  assumes "getSkillsFolders h st = Inr folders"
  shows "(if list_ex (\<lambda>f. toLowerCase (f_path f) = toLowerCase p) folders
          then addSkillsFolderPath h p label st = Inr st
          else (\<exists>st'. addSkillsFolderPath h p label st = Inr st' \<and>
                      getSkillsFolders h st' = Inr (folders @ [\<lparr>f_path = p, f_label = label\<rparr>]))) \<and>
         (\<exists>st'. removeSkillsFolderPath h p st = Inr st' \<and>
                getSkillsFolders h st' =
                  Inr (filter (\<lambda>f. toLowerCase (f_path f) \<noteq> toLowerCase p) folders))"
  using assms
  by (simp add: addSkillsFolderPath_def removeSkillsFolderPath_def find_None_iff_lower
        getSkillsFolders_setItem)

theorem folder_list_add_remove_witness:
  "getSkillsFolders (plainHost None) (setItem SKILLS_FOLDER_KEY ''[{\"path\":\"/s/A\"}]'' (\<lambda>k. None))
     = Inr [\<lparr>f_path = ''/s/A'', f_label = None\<rparr>] \<and>
   addSkillsFolderPath (plainHost None) ''/s/a'' None
       (setItem SKILLS_FOLDER_KEY ''[{\"path\":\"/s/A\"}]'' (\<lambda>k. None))
     = Inr (setItem SKILLS_FOLDER_KEY ''[{\"path\":\"/s/A\"}]'' (\<lambda>k. None)) \<and>
   (\<exists>st'. addSkillsFolderPath (plainHost None) ''/t'' (Some ''T'')
            (setItem SKILLS_FOLDER_KEY ''[{\"path\":\"/s/A\"}]'' (\<lambda>k. None)) = Inr st' \<and>
          getSkillsFolders (plainHost None) st' =
            Inr [\<lparr>f_path = ''/s/A'', f_label = None\<rparr>, \<lparr>f_path = ''/t'', f_label = Some ''T''\<rparr>]) \<and>
   (\<exists>st'. removeSkillsFolderPath (plainHost None) ''/S/a''
            (setItem SKILLS_FOLDER_KEY ''[{\"path\":\"/s/A\"}]'' (\<lambda>k. None)) = Inr st' \<and>
          getSkillsFolders (plainHost None) st' = Inr [])"
proof -
  let ?st = "setItem SKILLS_FOLDER_KEY ''[{\"path\":\"/s/A\"}]'' (\<lambda>k. None)"
  let ?h = "plainHost None"
  have h: "getSkillsFolders ?h ?st = Inr [\<lparr>f_path = ''/s/A'', f_label = None\<rparr>]"
    by code_simp
  have l1: "toLowerCase ''/s/A'' = toLowerCase ''/s/a''" by code_simp
  have l2: "toLowerCase ''/s/A'' \<noteq> toLowerCase ''/t''" by code_simp
  have l3: "toLowerCase ''/s/A'' = toLowerCase ''/S/a''" by code_simp
  have one: "addSkillsFolderPath ?h ''/s/a'' None ?st = Inr ?st"
    using folder_list_add_remove[OF h, of "''/s/a''" None] l1 by simp
  have two: "\<exists>st'. addSkillsFolderPath ?h ''/t'' (Some ''T'') ?st = Inr st' \<and>
          getSkillsFolders ?h st' =
            Inr [\<lparr>f_path = ''/s/A'', f_label = None\<rparr>, \<lparr>f_path = ''/t'', f_label = Some ''T''\<rparr>]"
    using folder_list_add_remove[OF h, of "''/t''" "Some ''T''"] l2 by simp
  have three: "\<exists>st'. removeSkillsFolderPath ?h ''/S/a'' ?st = Inr st' \<and> getSkillsFolders ?h st' = Inr []"
    using folder_list_add_remove[OF h, of "''/S/a''"] l3 by simp
  show ?thesis using h one two three by blast
qed

section \<open>The remove-skills-folder tool\<close>

text \<open>
  When the given path is not one of the configured paths, or only one folder is
  configured, the tool reports it and leaves the state as it is.
\<close>

lemma removeSkillsFolder_tool_refuses:
  assumes "getSkillsFolderPaths h (storage w) = Inr paths"
    and "folderPath \<notin> set paths \<or> length paths = 1"
  shows "fst (removeSkillsFolder_tool h folderPath w) = w \<and>
         (snd (removeSkillsFolder_tool h folderPath w) = Inr (FolderNotFound folderPath) \<or>
          snd (removeSkillsFolder_tool h folderPath w) = Inr CannotRemoveOnlyFolder)"
  using assms by (auto simp add: removeSkillsFolder_tool_def)

text \<open>
  Claim C7, at least one folder remains. The folder list is set to \<open>/skills/a\<close>,
  \<open>/skills/b\<close> is added, and the second entry is changed to \<open>/skills/A\<close>
  (\<open>updateSkillsFolderPath\<close> does not look for an equal path). The tool is then asked to
  remove \<open>/skills/A\<close>: the path is in the list and the list has two entries, so it calls
  \<open>removeSkillsFolderPath\<close>, which drops both entries; the stored list is empty.
\<close>

theorem removeSkillsFolder_tool_leaves_none:
  "(let h = plainHost None;
        st0 = setSkillsFolderPath ''/skills/a'' (\<lambda>k. None);
        st1 = projr (addSkillsFolderPath h ''/skills/b'' None st0);
        st2 = fst (projr (updateSkillsFolderPath h ''/skills/b'' ''/skills/A'' None st1));
        r = removeSkillsFolder_tool h ''/skills/A'' \<lparr>storage = st2, files = \<lparr>fs_cwd = ''/'', fs_nodes = []\<rparr>\<rparr>
    in getSkillsFolderPaths h st2 = Inr [''/skills/a'', ''/skills/A''] \<and>
       snd r = Inr (FolderRemoved ''/skills/A'' [] 0) \<and>
       getItem (storage (fst r)) SKILLS_FOLDER_KEY = Some ''[]'' \<and>
       getSkillsFolders h (storage (fst r)) = Inr [])"
  by code_simp

section \<open>What is written to the store\<close>

lemma createSkill_store:
  "storage (fst (createSkill h name description content folderPath w)) = storage w \<or>
   (\<exists>st'. enableSkill name (storage w) = Inr st' \<and>
          storage (fst (createSkill h name description content folderPath w)) = st')"
  by (auto simp add: createSkill_def Let_def split: sum.splits option.splits if_splits)

lemma updateSkill_store:
  "storage (fst (updateSkill h name updates w)) = storage w \<or>
   (\<exists>enabled newName.
      u_newName updates = Given newName \<and> getEnabledSkills (storage w) = Inr enabled \<and>
      name \<in> set enabled \<and>
      storage (fst (updateSkill h name updates w)) =
        setItem ENABLED_SKILLS_KEY (namesText (filter (\<lambda>m. m \<noteq> name) enabled @ [newName])) (storage w))"
proof (cases "findSkill h (storage w) (files w) name")
  case (Inl e)
  then show ?thesis by (simp add: updateSkill_def)
next
  case (Inr found)
  show ?thesis
  proof (cases found)
    case None
    with Inr show ?thesis by (simp add: updateSkill_def)
  next
    case (Some skill)
    show ?thesis
    proof (cases "u_newName updates")
      case Absent
      with Inr Some show ?thesis
        by (simp add: updateSkill_def propValue_def Let_def split: option.splits)
    next
      case Undefined
      with Inr Some show ?thesis
        by (simp add: updateSkill_def propValue_def Let_def split: option.splits)
    next
      case (Given newName)
      show ?thesis
      proof (cases "newName = [] \<or> newName = name")
        case True
        with Inr Some Given show ?thesis
          by (auto simp add: updateSkill_def propValue_def Let_def split: option.splits)
      next
        case False
        show ?thesis
        proof (cases "getEnabledSkills (storage w)")
          case (Inl e)
          with Inr Some Given False show ?thesis
            by (simp add: updateSkill_def propValue_def Let_def)
        next
          case enabled: (Inr enabled)
          show ?thesis
          proof (cases "name \<in> set enabled")
            case True
            with Inr Some Given False enabled show ?thesis
              by (simp add: updateSkill_def propValue_def Let_def split: option.splits)
          next
            case notin: False
            with Inr Some Given False enabled show ?thesis
              by (simp add: updateSkill_def propValue_def Let_def split: option.splits)
          qed
        qed
      qed
    qed
  qed
qed

text \<open>
  Claim C8, as amended. Every write of \<open>storage.ts\<close> under the folder key and under
  the enabled-skills key stores \<open>JSON.stringify\<close> of the list that the operation has
  computed, and \<open>JSON.parse\<close> reads that list back from the text. With \<open>folders\<close> the
  folder list read from the store: \<open>addSkillsFolderPath\<close> writes nothing when a path
  equals the given one ignoring case, and else the list with the new entry at its end;
  \<open>removeSkillsFolderPath\<close> writes the list without the entries of that path;
  \<open>updateSkillsFolderPath\<close> writes nothing when no path matches, and else the list with
  the first matching entry replaced; \<open>setSkillsFolderPath\<close> writes the list of the one
  entry. With \<open>enabled\<close> the enabled list read from the store: \<open>enableSkill\<close> writes
  nothing for an enabled name, and else the list with the name at its end; \<open>disableSkill\<close>
  writes the list without the name; \<open>setEnabledSkillNames\<close> writes the given names, each
  once; \<open>createSkill\<close> writes nothing or what \<open>enableSkill\<close> writes, and where it
  succeeds exactly what \<open>enableSkill\<close> writes; \<open>updateSkill\<close>
  writes nothing or, at a rename of an enabled skill, the list without the old name and
  with the new name at its end. \<open>setRoutingModel\<close> stores the model string itself;
  \<open>getRoutingModel\<close> returns the stored string, and \<open>null\<close> for the empty string.
\<close>

theorem stored_values:
  "(getSkillsFolders h st = Inr folders \<longrightarrow>
      addSkillsFolderPath h p label st =
        Inr (if list_ex (\<lambda>f. toLowerCase (f_path f) = toLowerCase p) folders then st
             else setItem SKILLS_FOLDER_KEY
                    (JSON_stringify (JArr (map folderValue (folders @ [\<lparr>f_path = p, f_label = label\<rparr>])))) st) \<and>
      removeSkillsFolderPath h p st =
        Inr (setItem SKILLS_FOLDER_KEY
               (JSON_stringify
                  (JArr (map folderValue (filter (\<lambda>f. toLowerCase (f_path f) \<noteq> toLowerCase p) folders)))) st) \<and>
      updateSkillsFolderPath h p p' label st =
        Inr (case findIndex (\<lambda>f. toLowerCase (f_path f) = toLowerCase p) folders of
               None \<Rightarrow> (st, False)
             | Some i \<Rightarrow>
                 (setItem SKILLS_FOLDER_KEY
                    (JSON_stringify (JArr (map folderValue (folders[i := \<lparr>f_path = p', f_label = label\<rparr>])))) st,
                  True))) \<and>
   setSkillsFolderPath p st =
     setItem SKILLS_FOLDER_KEY (JSON_stringify (JArr [JObj [(''path'', JStr p)]])) st \<and>
   (getEnabledSkills st = Inr enabled \<longrightarrow>
      enableSkill n st =
        Inr (if n \<in> set enabled then st
             else setItem ENABLED_SKILLS_KEY (JSON_stringify (JArr (map JStr (enabled @ [n])))) st) \<and>
      disableSkill n st =
        Inr (setItem ENABLED_SKILLS_KEY
               (JSON_stringify (JArr (map JStr (filter (\<lambda>m. m \<noteq> n) enabled)))) st)) \<and>
   (\<exists>unique. setEnabledSkillNames names st =
               setItem ENABLED_SKILLS_KEY (JSON_stringify (JArr (map JStr unique))) st \<and>
             set unique = set names \<and> distinct unique) \<and>
   (storage (fst (createSkill h name description content folderPath w)) = storage w \<or>
    (\<exists>enabled'. getEnabledSkills (storage w) = Inr enabled' \<and> name \<notin> set enabled' \<and>
       storage (fst (createSkill h name description content folderPath w)) =
         setItem ENABLED_SKILLS_KEY (JSON_stringify (JArr (map JStr (enabled' @ [name])))) (storage w))) \<and>
   (createSkill h name description content folderPath w = (w', Inr skill) \<longrightarrow>
    getEnabledSkills (storage w) = Inr enabled \<longrightarrow>
      storage w' =
        (if name \<in> set enabled then storage w
         else setItem ENABLED_SKILLS_KEY (JSON_stringify (JArr (map JStr (enabled @ [name])))) (storage w))) \<and>
   (storage (fst (updateSkill h name updates w)) = storage w \<or>
    (\<exists>enabled' newName.
       u_newName updates = Given newName \<and> getEnabledSkills (storage w) = Inr enabled' \<and>
       name \<in> set enabled' \<and>
       storage (fst (updateSkill h name updates w)) =
         setItem ENABLED_SKILLS_KEY
           (JSON_stringify (JArr (map JStr (filter (\<lambda>m. m \<noteq> name) enabled' @ [newName])))) (storage w))) \<and>
   JSON_parse (JSON_stringify (JArr (map folderValue fs))) = Inr (JArr (map folderValue fs)) \<and>
   JSON_parse (JSON_stringify (JArr (map JStr xs))) = Inr (JArr (map JStr xs)) \<and>
   setRoutingModel model st = setItem ROUTING_MODEL_KEY model st \<and>
   getItem (setRoutingModel model st) ROUTING_MODEL_KEY = Some model \<and>
   getRoutingModel (setRoutingModel model st) = (if model = [] then None else Some model)"
proof (intro conjI impI)
  assume f: "getSkillsFolders h st = Inr folders"
  show "addSkillsFolderPath h p label st =
          Inr (if list_ex (\<lambda>f. toLowerCase (f_path f) = toLowerCase p) folders then st
               else setItem SKILLS_FOLDER_KEY
                      (JSON_stringify (JArr (map folderValue (folders @ [\<lparr>f_path = p, f_label = label\<rparr>])))) st)"
    using f by (simp add: addSkillsFolderPath_def foldersText_def find_None_list_ex)
  show "removeSkillsFolderPath h p st =
          Inr (setItem SKILLS_FOLDER_KEY
                 (JSON_stringify
                    (JArr (map folderValue (filter (\<lambda>f. toLowerCase (f_path f) \<noteq> toLowerCase p) folders)))) st)"
    using f by (simp add: removeSkillsFolderPath_def foldersText_def)
  show "updateSkillsFolderPath h p p' label st =
          Inr (case findIndex (\<lambda>f. toLowerCase (f_path f) = toLowerCase p) folders of
                 None \<Rightarrow> (st, False)
               | Some i \<Rightarrow>
                   (setItem SKILLS_FOLDER_KEY
                      (JSON_stringify (JArr (map folderValue (folders[i := \<lparr>f_path = p', f_label = label\<rparr>])))) st,
                    True))"
    using f by (simp add: updateSkillsFolderPath_def foldersText_def split: option.splits)
next
  show "setSkillsFolderPath p st =
          setItem SKILLS_FOLDER_KEY (JSON_stringify (JArr [JObj [(''path'', JStr p)]])) st"
    by (simp add: setSkillsFolderPath_def foldersText_def folderValue_def)
next
  assume e: "getEnabledSkills st = Inr enabled"
  show "enableSkill n st =
          Inr (if n \<in> set enabled then st
               else setItem ENABLED_SKILLS_KEY (JSON_stringify (JArr (map JStr (enabled @ [n])))) st)"
    using e by (simp add: enableSkill_def namesText_def)
  show "disableSkill n st =
          Inr (setItem ENABLED_SKILLS_KEY
                 (JSON_stringify (JArr (map JStr (filter (\<lambda>m. m \<noteq> n) enabled)))) st)"
    using e by (simp add: disableSkill_def namesText_def)
next
  have "setEnabledSkillNames names st =
          setItem ENABLED_SKILLS_KEY (JSON_stringify (JArr (map JStr (setFromArray [] names)))) st"
    by (simp add: setEnabledSkillNames_def namesText_def)
  moreover have "set (setFromArray [] names) = set names" by (simp add: set_setFromArray)
  moreover have "distinct (setFromArray [] names)" by (simp add: distinct_setFromArray)
  ultimately show "\<exists>unique. setEnabledSkillNames names st =
                     setItem ENABLED_SKILLS_KEY (JSON_stringify (JArr (map JStr unique))) st \<and>
                   set unique = set names \<and> distinct unique"
    by blast
next
  let ?st' = "storage (fst (createSkill h name description content folderPath w))"
  show "?st' = storage w \<or>
        (\<exists>enabled'. getEnabledSkills (storage w) = Inr enabled' \<and> name \<notin> set enabled' \<and>
           ?st' = setItem ENABLED_SKILLS_KEY (JSON_stringify (JArr (map JStr (enabled' @ [name])))) (storage w))"
    using createSkill_store[of h name description content folderPath w]
    by (auto simp add: enableSkill_def namesText_def split: sum.splits if_splits)
next
  assume "createSkill h name description content folderPath w = (w', Inr skill)"
    and "getEnabledSkills (storage w) = Inr enabled"
  then show "storage w' =
          (if name \<in> set enabled then storage w
           else setItem ENABLED_SKILLS_KEY (JSON_stringify (JArr (map JStr (enabled @ [name])))) (storage w))"
    by (auto simp add: createSkill_def enableSkill_def namesText_def Let_def
          split: sum.splits option.splits if_splits)
next
  show "storage (fst (updateSkill h name updates w)) = storage w \<or>
        (\<exists>enabled' newName.
           u_newName updates = Given newName \<and> getEnabledSkills (storage w) = Inr enabled' \<and>
           name \<in> set enabled' \<and>
           storage (fst (updateSkill h name updates w)) =
             setItem ENABLED_SKILLS_KEY
               (JSON_stringify (JArr (map JStr (filter (\<lambda>m. m \<noteq> name) enabled' @ [newName])))) (storage w))"
    using updateSkill_store[of h name updates w] unfolding namesText_def .
next
  show "JSON_parse (JSON_stringify (JArr (map folderValue fs))) = Inr (JArr (map folderValue fs))"
    using JSON_parse_foldersText[of fs] by (simp add: foldersText_def)
  show "JSON_parse (JSON_stringify (JArr (map JStr xs))) = Inr (JArr (map JStr xs))"
    using JSON_parse_namesText[of xs] by (simp add: namesText_def)
  show "setRoutingModel model st = setItem ROUTING_MODEL_KEY model st"
    by (simp add: setRoutingModel_def)
  show "getItem (setRoutingModel model st) ROUTING_MODEL_KEY = Some model"
    by (simp add: setRoutingModel_def getItem_setItem)
  show "getRoutingModel (setRoutingModel model st) = (if model = [] then None else Some model)"
    by (simp add: getRoutingModel_def setRoutingModel_def getItem_setItem)
qed

theorem stored_values_witness:
  "getSkillsFolders (plainHost None) (\<lambda>k. None)
     = Inr [\<lparr>f_path = ''/home/u/.claude/skills'', f_label = None\<rparr>] \<and>
   addSkillsFolderPath (plainHost None) ''/t'' (Some ''T'') (\<lambda>k. None)
     = Inr (setItem SKILLS_FOLDER_KEY
              ''[{\"path\":\"/home/u/.claude/skills\"},{\"path\":\"/t\",\"label\":\"T\"}]'' (\<lambda>k. None)) \<and>
   removeSkillsFolderPath (plainHost None) ''/HOME/u/.claude/skills'' (\<lambda>k. None)
     = Inr (setItem SKILLS_FOLDER_KEY ''[]'' (\<lambda>k. None)) \<and>
   getEnabledSkills (\<lambda>k. None) = Inr [] \<and>
   enableSkill ''a'' (\<lambda>k. None) = Inr (setItem ENABLED_SKILLS_KEY ''[\"a\"]'' (\<lambda>k. None)) \<and>
   JSON_parse ''[\"a\"]'' = Inr (JArr [JStr ''a'']) \<and>
   getRoutingModel (setRoutingModel ''OpenAI_GPT4o-mini'' (\<lambda>k. None)) = Some ''OpenAI_GPT4o-mini''"
proof -
  let ?h = "plainHost None" and ?st = "(\<lambda>k. None) :: LocalStorage"
  let ?folders = "[\<lparr>f_path = ''/home/u/.claude/skills'', f_label = None\<rparr>]"
  have f: "getSkillsFolders ?h ?st = Inr ?folders" by code_simp
  have e: "getEnabledSkills ?st = Inr []" by code_simp
  note s = stored_values[where h = ?h and st = ?st and folders = ?folders and enabled = "[]"
      and n = "''a''" and xs = "[''a'']" and model = "''OpenAI_GPT4o-mini''"]
  have hit1: "\<not> list_ex (\<lambda>f. toLowerCase (f_path f) = toLowerCase ''/t'') ?folders" by code_simp
  have t1: "JSON_stringify (JArr (map folderValue (?folders @ [\<lparr>f_path = ''/t'', f_label = Some ''T''\<rparr>])))
              = ''[{\"path\":\"/home/u/.claude/skills\"},{\"path\":\"/t\",\"label\":\"T\"}]''"
    by code_simp
  have t2: "JSON_stringify
              (JArr (map folderValue
                 (filter (\<lambda>f. toLowerCase (f_path f) \<noteq> toLowerCase ''/HOME/u/.claude/skills'') ?folders)))
              = ''[]''"
    by code_simp
  have t3: "JSON_stringify (JArr (map JStr ([] @ [''a'']))) = ''[\"a\"]''" by code_simp
  have t4: "JSON_stringify (JArr (map JStr [''a''])) = ''[\"a\"]''" by code_simp
  have folderPart:
    "addSkillsFolderPath ?h p label ?st =
       Inr (if list_ex (\<lambda>f. toLowerCase (f_path f) = toLowerCase p) ?folders then ?st
            else setItem SKILLS_FOLDER_KEY
                   (JSON_stringify (JArr (map folderValue (?folders @ [\<lparr>f_path = p, f_label = label\<rparr>])))) ?st)"
    "removeSkillsFolderPath ?h p ?st =
       Inr (setItem SKILLS_FOLDER_KEY
              (JSON_stringify
                 (JArr (map folderValue (filter (\<lambda>f. toLowerCase (f_path f) \<noteq> toLowerCase p) ?folders)))) ?st)"
    for p label
    using s[where p = p and label = label, THEN conjunct1] f by blast+
  note rest = s[THEN conjunct2, THEN conjunct2]
  have enablePart:
    "enableSkill ''a'' ?st =
       Inr (if ''a'' \<in> set [] then ?st
            else setItem ENABLED_SKILLS_KEY (JSON_stringify (JArr (map JStr ([] @ [''a''])))) ?st)"
    using rest[THEN conjunct1] e by blast
  note rest' = rest[THEN conjunct2, THEN conjunct2, THEN conjunct2, THEN conjunct2, THEN conjunct2,
      THEN conjunct2]
  have a: "addSkillsFolderPath ?h ''/t'' (Some ''T'') ?st
             = Inr (setItem SKILLS_FOLDER_KEY
                      ''[{\"path\":\"/home/u/.claude/skills\"},{\"path\":\"/t\",\"label\":\"T\"}]'' ?st)"
    using folderPart(1)[of "''/t''" "Some ''T''"] hit1 by (simp only: t1 if_False)
  have r: "removeSkillsFolderPath ?h ''/HOME/u/.claude/skills'' ?st
             = Inr (setItem SKILLS_FOLDER_KEY ''[]'' ?st)"
    using folderPart(2)[of "''/HOME/u/.claude/skills''"] by (simp only: t2)
  have en: "enableSkill ''a'' ?st = Inr (setItem ENABLED_SKILLS_KEY ''[\"a\"]'' ?st)"
    using enablePart by (simp only: t3) simp
  have p: "JSON_parse ''[\"a\"]'' = Inr (JArr [JStr ''a''])"
    using rest'[THEN conjunct1] by (simp only: t4) simp
  have m: "getRoutingModel (setRoutingModel ''OpenAI_GPT4o-mini'' ?st) = Some ''OpenAI_GPT4o-mini''"
    using rest'[THEN conjunct2, THEN conjunct2, THEN conjunct2] by simp
  show ?thesis using f a r e en p m by (intro conjI)
qed

text \<open>
  Claim C8 as stated fails for the routing model: \<open>setRoutingModel\<close> stores the model
  key as it is. The stored text is not a JSON document (\<open>JSON.parse\<close> throws a
  SyntaxError on it), and it differs from \<open>JSON.stringify\<close> of the model string, which
  has quotation marks around it.
\<close>

theorem routing_model_stored_raw:
  "getItem (setRoutingModel ''OpenAI_GPT4o-mini'' (\<lambda>k. None)) ROUTING_MODEL_KEY = Some ''OpenAI_GPT4o-mini'' \<and>
   JSON_parse ''OpenAI_GPT4o-mini'' = Inl SyntaxError \<and>
   JSON_stringify (JStr ''OpenAI_GPT4o-mini'') = ''\"OpenAI_GPT4o-mini\"'' \<and>
   JSON_stringify (JStr ''OpenAI_GPT4o-mini'') \<noteq> ''OpenAI_GPT4o-mini''"
  by code_simp

section \<open>The set-skills-folder tool\<close>





section \<open>Duplicates in the enabled list\<close>

text \<open>
  \<open>enableSkill\<close>, \<open>disableSkill\<close> and \<open>setEnabledSkillNames\<close> write a list without
  duplicates when the list they read has none (\<open>setEnabledSkillNames\<close> reads none).
\<close>

lemma enabled_writers_keep_distinct:
  assumes "getEnabledSkills st = Inr enabled" and "distinct enabled"
  shows "(\<exists>st' enabled'. enableSkill n st = Inr st' \<and> getEnabledSkills st' = Inr enabled' \<and> distinct enabled') \<and>
         (\<exists>st' enabled'. disableSkill n st = Inr st' \<and> getEnabledSkills st' = Inr enabled' \<and> distinct enabled') \<and>
         (\<exists>enabled'. getEnabledSkills (setEnabledSkillNames names st) = Inr enabled' \<and> distinct enabled')"
  using assms
  by (auto simp add: enableSkill_def disableSkill_def setEnabledSkillNames_def
        getEnabledSkills_setItem distinct_setFromArray)

text \<open>
  Claim C10, the rename step of \<open>updateSkill\<close>. Two skills \<open>alpha\<close> and \<open>beta\<close> are
  created (both enabled by \<open>createSkill\<close>), \<open>beta\<close> is deleted (\<open>deleteSkill\<close> leaves the
  enabled list alone), and \<open>alpha\<close> is renamed to \<open>beta\<close>. Before the rename the stored
  list is \<open>["alpha","beta"]\<close>, without duplicates; the rename succeeds and stores
  \<open>["beta","beta"]\<close>.
\<close>

theorem updateSkill_rename_duplicates:
  "(let h = plainHost None;
        w0 = \<lparr>storage = (\<lambda>k. None),
              files = \<lparr>fs_cwd = ''/'', fs_nodes = [(''/home'', Dir), (''/home/u'', Dir)]\<rparr>\<rparr>;
        w1 = fst (createSkill h ''alpha'' ''first'' ''one'' None w0);
        w2 = fst (createSkill h ''beta'' ''second'' ''two'' None w1);
        w3 = fst (deleteSkill h ''beta'' w2);
        r = updateSkill h ''alpha''
              \<lparr>u_newName = Given ''beta'', u_description = Given ''first'', u_content = Given ''one''\<rparr> w3
    in getEnabledSkills (storage w3) = Inr [''alpha'', ''beta''] \<and>
       getItem (storage (fst r)) ENABLED_SKILLS_KEY = Some ''[\"beta\",\"beta\"]'' \<and>
       getEnabledSkills (storage (fst r)) = Inr [''beta'', ''beta''] \<and>
       map_sum id (map_option us_name) (snd r) = Inr (Some ''beta''))"
  by code_simp

end
